theory Spec2Isabelle
  imports Complex_Main "HOL-Library.Sublist"
begin

section \<open>Python values used by browser.py\<close>

text \<open>
  Values produced by \<open>json.loads\<close>. A Python dict is an association list read with
  \<open>map_of\<close>; a float is the exact rational value of the double. \<open>JNonFinite\<close>
  stands for the NaN and Infinity literals that Python's json module also accepts.
  Strings are lists of 8-bit characters.
\<close>

datatype json =
    JNull
  | JBool bool
  | JInt int
  | JFloat rat
  | JNonFinite
  | JStr string
  | JArr "json list"
  | JObj "(string \<times> json) list"

datatype exn_class =
    AttributeError | TypeError | KeyError | IndexError | ValueError | JSONDecodeError
  | FileNotFoundError | FileExistsError | PermissionError | OSError | WebSocketException

text \<open>An exception object: its class and \<open>str(e)\<close>.\<close>

datatype exn = Exc exn_class string

text \<open>How a call ends when it does not return: \<open>sys.exit(n)\<close> or a propagating exception.\<close>

datatype abort = SysExit int | Raised exn

text \<open>Python truthiness (\<open>if x\<close>, \<open>not x\<close>, \<open>x or y\<close>).\<close>

fun truthy :: "json \<Rightarrow> bool" where
  "truthy JNull = False"
| "truthy (JBool b) = b"
| "truthy (JInt n) = (n \<noteq> 0)"
| "truthy (JFloat q) = (q \<noteq> 0)"
| "truthy JNonFinite = True"
| "truthy (JStr s) = (s \<noteq> [])"
| "truthy (JArr xs) = (xs \<noteq> [])"
| "truthy (JObj kvs) = (kvs \<noteq> [])"

text \<open>\<open>d.get(k, default)\<close>: only a dict has the method.\<close>

definition py_get :: "json \<Rightarrow> string \<Rightarrow> json \<Rightarrow> exn + json" where
  "py_get d k dflt =
     (case d of
        JObj kvs \<Rightarrow> Inr (case map_of kvs k of None \<Rightarrow> dflt | Some v \<Rightarrow> v)
      | _ \<Rightarrow> Inl (Exc AttributeError ''object has no attribute get''))"

text \<open>\<open>d[k]\<close> with a string key.\<close>

definition py_getitem :: "json \<Rightarrow> string \<Rightarrow> exn + json" where
  "py_getitem d k =
     (case d of
        JObj kvs \<Rightarrow> (case map_of kvs k of None \<Rightarrow> Inl (Exc KeyError k) | Some v \<Rightarrow> Inr v)
      | _ \<Rightarrow> Inl (Exc TypeError ''bad subscript''))"

text \<open>\<open>for t in x\<close>: a list gives its elements, a dict its keys, a string its characters.\<close>

definition py_iter :: "json \<Rightarrow> exn + json list" where
  "py_iter x =
     (case x of
        JArr xs \<Rightarrow> Inr xs
      | JObj kvs \<Rightarrow> Inr (map (\<lambda>kv. JStr (fst kv)) kvs)
      | JStr s \<Rightarrow> Inr (map (\<lambda>c. JStr [c]) s)
      | _ \<Rightarrow> Inl (Exc TypeError ''object is not iterable''))"

text \<open>\<open>len(x)\<close>.\<close>

definition py_len :: "json \<Rightarrow> exn + nat" where
  "py_len x =
     (case x of
        JArr xs \<Rightarrow> Inr (length xs)
      | JObj kvs \<Rightarrow> Inr (length kvs)
      | JStr s \<Rightarrow> Inr (length s)
      | _ \<Rightarrow> Inl (Exc TypeError ''object has no len''))"

text \<open>\<open>x == n\<close> for an int literal: \<open>True == 1\<close> and \<open>1.0 == 1\<close> hold in Python.\<close>

definition py_eq_int :: "json \<Rightarrow> int \<Rightarrow> bool" where
  "py_eq_int v n =
     (case v of
        JInt m \<Rightarrow> m = n
      | JFloat q \<Rightarrow> q = of_int n
      | JBool b \<Rightarrow> (if b then 1 else 0) = n
      | _ \<Rightarrow> False)"

text \<open>\<open>x == "lit"\<close> for a string literal.\<close>

definition py_eq_str :: "json \<Rightarrow> string \<Rightarrow> bool" where
  "py_eq_str v s = (v = JStr s)"

subsection \<open>String methods\<close>

definition sq :: string where
  "sq = [CHR 0x27]"

definition startswith :: "string \<Rightarrow> string \<Rightarrow> bool" where
  "startswith s p = prefix p s"

definition lower_char :: "char \<Rightarrow> char" where
  "lower_char c =
     (if (65::nat) \<le> of_char c \<and> of_char c \<le> (90::nat)
      then char_of (of_char c + (32::nat)) else c)"

definition lower :: "string \<Rightarrow> string" where
  "lower s = map lower_char s"

text \<open>\<open>needle in s\<close> for strings.\<close>

fun contains_str :: "string \<Rightarrow> string \<Rightarrow> bool" where
  "contains_str needle [] = (needle = [])"
| "contains_str needle (y # ys) = (prefix needle (y # ys) \<or> contains_str needle ys)"

text \<open>\<open>s.split(c)\<close> for a one-character separator.\<close>

fun split_on :: "char \<Rightarrow> string \<Rightarrow> string list" where
  "split_on c [] = [Nil]"
| "split_on c (x # xs) =
     (if x = c then [] # split_on c xs
      else (case split_on c xs of [] \<Rightarrow> [x # Nil] | p # ps \<Rightarrow> (x # p) # ps))"

text \<open>\<open>xs[i]\<close> for a non-negative literal index.\<close>

definition list_index :: "'a list \<Rightarrow> nat \<Rightarrow> exn + 'a" where
  "list_index xs i =
     (if i < length xs then Inr (xs ! i) else Inl (Exc IndexError ''list index out of range''))"

text \<open>The characters \<open>str.strip()\<close> removes, among the code points below 256.\<close>

definition is_space :: "char \<Rightarrow> bool" where
  "is_space c =
     (let n = (of_char c :: nat)
      in (9 \<le> n \<and> n \<le> 13) \<or> (28 \<le> n \<and> n \<le> 32) \<or> n = 133 \<or> n = 160)"

definition strip :: "string \<Rightarrow> string" where
  "strip s = rev (dropWhile is_space (rev (dropWhile is_space s)))"

text \<open>\<open>" ".join(xs)\<close>.\<close>

fun join_sp :: "string list \<Rightarrow> string" where
  "join_sp [] = []"
| "join_sp [x] = x"
| "join_sp (x # y # ys) = x @ '' '' @ join_sp (y # ys)"

text \<open>\<open>s.replace("'", "\\'")\<close>.\<close>

definition escape_quotes :: "string \<Rightarrow> string" where
  "escape_quotes s = concat (map (\<lambda>c. if c = CHR 0x27 then [CHR 0x5C, CHR 0x27] else [c]) s)"

section \<open>The world the script runs in\<close>

text \<open>
  Library functions whose results the script only passes on. \<open>json_loads\<close> gives the
  message of the JSONDecodeError on the left. \<open>py_float\<close> is \<open>float(s)\<close>, with
  \<open>None\<close> where it raises or where the value is not a finite number.
\<close>

record pylib =
  json_loads :: "string \<Rightarrow> string + json"
  json_dumps :: "json \<Rightarrow> string"
  json_dumps_indent2 :: "json \<Rightarrow> string"
  py_str :: "json \<Rightarrow> string"
  py_float :: "string \<Rightarrow> rat option"
  b64encode :: "string \<Rightarrow> string"
  b64decode :: "json \<Rightarrow> exn + string"
  path_resolve :: "string \<Rightarrow> string"
  path_parent :: "string \<Rightarrow> string"

text \<open>What \<open>urlopen(...)\<close> followed by \<open>json.loads(resp.read())\<close> does.\<close>

datatype http_result =
    HttpJson json
  | HttpUnreachable
  | HttpRaises exn

text \<open>What \<open>json.loads(ws.recv())\<close> does.\<close>

datatype recv_result = Recv json | RecvRaises exn

datatype ws_event = WsOpen nat string | WsSend nat json | WsClose nat

text \<open>
  The state of the machine and the behaviour of everything outside the script.
  The fields \<open>http_resp\<close>, \<open>ws_connect\<close>, \<open>ws_send_res\<close>, \<open>ws_incoming\<close>,
  \<open>popen_res\<close> and \<open>run_res\<close> say what the k-th request, connection or process
  call does; the script never changes them. \<open>locked\<close> holds the paths on which the
  operating system refuses to write, unlink or create.
\<close>

record world =
  lib :: pylib
  files :: "string \<rightharpoonup> string"
  dirs :: "string set"
  locked :: "string set"
  chrome_bin :: string
  DEBUG_PORT :: int
  stdout :: "string list"
  stderr :: "string list"
  sleeps :: "rat list"
  http_reqs :: "(int \<times> string) list"
  http_resp :: "nat \<Rightarrow> string \<Rightarrow> http_result"
  ws_n :: nat
  ws_log :: "ws_event list"
  ws_connect :: "nat \<Rightarrow> string \<Rightarrow> exn option"
  ws_send_res :: "nat \<Rightarrow> exn option"
  ws_incoming :: "nat \<Rightarrow> nat \<Rightarrow> recv_result"
  spawned :: "string list list"
  popen_res :: "nat \<Rightarrow> exn + int"
  killed :: "int list"
  ran :: "string list list"
  run_res :: "nat \<Rightarrow> exn option"

text \<open>
  A piece of the script: from a world it either never returns (\<open>None\<close>) or ends in a
  new world, with a value or an \<open>abort\<close>.
\<close>

type_synonym 'a prog = "world \<Rightarrow> ((abort + 'a) \<times> world) option"

definition returnM :: "'a \<Rightarrow> 'a prog" where
  "returnM x w = Some (Inr x, w)"

definition bindM :: "'a prog \<Rightarrow> ('a \<Rightarrow> 'b prog) \<Rightarrow> 'b prog" where
  "bindM m f w =
     (case m w of
        None \<Rightarrow> None
      | Some (Inl a, w') \<Rightarrow> Some (Inl a, w')
      | Some (Inr x, w') \<Rightarrow> f x w')"

definition thenM :: "'a prog \<Rightarrow> 'b prog \<Rightarrow> 'b prog" where
  "thenM m n = bindM m (\<lambda>_. n)"

definition raiseM :: "exn \<Rightarrow> 'a prog" where
  "raiseM e w = Some (Inl (Raised e), w)"

definition sys_exit :: "int \<Rightarrow> 'a prog" where
  "sys_exit n w = Some (Inl (SysExit n), w)"

definition liftE :: "exn + 'a \<Rightarrow> 'a prog" where
  "liftE r = (case r of Inl e \<Rightarrow> raiseM e | Inr x \<Rightarrow> returnM x)"

definition getsM :: "(world \<Rightarrow> 'a) \<Rightarrow> 'a prog" where
  "getsM f w = Some (Inr (f w), w)"

text \<open>\<open>try: m  except Exception as e: h e\<close>; \<open>SystemExit\<close> is not an \<open>Exception\<close>.\<close>

definition try_except :: "'a prog \<Rightarrow> (exn \<Rightarrow> 'a prog) \<Rightarrow> 'a prog" where
  "try_except m h w =
     (case m w of
        Some (Inl (Raised e), w') \<Rightarrow> h e w'
      | r \<Rightarrow> r)"

text \<open>\<open>try: m  finally: fin\<close>.\<close>

definition try_finally :: "'a prog \<Rightarrow> unit prog \<Rightarrow> 'a prog" where
  "try_finally m fin w =
     (case m w of
        None \<Rightarrow> None
      | Some (r, w') \<Rightarrow>
          (case fin w' of
             None \<Rightarrow> None
           | Some (Inl a, w'') \<Rightarrow> Some (Inl a, w'')
           | Some (Inr _, w'') \<Rightarrow> Some (r, w'')))"

subsection \<open>Effects\<close>

definition print_out :: "string \<Rightarrow> unit prog" where
  "print_out s w = Some (Inr (), w\<lparr>stdout := stdout w @ [s]\<rparr>)"

definition print_err :: "string \<Rightarrow> unit prog" where
  "print_err s w = Some (Inr (), w\<lparr>stderr := stderr w @ [s]\<rparr>)"

text \<open>\<open>time.sleep(d)\<close> raises ValueError for a negative duration.\<close>

definition sleep :: "rat \<Rightarrow> unit prog" where
  "sleep d w =
     (if d < 0 then Some (Inl (Raised (Exc ValueError ''sleep length must be non-negative'')), w)
      else Some (Inr (), w\<lparr>sleeps := sleeps w @ [d]\<rparr>))"

definition path_exists :: "string \<Rightarrow> bool prog" where
  "path_exists p w = Some (Inr (p \<in> dom (files w) \<or> p \<in> dirs w), w)"

definition isfile :: "string \<Rightarrow> bool prog" where
  "isfile p w = Some (Inr (p \<in> dom (files w)), w)"

definition read_text :: "string \<Rightarrow> string prog" where
  "read_text p w =
     (case files w p of
        None \<Rightarrow>
          (if p \<in> dirs w then Some (Inl (Raised (Exc OSError p)), w)
           else Some (Inl (Raised (Exc FileNotFoundError p)), w))
      | Some s \<Rightarrow> Some (Inr s, w))"

text \<open>\<open>write_text\<close> and \<open>write_bytes\<close>.\<close>

definition write_file :: "string \<Rightarrow> string \<Rightarrow> unit prog" where
  "write_file p s w =
     (if p \<in> locked w \<or> p \<in> dirs w then Some (Inl (Raised (Exc PermissionError p)), w)
      else Some (Inr (), w\<lparr>files := (files w)(p \<mapsto> s)\<rparr>))"

text \<open>\<open>p.mkdir(parents=True, exist_ok=True)\<close>; the parents it creates are not recorded.\<close>

definition mkdir_p :: "string \<Rightarrow> unit prog" where
  "mkdir_p p w =
     (if p \<in> dom (files w) then Some (Inl (Raised (Exc FileExistsError p)), w)
      else if p \<in> locked w then Some (Inl (Raised (Exc PermissionError p)), w)
      else Some (Inr (), w\<lparr>dirs := insert p (dirs w)\<rparr>))"

text \<open>\<open>p.unlink(missing_ok=True)\<close>.\<close>

definition unlink_missing_ok :: "string \<Rightarrow> unit prog" where
  "unlink_missing_ok p w =
     (if p \<in> locked w \<or> p \<in> dirs w then Some (Inl (Raised (Exc PermissionError p)), w)
      else Some (Inr (), w\<lparr>files := (files w)(p := None)\<rparr>))"

text \<open>\<open>urlopen(f"http://localhost:{DEBUG_PORT}{endpoint}", timeout=5)\<close> and the parse.\<close>

definition urlopen_json :: "string \<Rightarrow> http_result prog" where
  "urlopen_json endpoint w =
     Some (Inr (http_resp w (length (http_reqs w)) endpoint),
           w\<lparr>http_reqs := http_reqs w @ [(DEBUG_PORT w, endpoint)]\<rparr>)"

text \<open>
  \<open>websocket.create_connection(ws_url, timeout=10)\<close>: the handle is the connection's
  number. A value that is not a string is rejected before anything is contacted.
\<close>

definition create_connection :: "json \<Rightarrow> nat prog" where
  "create_connection ws_url w =
     (case ws_url of
        JStr u \<Rightarrow>
          (let k = ws_n w in
           case ws_connect w k u of
             Some e \<Rightarrow> Some (Inl (Raised e), w\<lparr>ws_n := Suc k\<rparr>)
           | None \<Rightarrow> Some (Inr k, w\<lparr>ws_n := Suc k, ws_log := ws_log w @ [WsOpen k u]\<rparr>))
      | _ \<Rightarrow> Some (Inl (Raised (Exc ValueError ''url is invalid'')), w))"

text \<open>\<open>ws.send(json.dumps(msg))\<close>: the log keeps the message before serialisation.\<close>

definition ws_send :: "nat \<Rightarrow> json \<Rightarrow> unit prog" where
  "ws_send k msg w =
     (let w' = w\<lparr>ws_log := ws_log w @ [WsSend k msg]\<rparr> in
      case ws_send_res w k of
        Some e \<Rightarrow> Some (Inl (Raised e), w')
      | None \<Rightarrow> Some (Inr (), w'))"

definition ws_close :: "nat \<Rightarrow> unit prog" where
  "ws_close k w = Some (Inr (), w\<lparr>ws_log := ws_log w @ [WsClose k]\<rparr>)"

text \<open>\<open>subprocess.Popen(args, ...)\<close>, giving \<open>proc.pid\<close>.\<close>

definition popen :: "string list \<Rightarrow> int prog" where
  "popen args w =
     (case popen_res w (length (spawned w)) of
        Inl e \<Rightarrow> Some (Inl (Raised e), w)
      | Inr pid \<Rightarrow> Some (Inr pid, w\<lparr>spawned := spawned w @ [args]\<rparr>))"

definition proc_kill :: "int \<Rightarrow> unit prog" where
  "proc_kill pid w = Some (Inr (), w\<lparr>killed := killed w @ [pid]\<rparr>)"

text \<open>\<open>subprocess.run(args, capture_output=True)\<close>.\<close>

definition subprocess_run :: "string list \<Rightarrow> unit prog" where
  "subprocess_run args w =
     (let w' = w\<lparr>ran := ran w @ [args]\<rparr> in
      case run_res w (length (ran w)) of
        Some e \<Rightarrow> Some (Inl (Raised e), w')
      | None \<Rightarrow> Some (Inr (), w'))"

section \<open>Paths and constants\<close>

definition STATE_DIR :: string where
  "STATE_DIR = ''~/.reader-browser''"

definition STATE_FILE :: string where
  "STATE_FILE = ''~/.reader-browser/state.json''"

definition CHROME_DATA :: string where
  "CHROME_DATA = ''~/.reader-browser/chrome-data''"

definition EXT_ID_FILE :: string where
  "EXT_ID_FILE = ''~/.reader-browser/.extension-id''"

definition SETTINGS_DIR :: string where
  "SETTINGS_DIR = ''PROJECT_DIR/my-settings''"

definition CWS_URL :: string where
  "CWS_URL = ''https://chromewebstore.google.com/detail/reader-view/ecabifbgmdmgdllomnfinbmaellmclnh''"

definition CWS_EXT_ID :: string where
  "CWS_EXT_ID = ''ecabifbgmdmgdllomnfinbmaellmclnh''"

definition BUILTIN_EXT_IDS :: "string set" where
  "BUILTIN_EXT_IDS =
     {''ghbmnnjooekpmoecnnnilnnbdlolhkhi'',
      ''nmmhkkegccagdldgiimedpiccmgmieda'',
      ''nkeimhogjdpnpccoofpliimaahmaaome'',
      ''fignfifoniblkonapihmkfakmlgkbkcf'',
      ''ahfgeienlihckogmohjhadlkjgocpleb'',
      ''mhjfbmdgcfjbbpaeojofohoefgiehjai''}"

definition CHROME_CANDIDATES :: "world \<Rightarrow> string list" where
  "CHROME_CANDIDATES w =
     [chrome_bin w,
      ''C:'' @ [CHR 0x5C] @ ''Program Files'' @ [CHR 0x5C] @ ''Google'' @ [CHR 0x5C] @ ''Chrome''
        @ [CHR 0x5C] @ ''Application'' @ [CHR 0x5C] @ ''chrome.exe'',
      ''C:'' @ [CHR 0x5C] @ ''Program Files (x86)'' @ [CHR 0x5C] @ ''Google'' @ [CHR 0x5C] @ ''Chrome''
        @ [CHR 0x5C] @ ''Application'' @ [CHR 0x5C] @ ''chrome.exe'']"

section \<open>CDP helpers\<close>

fun find_chrome_in :: "string list \<Rightarrow> string prog" where
  "find_chrome_in [] =
     raiseM (Exc FileNotFoundError ''Chrome not found. Set CHROME_BIN environment variable.'')"
| "find_chrome_in (path # rest) =
     (if path \<noteq> [] then
        bindM (isfile path) (\<lambda>ok. if ok then returnM path else find_chrome_in rest)
      else find_chrome_in rest)"

definition find_chrome :: "string prog" where
  "find_chrome = bindM (getsM CHROME_CANDIDATES) find_chrome_in"

definition cdp_http :: "string \<Rightarrow> json prog" where
  "cdp_http endpoint =
     bindM (urlopen_json endpoint) (\<lambda>r.
       case r of
         HttpJson j \<Rightarrow> returnM j
       | HttpUnreachable \<Rightarrow> returnM JNull
       | HttpRaises e \<Rightarrow> raiseM e)"

text \<open>The message \<open>cdp_send\<close> builds.\<close>

definition cdp_msg :: "string \<Rightarrow> json \<Rightarrow> json" where
  "cdp_msg method params =
     JObj ([(''id'', JInt 1), (''method'', JStr method)]
           @ (if truthy params then [(''params'', params)] else []))"

text \<open>
  The \<open>while True\<close> loop of \<open>cdp_send\<close> over what the connection delivers: \<open>inc i\<close> is
  the outcome of the i-th \<open>json.loads(ws.recv())\<close>. \<open>None\<close>: the loop never ends.
\<close>

partial_function (option) recv_loop :: "(nat \<Rightarrow> recv_result) \<Rightarrow> nat \<Rightarrow> (exn + json) option" where
  "recv_loop inc i =
     (case inc i of
        RecvRaises e \<Rightarrow> Some (Inl e)
      | Recv resp \<Rightarrow>
          (case py_get resp ''id'' JNull of
             Inl e \<Rightarrow> Some (Inl e)
           | Inr v \<Rightarrow> if py_eq_int v 1 then Some (Inr resp) else recv_loop inc (Suc i)))"

definition ws_recv_response :: "nat \<Rightarrow> json prog" where
  "ws_recv_response k w =
     (case recv_loop (ws_incoming w k) 0 of
        None \<Rightarrow> None
      | Some (Inl e) \<Rightarrow> Some (Inl (Raised e), w)
      | Some (Inr resp) \<Rightarrow> Some (Inr resp, w))"

definition cdp_send :: "json \<Rightarrow> string \<Rightarrow> json \<Rightarrow> json prog" where
  "cdp_send ws_url method params =
     bindM (create_connection ws_url) (\<lambda>ws.
       try_finally
         (thenM (ws_send ws (cdp_msg method params)) (ws_recv_response ws))
         (ws_close ws))"

definition get_browser_ws :: "json prog" where
  "get_browser_ws =
     bindM (cdp_http ''/json/version'') (\<lambda>info.
       if truthy info then liftE (py_getitem info ''webSocketDebuggerUrl'') else returnM JNull)"

text \<open>\<open>x or []\<close>.\<close>

definition or_empty_list :: "json \<Rightarrow> json" where
  "or_empty_list x = (if truthy x then x else JArr [])"

fun first_page_ws :: "json list \<Rightarrow> exn + json" where
  "first_page_ws [] = Inr JNull"
| "first_page_ws (t # ts) =
     (case py_get t ''type'' JNull of
        Inl e \<Rightarrow> Inl e
      | Inr ty \<Rightarrow>
          if py_eq_str ty ''page'' then py_get t ''webSocketDebuggerUrl'' JNull
          else first_page_ws ts)"

definition get_page_ws :: "json prog" where
  "get_page_ws =
     bindM (cdp_http ''/json'') (\<lambda>r.
       bindM (liftE (py_iter (or_empty_list r))) (\<lambda>targets.
         liftE (first_page_ws targets)))"

definition get_all_targets :: "json prog" where
  "get_all_targets = bindM (cdp_http ''/json'') (\<lambda>r. returnM (or_empty_list r))"

definition save_state :: "int \<Rightarrow> unit prog" where
  "save_state pid =
     thenM (mkdir_p STATE_DIR)
       (bindM (getsM (\<lambda>w. json_dumps (lib w)
                 (JObj [(''pid'', JInt pid), (''port'', JInt (DEBUG_PORT w))]))) (\<lambda>txt.
          write_file STATE_FILE txt))"

text \<open>\<open>load_state\<close> returns the parsed state, or \<open>None\<close> (here \<open>JNull\<close>).\<close>

definition load_state :: "json prog" where
  "load_state =
     bindM (path_exists STATE_FILE) (\<lambda>ex.
       if ex then
         bindM (read_text STATE_FILE) (\<lambda>txt.
           bindM (getsM (\<lambda>w. json_loads (lib w) txt)) (\<lambda>r.
             case r of
               Inl m \<Rightarrow> raiseM (Exc JSONDecodeError m)
             | Inr st \<Rightarrow> returnM st))
       else returnM JNull)"

definition require_running :: "unit prog" where
  "require_running =
     bindM get_browser_ws (\<lambda>ws.
       if \<not> truthy ws then
         thenM (print_out ''Chrome is not running. Use: python browser.py start'') (sys_exit 1)
       else returnM ())"

definition require_page :: "json prog" where
  "require_page =
     bindM get_page_ws (\<lambda>ws.
       if \<not> truthy ws then thenM (print_out ''No active page found.'') (sys_exit 1)
       else returnM ws)"

text \<open>\<open>str(v)\<close> as \<open>print\<close> and f-strings use it: a string is itself.\<close>

definition to_str :: "pylib \<Rightarrow> json \<Rightarrow> string" where
  "to_str L v = (case v of JStr s \<Rightarrow> s | _ \<Rightarrow> py_str L v)"

text \<open>\<open>print\<close> of an f-string that formats values.\<close>

definition print_fmt :: "(pylib \<Rightarrow> string) \<Rightarrow> unit prog" where
  "print_fmt f w = print_out (f (lib w)) w"

definition print_err_fmt :: "(pylib \<Rightarrow> string) \<Rightarrow> unit prog" where
  "print_err_fmt f w = print_err (f (lib w)) w"

text \<open>Truthiness of what \<open>get_ext_id\<close> and \<open>discover_ext_id\<close> return: a string or \<open>None\<close>.\<close>

definition ext_truthy :: "string option \<Rightarrow> bool" where
  "ext_truthy x = (case x of None \<Rightarrow> False | Some s \<Rightarrow> s \<noteq> [])"

text \<open>\<open>str(x)\<close> of such a value, as an f-string formats it.\<close>

definition ext_str :: "string option \<Rightarrow> string" where
  "ext_str x = (case x of None \<Rightarrow> ''None'' | Some s \<Rightarrow> s)"

definition get_ext_id :: "string option prog" where
  "get_ext_id =
     bindM (path_exists EXT_ID_FILE) (\<lambda>ex.
       if ex then
         bindM (read_text EXT_ID_FILE) (\<lambda>txt.
           let ext_id = strip txt in
           if ext_id \<noteq> [] \<and> ext_id \<notin> BUILTIN_EXT_IDS then returnM (Some ext_id)
           else returnM None)
       else returnM None)"

text \<open>
  The \<open>for\<close> loop of the first \<open>try\<close> block of \<open>discover_ext_id\<close>: \<open>Some ext_id\<close>
  is its \<open>return ext_id\<close>, \<open>None\<close> is the loop running to its end.
\<close>

fun scan_ext_targets :: "json list \<Rightarrow> string option prog" where
  "scan_ext_targets [] = returnM None"
| "scan_ext_targets (t # ts) =
     bindM (liftE (py_get t ''url'' (JStr []))) (\<lambda>url.
       case url of
         JStr u \<Rightarrow>
           if startswith u ''chrome-extension://'' then
             bindM (liftE (list_index (split_on CHR ''/'' u) 2)) (\<lambda>ext_id.
               if ext_id \<notin> BUILTIN_EXT_IDS then
                 thenM (mkdir_p STATE_DIR)
                   (thenM (write_file EXT_ID_FILE ext_id) (returnM (Some ext_id)))
               else scan_ext_targets ts)
           else scan_ext_targets ts
       | _ \<Rightarrow> raiseM (Exc AttributeError ''object has no attribute startswith''))"

definition discover_from_targets :: "json \<Rightarrow> string option prog" where
  "discover_from_targets browser_ws =
     bindM (cdp_send browser_ws ''Target.getTargets'' JNull) (\<lambda>resp.
     bindM (liftE (py_get resp ''result'' (JObj []))) (\<lambda>res.
     bindM (liftE (py_get res ''targetInfos'' (JArr []))) (\<lambda>infos.
     bindM (liftE (py_iter infos)) scan_ext_targets)))"

text \<open>\<open>title and "error" not in title.lower()\<close>.\<close>

definition title_ok :: "json \<Rightarrow> exn + bool" where
  "title_ok title =
     (if \<not> truthy title then Inr False
      else (case title of
              JStr s \<Rightarrow> Inr (\<not> contains_str ''error'' (lower s))
            | _ \<Rightarrow> Inl (Exc AttributeError ''object has no attribute lower'')))"

text \<open>The second \<open>try\<close> block of \<open>discover_ext_id\<close>.\<close>

definition discover_from_cws :: "string option prog" where
  "discover_from_cws =
     bindM get_page_ws (\<lambda>page_ws.
       if truthy page_ws then
         bindM (cdp_send page_ws ''Page.navigate''
                  (JObj [(''url'', JStr (''chrome-extension://'' @ CWS_EXT_ID @ ''/data/reader/index.html''))]))
           (\<lambda>resp.
         bindM (liftE (py_get resp ''result'' (JObj []))) (\<lambda>res.
         bindM (liftE (py_get res ''errorText'' JNull)) (\<lambda>err.
           if \<not> truthy err then
             thenM (sleep (1 / 2))
               (bindM (cdp_send page_ws ''Runtime.evaluate''
                         (JObj [(''expression'', JStr (''document.title || '' @ sq @ sq)),
                                (''returnByValue'', JBool True)])) (\<lambda>title_resp.
                bindM (liftE (py_get title_resp ''result'' (JObj []))) (\<lambda>r1.
                bindM (liftE (py_get r1 ''result'' (JObj []))) (\<lambda>r2.
                bindM (liftE (py_get r2 ''value'' (JStr []))) (\<lambda>title.
                bindM (liftE (title_ok title)) (\<lambda>ok.
                  if ok then
                    thenM (cdp_send page_ws ''Page.navigate'' (JObj [(''url'', JStr ''about:blank'')]))
                      (thenM (mkdir_p STATE_DIR)
                         (thenM (write_file EXT_ID_FILE CWS_EXT_ID) (returnM (Some CWS_EXT_ID))))
                  else returnM None))))))
           else returnM None)))
       else returnM None)"

definition discover_ext_id :: "string option prog" where
  "discover_ext_id =
     bindM get_browser_ws (\<lambda>browser_ws.
       if \<not> truthy browser_ws then returnM None
       else
         bindM (try_except (discover_from_targets browser_ws) (\<lambda>e. returnM None)) (\<lambda>found.
           case found of
             Some ext_id \<Rightarrow> returnM (Some ext_id)
           | None \<Rightarrow> try_except discover_from_cws (\<lambda>e. returnM None)))"

text \<open>\<open>get_ext_id() or discover_ext_id()\<close>.\<close>

definition get_or_discover_ext_id :: "string option prog" where
  "get_or_discover_ext_id =
     bindM get_ext_id (\<lambda>a. if ext_truthy a then returnM a else discover_ext_id)"

section \<open>Commands\<close>

definition popen_args :: "string \<Rightarrow> world \<Rightarrow> string list" where
  "popen_args chrome w =
     [chrome,
      ''--user-data-dir='' @ CHROME_DATA,
      ''--remote-debugging-port='' @ to_str (lib w) (JInt (DEBUG_PORT w)),
      ''--remote-allow-origins=*'',
      ''--no-first-run'',
      ''--no-default-browser-check'',
      ''--disable-default-apps'',
      ''about:blank'']"

text \<open>The body of \<open>if get_browser_ws():\<close> inside the loop of \<open>cmd_start\<close>, up to its \<open>return\<close>.\<close>

definition chrome_started :: "int \<Rightarrow> unit prog" where
  "chrome_started pid =
     thenM (save_state pid)
       (thenM (print_fmt (\<lambda>L. ''Chrome started (PID '' @ to_str L (JInt pid) @ '')''))
          (thenM (sleep (3 / 2))
             (bindM discover_ext_id (\<lambda>ext_id.
                if ext_truthy ext_id then print_out (''Extension ID: '' @ ext_str ext_id)
                else print_out ''Reader View not installed. Run: python browser.py setup''))))"

text \<open>The \<open>for _ in range(30)\<close> loop of \<open>cmd_start\<close> and what follows it, with \<open>n\<close> rounds left.\<close>

fun start_poll :: "nat \<Rightarrow> int \<Rightarrow> unit prog" where
  "start_poll 0 pid =
     thenM (print_out ''ERROR: Chrome did not start in time.'')
       (thenM (proc_kill pid) (sys_exit 1))"
| "start_poll (Suc n) pid =
     bindM get_browser_ws (\<lambda>ws.
       if truthy ws then chrome_started pid
       else thenM (sleep (1 / 2)) (start_poll n pid))"

definition cmd_start :: "unit prog" where
  "cmd_start =
     bindM get_browser_ws (\<lambda>ws.
       if truthy ws then
         thenM (bindM (getsM DEBUG_PORT) (\<lambda>port.
                  print_fmt (\<lambda>L. ''Chrome already running on port '' @ to_str L (JInt port) @ ''.'')))
           (bindM get_or_discover_ext_id (\<lambda>ext_id.
              if ext_truthy ext_id then print_out (''Extension ID: '' @ ext_str ext_id)
              else print_out ''Reader View not installed. Run: python browser.py setup''))
       else
         bindM find_chrome (\<lambda>chrome.
           thenM (mkdir_p CHROME_DATA)
             (bindM (getsM (popen_args chrome)) (\<lambda>args.
                bindM (popen args) (\<lambda>pid.
                  thenM (print_out ''Starting Chrome...'') (start_poll 30 pid))))))"

definition cmd_setup :: "unit prog" where
  "cmd_setup =
     thenM require_running
       (bindM require_page (\<lambda>page_ws.
          thenM (cdp_send page_ws ''Page.navigate'' (JObj [(''url'', JStr CWS_URL)]))
            (thenM (print_out ''Opened Chrome Web Store: Reader View'')
               (print_out (''Click '' @ sq @ ''Add to Chrome'' @ sq
                           @ '' to install, then run: python browser.py status'')))))"

text \<open>The \<open>try\<close> block of \<open>cmd_stop\<close> with its handler.\<close>

definition kill_chrome :: "json \<Rightarrow> unit prog" where
  "kill_chrome pid =
     try_except
       (bindM (getsM (\<lambda>w. to_str (lib w) pid)) (\<lambda>pid_s.
          thenM (subprocess_run [''taskkill'', ''/pid'', pid_s, ''/f'', ''/t''])
            (print_out (''Chrome stopped (PID '' @ pid_s @ '')''))))
       (\<lambda>e. case e of Exc c m \<Rightarrow> print_out (''Could not stop Chrome: '' @ m))"

definition cmd_stop :: "unit prog" where
  "cmd_stop =
     bindM load_state (\<lambda>state.
       if \<not> truthy state then print_out ''No saved state. Nothing to stop.''
       else
         bindM (liftE (py_get state ''pid'' JNull)) (\<lambda>pid.
           thenM (if truthy pid then kill_chrome pid else returnM ())
             (unlink_missing_ok STATE_FILE)))"

text \<open>\<open>[t for t in targets if t.get("type") == "page"]\<close>.\<close>

fun filter_pages :: "json list \<Rightarrow> exn + json list" where
  "filter_pages [] = Inr []"
| "filter_pages (t # ts) =
     (case py_get t ''type'' JNull of
        Inl e \<Rightarrow> Inl e
      | Inr ty \<Rightarrow>
          (case filter_pages ts of
             Inl e \<Rightarrow> Inl e
           | Inr ps \<Rightarrow> Inr (if py_eq_str ty ''page'' then t # ps else ps)))"

text \<open>\<open>for i, p in enumerate(pages)\<close>, from index \<open>i\<close>.\<close>

fun print_pages :: "nat \<Rightarrow> json list \<Rightarrow> unit prog" where
  "print_pages i [] = returnM ()"
| "print_pages i (p # ps) =
     bindM (liftE (py_get p ''title'' (JStr ''(no title)''))) (\<lambda>title.
     bindM (liftE (py_get p ''url'' (JStr []))) (\<lambda>url.
       thenM (print_fmt (\<lambda>L. ''    '' @ (if i = 0 then ''*'' else '' '') @ '' '' @ to_str L title))
         (thenM (print_fmt (\<lambda>L. ''      '' @ to_str L url))
            (print_pages (Suc i) ps))))"

definition cmd_status :: "unit prog" where
  "cmd_status =
     bindM load_state (\<lambda>state.
     bindM get_browser_ws (\<lambda>ws.
       if truthy ws then
         thenM (bindM (getsM DEBUG_PORT) (\<lambda>port.
                  print_fmt (\<lambda>L. ''Chrome is running (port '' @ to_str L (JInt port) @ '')'')))
           (thenM
              (if truthy state then
                 bindM (liftE (py_get state ''pid'' JNull)) (\<lambda>pid.
                   print_fmt (\<lambda>L. ''  PID: '' @ to_str L pid))
               else returnM ())
              (bindM get_or_discover_ext_id (\<lambda>ext_id.
                 thenM
                   (if ext_truthy ext_id then
                      thenM (print_out (''  Extension ID: '' @ ext_str ext_id))
                        (print_out (''  Options URL: chrome-extension://'' @ ext_str ext_id
                                    @ ''/data/options/index.html''))
                    else
                      thenM (print_out ''  Reader View: NOT INSTALLED'')
                        (print_out ''  Run: python browser.py setup''))
                   (bindM get_all_targets (\<lambda>targets.
                    bindM (liftE (py_iter targets)) (\<lambda>ts.
                    bindM (liftE (filter_pages ts)) (\<lambda>pages.
                      thenM (print_fmt (\<lambda>L. ''  Open pages: '' @ to_str L (JInt (int (length pages)))))
                        (print_pages 0 pages))))))))
       else
         thenM (print_out ''Chrome is not running.'')
           (bindM get_ext_id (\<lambda>ext_id.
              if ext_truthy ext_id then print_out (''  Cached Extension ID: '' @ ext_str ext_id)
              else returnM ()))))"

text \<open>The URL \<open>cmd_open\<close> navigates to.\<close>

definition normalise_url :: "string \<Rightarrow> string" where
  "normalise_url url =
     (if \<not> (startswith url ''http'' \<or> startswith url ''chrome''
             \<or> startswith url ''about'' \<or> startswith url ''file'')
      then ''https://'' @ url else url)"

definition cmd_open :: "string \<Rightarrow> unit prog" where
  "cmd_open url0 =
     thenM require_running
       (let url = normalise_url url0 in
        bindM require_page (\<lambda>page_ws.
        bindM (cdp_send page_ws ''Page.navigate'' (JObj [(''url'', JStr url)])) (\<lambda>resp.
        bindM (liftE (py_get resp ''result'' (JObj []))) (\<lambda>res.
        bindM (liftE (py_get res ''errorText'' JNull)) (\<lambda>err.
          if truthy err then print_fmt (\<lambda>L. ''Navigation error: '' @ to_str L err)
          else print_out (''Navigated to '' @ url))))))"

text \<open>\<open>"value" in result\<close>.\<close>

definition py_in :: "string \<Rightarrow> json \<Rightarrow> exn + bool" where
  "py_in k x =
     (case x of
        JObj kvs \<Rightarrow> Inr (k \<in> fst ` set kvs)
      | JArr xs \<Rightarrow> Inr (JStr k \<in> set xs)
      | JStr s \<Rightarrow> Inr (contains_str k s)
      | _ \<Rightarrow> Inl (Exc TypeError ''argument is not iterable''))"

definition is_str :: "json \<Rightarrow> bool" where
  "is_str v = (case v of JStr s \<Rightarrow> True | _ \<Rightarrow> False)"

definition cmd_js :: "string \<Rightarrow> unit prog" where
  "cmd_js expression =
     thenM require_running
       (bindM require_page (\<lambda>page_ws.
        bindM (cdp_send page_ws ''Runtime.evaluate''
                 (JObj [(''expression'', JStr expression),
                        (''returnByValue'', JBool True),
                        (''awaitPromise'', JBool True)])) (\<lambda>resp.
        bindM (liftE (py_get resp ''result'' (JObj []))) (\<lambda>r1.
        bindM (liftE (py_get r1 ''result'' (JObj []))) (\<lambda>result.
        bindM (liftE (py_get resp ''result'' (JObj []))) (\<lambda>r2.
        bindM (liftE (py_get r2 ''exceptionDetails'' JNull)) (\<lambda>exception.
          if truthy exception then
            bindM (liftE (py_get exception ''exception'' (JObj []))) (\<lambda>ex.
            bindM (liftE (py_get ex ''description'' (JStr ''Unknown error''))) (\<lambda>desc.
              thenM (print_err_fmt (\<lambda>L. ''JS Error: '' @ to_str L desc)) (sys_exit 1)))
          else
            bindM (liftE (py_get result ''type'' JNull)) (\<lambda>ty.
              if py_eq_str ty ''undefined'' then returnM ()
              else
                bindM (liftE (py_in ''value'' result)) (\<lambda>has_value.
                  if has_value then
                    bindM (liftE (py_getitem result ''value'')) (\<lambda>val.
                      if is_str val then print_fmt (\<lambda>L. to_str L val)
                      else print_fmt (\<lambda>L. json_dumps_indent2 L val))
                  else
                    bindM (liftE (py_get result ''description'' JNull)) (\<lambda>d.
                      if truthy d then
                        bindM (liftE (py_getitem result ''description'')) (\<lambda>d'.
                          print_fmt (\<lambda>L. to_str L d'))
                      else returnM ()))))))))))"

definition cmd_screenshot :: "string \<Rightarrow> unit prog" where
  "cmd_screenshot filename =
     thenM require_running
       (bindM require_page (\<lambda>page_ws.
        bindM (cdp_send page_ws ''Page.captureScreenshot'' (JObj [(''format'', JStr ''png'')])) (\<lambda>resp.
        bindM (liftE (py_get resp ''result'' (JObj []))) (\<lambda>res.
        bindM (liftE (py_get res ''data'' (JStr []))) (\<lambda>data.
          if truthy data then
            bindM (getsM (\<lambda>w. path_resolve (lib w) filename)) (\<lambda>path.
            bindM (getsM (\<lambda>w. path_parent (lib w) path)) (\<lambda>parent.
              thenM (mkdir_p parent)
                (bindM (getsM (\<lambda>w. b64decode (lib w) data)) (\<lambda>bytes.
                 bindM (liftE bytes) (\<lambda>bs.
                   thenM (write_file path bs)
                     (print_out (''Screenshot saved: '' @ path)))))))
          else thenM (print_out ''Failed to capture screenshot.'') (sys_exit 1))))))"

text \<open>The JavaScript \<open>cmd_click\<close> evaluates.\<close>

definition click_js :: "string \<Rightarrow> string" where
  "click_js escaped =
     ''(() => {''
     @ ''  const el = document.querySelector('' @ sq @ escaped @ sq @ '');''
     @ ''  if (!el) return '' @ sq @ ''Element not found: '' @ escaped @ sq @ '';''
     @ ''  el.click();''
     @ ''  return '' @ sq @ ''clicked'' @ sq @ '';''
     @ ''})()''"

definition cmd_click :: "string \<Rightarrow> unit prog" where
  "cmd_click selector =
     thenM require_running
       (bindM require_page (\<lambda>page_ws.
        bindM (cdp_send page_ws ''Runtime.evaluate''
                 (JObj [(''expression'', JStr (click_js (escape_quotes selector))),
                        (''returnByValue'', JBool True)])) (\<lambda>resp.
        bindM (liftE (py_get resp ''result'' (JObj []))) (\<lambda>r1.
        bindM (liftE (py_get r1 ''result'' (JObj []))) (\<lambda>r2.
        bindM (liftE (py_get r2 ''value'' (JStr []))) (\<lambda>val.
          if py_eq_str val ''clicked'' then print_out (''Clicked: '' @ selector)
          else thenM (print_fmt (\<lambda>L. to_str L val)) (sys_exit 1)))))))"

text \<open>\<open>cmd_wait(seconds=2)\<close>: \<open>None\<close> is the call without an argument.\<close>

definition cmd_wait :: "string option \<Rightarrow> unit prog" where
  "cmd_wait seconds =
     thenM require_running
       (case seconds of
          None \<Rightarrow> thenM (sleep 2) (print_fmt (\<lambda>L. ''Waited '' @ to_str L (JInt 2) @ ''s''))
        | Some s \<Rightarrow>
            bindM (getsM (\<lambda>w. py_float (lib w) s)) (\<lambda>d.
              case d of
                None \<Rightarrow> raiseM (Exc ValueError ''could not convert string to float'')
              | Some x \<Rightarrow> thenM (sleep x) (print_out (''Waited '' @ s @ ''s''))))"

text \<open>\<open>for f in [...]: if not f.exists(): ...\<close>.\<close>

fun require_files :: "string list \<Rightarrow> unit prog" where
  "require_files [] = returnM ()"
| "require_files (f # fs) =
     bindM (path_exists f) (\<lambda>ex.
       if \<not> ex then thenM (print_out (''Missing: '' @ f)) (sys_exit 1)
       else require_files fs)"

text \<open>The JavaScript that stores a base64-encoded JSON document in \<open>chrome.storage.local\<close>.\<close>

definition storage_set_js :: "string \<Rightarrow> string \<Rightarrow> string" where
  "storage_set_js var b64 =
     ''new Promise((resolve, reject) => {''
     @ ''  const '' @ var @ '' = JSON.parse(atob('' @ sq @ b64 @ sq @ ''));''
     @ ''  chrome.storage.local.set('' @ var @ '', () => {''
     @ ''    if (chrome.runtime.lastError) reject(chrome.runtime.lastError.message);''
     @ ''    else resolve('' @ sq @ ''OK'' @ sq @ '');''
     @ ''  });''
     @ ''})''"

definition cmd_push :: "unit prog" where
  "cmd_push =
     thenM require_running
       (bindM get_or_discover_ext_id (\<lambda>ext_id.
          if \<not> ext_truthy ext_id then
            thenM (print_out (''Extension ID unknown. Run '' @ sq @ ''setup'' @ sq
                              @ '' to install Reader View first.'')) (sys_exit 1)
          else
            (let css_file = SETTINGS_DIR @ ''/reader-view.css'';
                 sidebar_file = SETTINGS_DIR @ ''/frame-sidebar.css'';
                 action_file = SETTINGS_DIR @ ''/user-action.json''
             in
             thenM (require_files [css_file, sidebar_file, action_file])
               (bindM (read_text css_file) (\<lambda>reader_css.
                bindM (read_text sidebar_file) (\<lambda>sidebar_css.
                bindM (read_text action_file) (\<lambda>user_action.
                bindM (getsM (\<lambda>w. json_loads (lib w) user_action)) (\<lambda>parsed.
                  case parsed of
                    Inl m \<Rightarrow>
                      thenM (print_out (''Invalid JSON in user-action.json: '' @ m)) (sys_exit 1)
                  | Inr actions_parsed \<Rightarrow>
                      (let payload = JObj [(''user-css'', JStr reader_css),
                                           (''top-css'', JStr sidebar_css),
                                           (''user-action'', actions_parsed)];
                           opts_url = ''chrome-extension://'' @ ext_str ext_id
                                      @ ''/data/options/index.html''
                       in
                       thenM (print_out ''Opening options page...'')
                         (bindM require_page (\<lambda>page_ws.
                          thenM (cdp_send page_ws ''Page.navigate'' (JObj [(''url'', JStr opts_url)]))
                            (thenM (sleep (5 / 2))
                               (bindM (getsM (\<lambda>w. b64encode (lib w) (json_dumps (lib w) payload)))
                                  (\<lambda>b64_payload.
                                bindM (cdp_send page_ws ''Runtime.evaluate''
                                         (JObj [(''expression'', JStr (storage_set_js ''data'' b64_payload)),
                                                (''returnByValue'', JBool True),
                                                (''awaitPromise'', JBool True)])) (\<lambda>resp.
                                bindM (liftE (py_get resp ''result'' (JObj []))) (\<lambda>r0.
                                bindM (liftE (py_get r0 ''exceptionDetails'' JNull)) (\<lambda>exception.
                                  if truthy exception then
                                    bindM (liftE (py_get exception ''exception'' (JObj []))) (\<lambda>ex.
                                    bindM (liftE (py_get ex ''description'' (JStr ''Unknown error'')))
                                      (\<lambda>desc.
                                      thenM (print_err_fmt (\<lambda>L. ''Error: '' @ to_str L desc))
                                        (sys_exit 1)))
                                  else
                                    bindM (liftE (py_get resp ''result'' (JObj []))) (\<lambda>r1.
                                    bindM (liftE (py_get r1 ''result'' (JObj []))) (\<lambda>r2.
                                    bindM (liftE (py_get r2 ''value'' (JStr []))) (\<lambda>result_val.
                                      if py_eq_str result_val ''OK'' then
                                        thenM (print_out ''  user-css <- reader-view.css'')
                                          (thenM (print_out ''  top-css <- frame-sidebar.css'')
                                             (thenM (print_out ''  user-action <- user-action.json'')
                                                (print_out ''Settings pushed and saved!'')))
                                      else
                                        print_fmt (\<lambda>L. ''Unexpected result: ''
                                                         @ to_str L result_val)))))))))))))))))))))"

definition cmd_import :: "unit prog" where
  "cmd_import =
     thenM require_running
       (bindM get_or_discover_ext_id (\<lambda>ext_id.
          if \<not> ext_truthy ext_id then
            thenM (print_out (''Extension ID unknown. Run '' @ sq @ ''setup'' @ sq
                              @ '' to install Reader View first.'')) (sys_exit 1)
          else
            (let prefs_file = SETTINGS_DIR @ ''/reader-view-preferences.json'' in
             bindM (path_exists prefs_file) (\<lambda>ex.
               if \<not> ex then thenM (print_out (''Missing: '' @ prefs_file)) (sys_exit 1)
               else
                 bindM (read_text prefs_file) (\<lambda>txt.
                 bindM (getsM (\<lambda>w. json_loads (lib w) txt)) (\<lambda>parsed.
                   case parsed of
                     Inl m \<Rightarrow> raiseM (Exc JSONDecodeError m)
                   | Inr prefs \<Rightarrow>
                       bindM (liftE (py_len prefs)) (\<lambda>n.
                         thenM (print_fmt (\<lambda>L. ''Loaded '' @ to_str L (JInt (int n))
                                           @ '' preferences from reader-view-preferences.json''))
                           (let opts_url = ''chrome-extension://'' @ ext_str ext_id
                                           @ ''/data/options/index.html''
                            in
                            thenM (print_out ''Opening options page...'')
                              (bindM require_page (\<lambda>page_ws.
                               thenM (cdp_send page_ws ''Page.navigate'' (JObj [(''url'', JStr opts_url)]))
                                 (thenM (sleep (5 / 2))
                                    (bindM (getsM (\<lambda>w. b64encode (lib w) (json_dumps (lib w) prefs)))
                                       (\<lambda>b64_prefs.
                                     bindM (cdp_send page_ws ''Runtime.evaluate''
                                              (JObj [(''expression'', JStr (storage_set_js ''prefs'' b64_prefs)),
                                                     (''returnByValue'', JBool True),
                                                     (''awaitPromise'', JBool True)])) (\<lambda>resp.
                                     bindM (liftE (py_get resp ''result'' (JObj []))) (\<lambda>r0.
                                     bindM (liftE (py_get r0 ''exceptionDetails'' JNull)) (\<lambda>exception.
                                       if truthy exception then
                                         bindM (liftE (py_get exception ''exception'' (JObj []))) (\<lambda>ex.
                                         bindM (liftE (py_get ex ''description'' (JStr ''Unknown error'')))
                                           (\<lambda>desc.
                                           thenM (print_err_fmt (\<lambda>L. ''Error: '' @ to_str L desc))
                                             (sys_exit 1)))
                                       else
                                         bindM (liftE (py_get resp ''result'' (JObj []))) (\<lambda>r1.
                                         bindM (liftE (py_get r1 ''result'' (JObj []))) (\<lambda>r2.
                                         bindM (liftE (py_get r2 ''value'' (JStr []))) (\<lambda>result_val.
                                           if py_eq_str result_val ''OK'' then
                                             print_out ''All preferences imported successfully!''
                                           else
                                             print_fmt (\<lambda>L. ''Unexpected result: ''
                                                              @ to_str L result_val))))))))))))))))))))"

section \<open>Main\<close>

text \<open>The module docstring, which \<open>main\<close> prints as the usage text.\<close>

definition module_doc :: string where
  "module_doc = concat (map (\<lambda>l. l @ [CHR 0x0A])
     [Nil,
      ''browser.py - Browser automation for Reader View development.'',
      [],
      ''Launches a dedicated Chrome instance and provides commands for navigation,'',
      ''JS execution, screenshots, and pushing settings via Chrome DevTools Protocol.'',
      [],
      ''Usage:'',
      ''    python browser.py start             Launch automation Chrome'',
      ''    python browser.py setup             Install Reader View extension (one-time)'',
      ''    python browser.py stop              Stop Chrome'',
      ''    python browser.py status            Show browser & extension info'',
      ''    python browser.py open <url>        Navigate to URL'',
      ''    python browser.py js <expression>   Execute JavaScript, print result'',
      ''    python browser.py screenshot [file] Capture screenshot (default: screenshot.png)'',
      ''    python browser.py click <selector>  Click element by CSS selector'',
      ''    python browser.py push              Push CSS/JSON from my-settings/ to extension'',
      ''    python browser.py import            Import all preferences from reader-view-preferences.json'',
      ''    python browser.py wait [seconds]    Wait for page load (default: 2s)'',
      [],
      ''Notes:'',
      ''    Managed Chrome blocks --load-extension, so the extension must be installed'',
      ''    from the Chrome Web Store once via '' @ sq @ ''setup'' @ sq @ ''. It persists in the profile.''])"

text \<open>
  The dispatch table: the function, its \<open>nargs\<close> and its usage string. The function
  takes \<open>None\<close> when \<open>main\<close> calls it without an argument.
\<close>

definition call0 :: "unit prog \<Rightarrow> string option \<Rightarrow> unit prog" where
  "call0 f a =
     (case a of
        None \<Rightarrow> f
      | Some _ \<Rightarrow> raiseM (Exc TypeError ''takes 0 positional arguments but 1 was given''))"

definition call1 :: "(string \<Rightarrow> unit prog) \<Rightarrow> string option \<Rightarrow> unit prog" where
  "call1 f a =
     (case a of
        None \<Rightarrow> raiseM (Exc TypeError ''missing 1 required positional argument'')
      | Some s \<Rightarrow> f s)"

definition COMMANDS :: "(string \<times> ((string option \<Rightarrow> unit prog) \<times> int \<times> string)) list" where
  "COMMANDS =
     [(''start'', (call0 cmd_start, 0, [])),
      (''setup'', (call0 cmd_setup, 0, [])),
      (''stop'', (call0 cmd_stop, 0, [])),
      (''status'', (call0 cmd_status, 0, [])),
      (''open'', (call1 cmd_open, 1, ''<url>'')),
      (''js'', (call1 cmd_js, 1, ''<expression>'')),
      (''screenshot'',
         (\<lambda>a. cmd_screenshot (case a of None \<Rightarrow> ''screenshot.png'' | Some s \<Rightarrow> s), - 1, ''[filename]'')),
      (''click'', (call1 cmd_click, 1, ''<selector>'')),
      (''wait'', (cmd_wait, - 1, ''[seconds]'')),
      (''push'', (call0 cmd_push, 0, [])),
      (''import'', (call0 cmd_import, 0, []))]"

definition main :: "string list \<Rightarrow> unit prog" where
  "main argv =
     (if length argv < 2 \<or> argv ! 1 \<in> {''-h'', ''--help'', ''help''} then print_out module_doc
      else
        (let cmd_name = argv ! 1 in
         case map_of COMMANDS cmd_name of
           None \<Rightarrow>
             thenM (print_out (''Unknown command: '' @ cmd_name))
               (thenM (print_out module_doc) (sys_exit 1))
         | Some (func, nargs, usage) \<Rightarrow>
             if nargs = 0 then func None
             else if nargs = 1 then
               (if length argv < 3 then
                  thenM (print_out (''Usage: python browser.py '' @ cmd_name @ '' '' @ usage))
                    (sys_exit 1)
                else func (Some (join_sp (drop 2 argv))))
             else if nargs = - 1 then
               (if length argv > 2 then func (Some (argv ! 2)) else func None)
             else returnM ()))"

section \<open>A concrete machine\<close>

text \<open>
  A library and a machine on which the definitions can be run: nothing listens on the
  debugging port, no file exists, every connection is accepted and then stays silent
  until the socket times out.
\<close>

definition example_lib :: pylib where
  "example_lib =
     \<lparr>json_loads = (\<lambda>s. Inl ''Expecting value''),
      json_dumps = (\<lambda>j. ''{}''),
      json_dumps_indent2 = (\<lambda>j. ''{}''),
      py_str = (\<lambda>j. ''?''),
      py_float = (\<lambda>s. None),
      b64encode = (\<lambda>s. s),
      b64decode = (\<lambda>j. Inl (Exc ValueError ''Incorrect padding'')),
      path_resolve = (\<lambda>p. p),
      path_parent = (\<lambda>p. ''.'')\<rparr>"

definition idle_world :: world where
  "idle_world =
     \<lparr>lib = example_lib,
      files = Map.empty,
      dirs = {},
      locked = {},
      chrome_bin = [],
      DEBUG_PORT = 9333,
      stdout = [],
      stderr = [],
      sleeps = [],
      http_reqs = [],
      http_resp = (\<lambda>k ep. HttpUnreachable),
      ws_n = 0,
      ws_log = [],
      ws_connect = (\<lambda>k u. None),
      ws_send_res = (\<lambda>k. None),
      ws_incoming = (\<lambda>k i. RecvRaises (Exc WebSocketException ''timed out'')),
      spawned = [],
      popen_res = (\<lambda>k. Inr 4242),
      killed = [],
      ran = [],
      run_res = (\<lambda>k. None)\<rparr>"

section \<open>Vocabulary of the properties\<close>

text \<open>A received message whose \<open>id\<close> field equals 1, as \<open>resp.get("id") == 1\<close> decides it.\<close>

definition has_id_1 :: "json \<Rightarrow> bool" where
  "has_id_1 m = (case py_get m ''id'' JNull of Inl e \<Rightarrow> False | Inr v \<Rightarrow> py_eq_int v 1)"

text \<open>Any other JSON object: an event, or a response with another id.\<close>

definition other_message :: "json \<Rightarrow> bool" where
  "other_message m = (case py_get m ''id'' JNull of Inl e \<Rightarrow> False | Inr v \<Rightarrow> \<not> py_eq_int v 1)"

text \<open>The connection an event of the log belongs to.\<close>

definition conn_of :: "ws_event \<Rightarrow> nat" where
  "conn_of ev = (case ev of WsOpen k u \<Rightarrow> k | WsSend k m \<Rightarrow> k | WsClose k \<Rightarrow> k)"

text \<open>Every connection in the log was opened before the next one to be opened.\<close>

definition ws_wf :: "world \<Rightarrow> bool" where
  "ws_wf w = (\<forall>ev \<in> set (ws_log w). conn_of ev < ws_n w)"

definition is_dict :: "json \<Rightarrow> bool" where
  "is_dict t = (case t of JObj kvs \<Rightarrow> True | _ \<Rightarrow> False)"

text \<open>A target whose \<open>type\<close> is \<open>page\<close>.\<close>

definition is_page :: "json \<Rightarrow> bool" where
  "is_page t = (py_get t ''type'' JNull = Inr (JStr ''page''))"

section \<open>A machine with Chrome running\<close>

text \<open>
  Chrome answers on the debugging port with a service worker and one page; every
  connection delivers one event and then the response with id 1.
\<close>

definition running_world :: world where
  "running_world =
     idle_world
       \<lparr>http_resp := (\<lambda>k ep.
          if ep = ''/json/version'' then
            HttpJson (JObj [(''Browser'', JStr ''Chrome''),
                            (''webSocketDebuggerUrl'', JStr ''ws://localhost:9333/devtools/browser/b1'')])
          else if ep = ''/json'' then
            HttpJson (JArr [JObj [(''type'', JStr ''service_worker''),
                                  (''url'', JStr ''chrome-extension://ghbmnnjooekpmoecnnnilnnbdlolhkhi/sw.js''),
                                  (''webSocketDebuggerUrl'', JStr ''ws://localhost:9333/devtools/page/s1'')],
                            JObj [(''type'', JStr ''page''),
                                  (''title'', JStr ''Example''),
                                  (''url'', JStr ''about:blank''),
                                  (''webSocketDebuggerUrl'', JStr ''ws://localhost:9333/devtools/page/p1'')]])
          else HttpUnreachable),
        ws_incoming := (\<lambda>k i.
          if i = 0 then Recv (JObj [(''method'', JStr ''Page.frameNavigated'')])
          else Recv (JObj [(''id'', JInt 1), (''result'', JObj [])]))\<rparr>"

text \<open>A machine with a saved state, on which \<open>taskkill\<close> cannot be run.\<close>

definition dq :: string where
  "dq = [CHR 0x22]"

definition saved_state_text :: string where
  "saved_state_text = ''{'' @ dq @ ''pid'' @ dq @ '': 4242, '' @ dq @ ''port'' @ dq @ '': 9333}''"

definition saved_world :: world where
  "saved_world =
     idle_world
       \<lparr>lib := example_lib
          \<lparr>json_loads := (\<lambda>s. if s = saved_state_text
                                then Inr (JObj [(''pid'', JInt 4242), (''port'', JInt 9333)])
                                else Inl ''Expecting value'')\<rparr>,
        files := [STATE_FILE \<mapsto> saved_state_text],
        run_res := (\<lambda>k. Some (Exc FileNotFoundError ''taskkill''))\<rparr>"

text \<open>Chrome running with the Reader View service worker among its targets.\<close>

definition extension_world :: world where
  "extension_world =
     running_world
       \<lparr>ws_incoming := (\<lambda>k i.
          Recv (JObj [(''id'', JInt 1),
                      (''result'', JObj [(''targetInfos'',
                         JArr [JObj [(''type'', JStr ''service_worker''),
                                     (''url'', JStr ''chrome-extension://ecabifbgmdmgdllomnfinbmaellmclnh/worker.js'')]])])]))\<rparr>"

text \<open>That machine after \<open>discover_ext_id\<close> has found the extension.\<close>

definition found_world :: world where
  "found_world =
     extension_world
       \<lparr>http_reqs := [(9333, ''/json/version'')],
        ws_n := 1,
        ws_log := [WsOpen 0 ''ws://localhost:9333/devtools/browser/b1'',
                   WsSend 0 (JObj [(''id'', JInt 1), (''method'', JStr ''Target.getTargets'')]),
                   WsClose 0],
        dirs := {STATE_DIR},
        files := [EXT_ID_FILE \<mapsto> ''ecabifbgmdmgdllomnfinbmaellmclnh'']\<rparr>"

text \<open>A reply to \<open>/json/version\<close> for which \<open>get_browser_ws\<close> returns a false value.\<close>

definition endpoint_down :: "http_result \<Rightarrow> bool" where
  "endpoint_down r =
     (case r of
        HttpUnreachable \<Rightarrow> True
      | HttpJson info \<Rightarrow>
          \<not> truthy info
          \<or> (case py_getitem info ''webSocketDebuggerUrl'' of Inl e \<Rightarrow> False | Inr b \<Rightarrow> \<not> truthy b)
      | HttpRaises e \<Rightarrow> False)"

text \<open>A reply for which \<open>get_browser_ws\<close> returns a true value.\<close>

definition endpoint_up :: "http_result \<Rightarrow> bool" where
  "endpoint_up r =
     (case r of
        HttpJson info \<Rightarrow>
          truthy info
          \<and> (case py_getitem info ''webSocketDebuggerUrl'' of Inl e \<Rightarrow> False | Inr b \<Rightarrow> truthy b)
      | _ \<Rightarrow> False)"

text \<open>The world after \<open>n\<close> failed checks of the poll loop, each followed by its sleep.\<close>

definition polled :: "nat \<Rightarrow> world \<Rightarrow> world" where
  "polled n w =
     w\<lparr>http_reqs := http_reqs w @ replicate n (DEBUG_PORT w, ''/json/version''),
       sleeps := sleeps w @ replicate n (1 / 2)\<rparr>"

text \<open>A machine on which Chrome can be launched but never answers.\<close>

definition launch_world :: world where
  "launch_world = idle_world\<lparr>chrome_bin := ''chrome.exe'', files := [''chrome.exe'' \<mapsto> []]\<rparr>"

text \<open>A machine on which the launched Chrome answers the fourth request.\<close>

definition slow_start_world :: world where
  "slow_start_world =
     launch_world
       \<lparr>http_resp := (\<lambda>k ep.
          if 3 \<le> k \<and> ep = ''/json/version'' then
            HttpJson (JObj [(''webSocketDebuggerUrl'', JStr ''ws://localhost:9333/devtools/browser/b1'')])
          else HttpUnreachable)\<rparr>"

text \<open>The files a command line may write or remove.\<close>

definition written_paths :: "string list \<Rightarrow> pylib \<Rightarrow> string set" where
  "written_paths argv L =
     (if length argv < 2 then {}
      else if argv ! 1 = ''start'' then {STATE_FILE, EXT_ID_FILE}
      else if argv ! 1 = ''stop'' then {STATE_FILE}
      else if argv ! 1 \<in> {''status'', ''push'', ''import''} then {EXT_ID_FILE}
      else if argv ! 1 = ''screenshot'' then
        {path_resolve L (if length argv > 2 then argv ! 2 else ''screenshot.png'')}
      else {})"

text \<open>The machine with the extension after \<open>python browser.py start\<close>.\<close>

definition started_world :: world where
  "started_world =
     extension_world
       \<lparr>http_reqs := [(9333, ''/json/version''), (9333, ''/json/version'')],
        stdout := [''Chrome already running on port ?.'',
                   ''Extension ID: ecabifbgmdmgdllomnfinbmaellmclnh''],
        ws_n := 1,
        ws_log := [WsOpen 0 ''ws://localhost:9333/devtools/browser/b1'',
                   WsSend 0 (JObj [(''id'', JInt 1), (''method'', JStr ''Target.getTargets'')]),
                   WsClose 0],
        dirs := {STATE_DIR},
        files := [EXT_ID_FILE \<mapsto> ''ecabifbgmdmgdllomnfinbmaellmclnh'']\<rparr>"

text \<open>Chrome running with one page, answering every command with \<open>resp\<close>.\<close>

definition reply_world :: "json \<Rightarrow> world" where
  "reply_world resp = running_world\<lparr>ws_incoming := (\<lambda>k i. Recv resp)\<rparr>"

text \<open>That machine after one command with method \<open>m\<close> and parameters \<open>p\<close> sent to the page.\<close>

definition reply_world_sent :: "json \<Rightarrow> string \<Rightarrow> json \<Rightarrow> world" where
  "reply_world_sent resp m p =
     (reply_world resp)
       \<lparr>http_reqs := [(9333, ''/json/version''), (9333, ''/json'')],
        ws_n := 1,
        ws_log := [WsOpen 0 ''ws://localhost:9333/devtools/page/p1'',
                   WsSend 0 (cdp_msg m p),
                   WsClose 0]\<rparr>"

text \<open>Chrome running, but the list of targets cannot be fetched.\<close>

definition no_page_world :: world where
  "no_page_world =
     idle_world
       \<lparr>http_resp := (\<lambda>k ep.
          if ep = ''/json/version'' then
            HttpJson (JObj [(''webSocketDebuggerUrl'', JStr ''ws://localhost:9333/devtools/browser/b1'')])
          else HttpUnreachable)\<rparr>"

text \<open>Chrome running and the extension ID cached, without and with settings files.\<close>

definition cached_world :: world where
  "cached_world = running_world\<lparr>files := [EXT_ID_FILE \<mapsto> ''ecabifbgmdmgdllomnfinbmaellmclnh'']\<rparr>"

definition bad_json_world :: world where
  "bad_json_world =
     running_world
       \<lparr>files := [EXT_ID_FILE \<mapsto> ''ecabifbgmdmgdllomnfinbmaellmclnh'',
                  SETTINGS_DIR @ ''/reader-view.css'' \<mapsto> ''body { margin: 0 }'',
                  SETTINGS_DIR @ ''/frame-sidebar.css'' \<mapsto> [],
                  SETTINGS_DIR @ ''/user-action.json'' \<mapsto> ''[{'']\<rparr>"

text \<open>Responses with id 1 that report a failure.\<close>

definition js_exception_reply :: json where
  "js_exception_reply =
     JObj [(''id'', JInt 1),
           (''result'', JObj [(''exceptionDetails'',
              JObj [(''exception'', JObj [(''description'', JStr ''ReferenceError: x is not defined'')])])])]"

definition no_data_reply :: json where
  "no_data_reply = JObj [(''id'', JInt 1), (''result'', JObj [])]"

definition not_found_reply :: json where
  "not_found_reply =
     JObj [(''id'', JInt 1),
           (''result'', JObj [(''result'',
              JObj [(''type'', JStr ''string''), (''value'', JStr ''Element not found: #go'')])])]"

definition navigation_error_reply :: json where
  "navigation_error_reply =
     JObj [(''id'', JInt 1), (''result'', JObj [(''errorText'', JStr ''net::ERR_NAME_NOT_RESOLVED'')])]"

section \<open>Vocabulary of the bounds and of the frame\<close>

text \<open>
  A piece of the script makes at most \<open>h\<close> HTTP requests and at most \<open>c\<close> connection
  attempts, however it ends.
\<close>

definition costs :: "nat \<Rightarrow> nat \<Rightarrow> 'a prog \<Rightarrow> bool" where
  "costs h c m =
     (\<forall>w r w'. m w = Some (r, w') \<longrightarrow>
        length (http_reqs w') \<le> length (http_reqs w) + h \<and> ws_n w' \<le> ws_n w + c)"

text \<open>The same bound, read as the exact price of a step that is followed by others.\<close>

definition spends :: "nat \<Rightarrow> nat \<Rightarrow> 'a prog \<Rightarrow> bool" where
  "spends h c m = costs h c m"

text \<open>A piece of the script that makes no request and no connection attempt.\<close>

definition free :: "'a prog \<Rightarrow> bool" where
  "free m = costs 0 0 m"

text \<open>
  The HTTP requests and the connection attempts a command line can make at most: one
  per \<open>cdp_http\<close> and \<open>cdp_send\<close> call on its longest path. For \<open>start\<close> these are
  the first check, the 30 checks of the poll loop and the two requests of the
  extension discovery.
\<close>

definition request_bound :: "string list \<Rightarrow> nat" where
  "request_bound argv =
     (if length argv < 2 then 0
      else if argv ! 1 = ''start'' then 1 + 30 + 2
      else if argv ! 1 \<in> {''status'', ''push'', ''import''} then 4
      else if argv ! 1 \<in> {''setup'', ''open'', ''js'', ''screenshot'', ''click''} then 2
      else if argv ! 1 = ''wait'' then 1
      else 0)"

definition connect_bound :: "string list \<Rightarrow> nat" where
  "connect_bound argv =
     (if length argv < 2 then 0
      else if argv ! 1 \<in> {''start'', ''status''} then 4
      else if argv ! 1 \<in> {''push'', ''import''} then 6
      else if argv ! 1 \<in> {''setup'', ''open'', ''js'', ''screenshot'', ''click''} then 1
      else 0)"

text \<open>
  A machine on which the launched Chrome accepts the connection of every check of the
  poll loop and closes it without a response.
\<close>

definition hanging_world :: world where
  "hanging_world =
     launch_world
       \<lparr>http_resp := (\<lambda>k ep.
          if k = 0 then HttpUnreachable
          else HttpRaises (Exc OSError ''Remote end closed connection without response''))\<rparr>"

text \<open>A machine on which every WebSocket connection is refused.\<close>

definition refusing_world :: world where
  "refusing_world = idle_world\<lparr>ws_connect := (\<lambda>k u. Some (Exc OSError ''Connection refused''))\<rparr>"

text \<open>A command line that launches a program with \<open>CHROME_DATA\<close> as its profile directory.\<close>

definition profile_launch :: "string list \<Rightarrow> bool" where
  "profile_launch args = (2 \<le> length args \<and> args ! 1 = ''--user-data-dir='' @ CHROME_DATA)"

text \<open>
  What a piece of the script may leave behind: between \<open>w\<close> and \<open>w'\<close> the library
  is the same, no file outside \<open>A\<close> has changed, no directory has gone and the new
  ones are in \<open>D\<close>, and the processes launched are in \<open>S\<close>.
\<close>

definition confined :: "string set \<Rightarrow> string set \<Rightarrow> string list set \<Rightarrow> world \<Rightarrow> world \<Rightarrow> bool" where
  "confined A D S w w' =
     (lib w' = lib w \<and> (\<forall>p. p \<notin> A \<longrightarrow> files w' p = files w p)
      \<and> dirs w \<subseteq> dirs w' \<and> dirs w' \<subseteq> dirs w \<union> D
      \<and> (\<exists>xs. spawned w' = spawned w @ xs \<and> set xs \<subseteq> S))"

text \<open>A piece of the script, run with library \<open>L\<close>, stays within \<open>A\<close>, \<open>D\<close> and \<open>S\<close>.\<close>

definition keeps :: "pylib \<Rightarrow> string set \<Rightarrow> string set \<Rightarrow> string list set \<Rightarrow> 'a prog \<Rightarrow> bool" where
  "keeps L A D S m =
     (\<forall>w r w'. lib w = L \<longrightarrow> m w = Some (r, w') \<longrightarrow> confined A D S w w')"

text \<open>The directories a command line may create.\<close>

definition made_dirs :: "string list \<Rightarrow> pylib \<Rightarrow> string set" where
  "made_dirs argv L =
     (if length argv < 2 then {}
      else if argv ! 1 = ''start'' then {STATE_DIR, CHROME_DATA}
      else if argv ! 1 \<in> {''status'', ''push'', ''import''} then {STATE_DIR}
      else if argv ! 1 = ''screenshot'' then
        {path_parent L (path_resolve L (if length argv > 2 then argv ! 2 else ''screenshot.png''))}
      else {})"

text \<open>The processes a command line may launch.\<close>

definition launches :: "string list \<Rightarrow> string list set" where
  "launches argv =
     (if 2 \<le> length argv \<and> argv ! 1 = ''start'' then Collect profile_launch else {})"

text \<open>The machine of \<open>slow_start_world\<close> after \<open>python browser.py start\<close>.\<close>

definition slow_started_world :: world where
  "slow_started_world =
     slow_start_world
       \<lparr>http_reqs := replicate 5 (9333, ''/json/version'') @ [(9333, ''/json'')],
        dirs := {STATE_DIR, CHROME_DATA},
        spawned := [popen_args ''chrome.exe'' slow_start_world],
        stdout := [''Starting Chrome...'', ''Chrome started (PID ?)'',
                   ''Reader View not installed. Run: python browser.py setup''],
        sleeps := [1 / 2, 1 / 2, 3 / 2],
        files := [''chrome.exe'' \<mapsto> [], STATE_FILE \<mapsto> ''{}''],
        ws_n := 1,
        ws_log := [WsOpen 0 ''ws://localhost:9333/devtools/browser/b1'',
                   WsSend 0 (JObj [(''id'', JInt 1), (''method'', JStr ''Target.getTargets'')]),
                   WsClose 0]\<rparr>"

text \<open>A response to \<open>Page.captureScreenshot\<close> that carries image data.\<close>

definition data_reply :: json where
  "data_reply = JObj [(''id'', JInt 1), (''result'', JObj [(''data'', JStr ''iVBORw0KGgo='')])]"

text \<open>Chrome running with one page and answering with that response; base64 decodes.\<close>

definition camera_world :: world where
  "camera_world =
     (reply_world data_reply)\<lparr>lib := example_lib\<lparr>b64decode := (\<lambda>j. Inr ''PNG'')\<rparr>\<rparr>"

text \<open>That machine after \<open>python browser.py screenshot shot.png\<close>.\<close>

definition snapped_world :: world where
  "snapped_world =
     camera_world
       \<lparr>http_reqs := [(9333, ''/json/version''), (9333, ''/json'')],
        ws_n := 1,
        ws_log := [WsOpen 0 ''ws://localhost:9333/devtools/page/p1'',
                   WsSend 0 (JObj [(''id'', JInt 1), (''method'', JStr ''Page.captureScreenshot''),
                                   (''params'', JObj [(''format'', JStr ''png'')])]),
                   WsClose 0],
        dirs := {''.''},
        files := [''shot.png'' \<mapsto> ''PNG''],
        stdout := [''Screenshot saved: shot.png'']\<rparr>"

section \<open>Properties\<close>

subsection \<open>Running the combinators\<close>

lemma bindM_Inr: "m w = Some (Inr x, w') \<Longrightarrow> bindM m f w = f x w'"
  by (simp add: bindM_def)

lemma bindM_Inl: "m w = Some (Inl a, w') \<Longrightarrow> bindM m f w = Some (Inl a, w')"
  by (simp add: bindM_def)

lemma bindM_None: "m w = None \<Longrightarrow> bindM m f w = None"
  by (simp add: bindM_def)

lemma bindM_returnM: "bindM (returnM x) f = f x"
  by (rule ext) (simp add: bindM_def returnM_def)

lemma bindM_raiseM: "bindM (raiseM e) f = raiseM e"
  by (rule ext) (simp add: bindM_def raiseM_def)

lemma bindM_sys_exit: "bindM (sys_exit n) f = sys_exit n"
  by (rule ext) (simp add: bindM_def sys_exit_def)

lemma bindM_getsM: "bindM (getsM g) f w = f (g w) w"
  by (simp add: bindM_def getsM_def)

lemma bindM_print_out: "bindM (print_out s) f w = f () (w\<lparr>stdout := stdout w @ [s]\<rparr>)"
  by (simp add: bindM_def print_out_def)

lemma thenM_print_out: "thenM (print_out s) m w = m (w\<lparr>stdout := stdout w @ [s]\<rparr>)"
  by (simp add: thenM_def bindM_print_out)

subsection \<open>The dispatcher\<close>

lemma join_sp_Cons: "join_sp (a # rest) = a @ concat (map (\<lambda>s. '' '' @ s) rest)"
  by (induction rest arbitrary: a) auto

lemma COMMANDS_one_arg:
  "map_of COMMANDS name = Some (func, 1, usage) \<Longrightarrow>
     (name = ''open'' \<and> func = call1 cmd_open \<and> usage = ''<url>'')
   \<or> (name = ''js'' \<and> func = call1 cmd_js \<and> usage = ''<expression>'')
   \<or> (name = ''click'' \<and> func = call1 cmd_click \<and> usage = ''<selector>'')"
  by (simp add: COMMANDS_def split: if_splits)

lemma main_help:
  "length argv < 2 \<or> argv ! 1 \<in> {''-h'', ''--help'', ''help''} \<Longrightarrow>
     main argv w = Some (Inr (), w\<lparr>stdout := stdout w @ [module_doc]\<rparr>)"
  unfolding main_def by (simp add: print_out_def)

lemma main_unknown:
  assumes "2 \<le> length argv" "argv ! 1 \<notin> {''-h'', ''--help'', ''help''}"
    and "argv ! 1 \<notin> fst ` set COMMANDS"
  shows "main argv w = Some (Inl (SysExit 1),
           w\<lparr>stdout := stdout w @ [''Unknown command: '' @ argv ! 1, module_doc]\<rparr>)"
proof -
  from assms(3) have "map_of COMMANDS (argv ! 1) = None"
    by (simp add: map_of_eq_None_iff)
  with assms(1,2) show ?thesis
    unfolding main_def by (simp add: thenM_print_out sys_exit_def)
qed

lemma main_one_arg_missing:
  assumes "map_of COMMANDS name = Some (func, 1, usage)"
  shows "main [prog, name] w = Some (Inl (SysExit 1),
           w\<lparr>stdout := stdout w @ [''Usage: python browser.py '' @ name @ '' '' @ usage]\<rparr>)"
  using COMMANDS_one_arg[OF assms] assms
  unfolding main_def by (auto simp add: thenM_print_out sys_exit_def)

lemma main_one_arg_joined:
  assumes "map_of COMMANDS name = Some (func, 1, usage)"
  shows "main (prog # name # a # rest) w = func (Some (join_sp (a # rest))) w"
  using COMMANDS_one_arg[OF assms] assms
  unfolding main_def by auto



subsection \<open>The command client\<close>

lemma recv_loop_hit:
  "inc i = Recv resp \<Longrightarrow> has_id_1 resp \<Longrightarrow> recv_loop inc i = Some (Inr resp)"
  by (subst recv_loop.simps) (simp add: has_id_1_def split: sum.splits)

lemma recv_loop_raises:
  "inc i = RecvRaises e \<Longrightarrow> recv_loop inc i = Some (Inl e)"
  by (subst recv_loop.simps) simp

lemma recv_loop_skip:
  "inc i = Recv m \<Longrightarrow> other_message m \<Longrightarrow> recv_loop inc i = recv_loop inc (Suc i)"
  by (subst recv_loop.simps) (simp add: other_message_def split: sum.splits)

lemma recv_loop_skips:
  "(\<forall>j<d. \<exists>m. inc (i + j) = Recv m \<and> other_message m) \<Longrightarrow>
     recv_loop inc i = recv_loop inc (i + d)"
proof (induction d arbitrary: i)
  case 0
  then show ?case by simp
next
  case (Suc d)
  from Suc.prems obtain m where m: "inc i = Recv m" "other_message m"
    by force
  have "\<forall>j<d. \<exists>m. inc (Suc i + j) = Recv m \<and> other_message m"
    using Suc.prems by (metis Suc_less_eq add_Suc_shift)
  then have "recv_loop inc (Suc i) = recv_loop inc (Suc i + d)"
    by (rule Suc.IH)
  with recv_loop_skip[of inc i m] m show ?case by simp
qed

lemma cdp_send_run:
  assumes "ws_connect w (ws_n w) u = None"
  shows "cdp_send (JStr u) method params w =
     (let k = ws_n w;
          w3 = w\<lparr>ws_n := Suc k,
                 ws_log := ws_log w @ [WsOpen k u, WsSend k (cdp_msg method params), WsClose k]\<rparr>
      in case ws_send_res w k of
           Some e \<Rightarrow> Some (Inl (Raised e), w3)
         | None \<Rightarrow>
             (case recv_loop (ws_incoming w k) 0 of
                None \<Rightarrow> None
              | Some (Inl e) \<Rightarrow> Some (Inl (Raised e), w3)
              | Some (Inr resp) \<Rightarrow> Some (Inr resp, w3)))"
  using assms
  by (simp add: cdp_send_def create_connection_def bindM_def thenM_def try_finally_def
      ws_send_def ws_recv_response_def ws_close_def Let_def split: option.splits sum.splits)

lemma cdp_send_refused:
  assumes "ws_connect w (ws_n w) u = Some e"
  shows "cdp_send (JStr u) method params w = Some (Inl (Raised e), w\<lparr>ws_n := Suc (ws_n w)\<rparr>)"
  using assms by (simp add: cdp_send_def create_connection_def bindM_def Let_def)

lemma cdp_send_not_str:
  assumes "\<forall>u. url \<noteq> JStr u"
  shows "cdp_send url method params w = Some (Inl (Raised (Exc ValueError ''url is invalid'')), w)"
  using assms by (cases url) (simp_all add: cdp_send_def create_connection_def bindM_def)

lemma cdp_send_answer:
  assumes "ws_connect w (ws_n w) u = None" and "ws_send_res w (ws_n w) = None"
    and "\<forall>i<n. \<exists>m. ws_incoming w (ws_n w) i = Recv m \<and> other_message m"
    and "ws_incoming w (ws_n w) n = Recv resp" and "has_id_1 resp"
  shows "cdp_send (JStr u) method params w =
     Some (Inr resp,
           w\<lparr>ws_n := Suc (ws_n w),
             ws_log := ws_log w @ [WsOpen (ws_n w) u, WsSend (ws_n w) (cdp_msg method params),
                                   WsClose (ws_n w)]\<rparr>)"
proof -
  have "recv_loop (ws_incoming w (ws_n w)) 0 = recv_loop (ws_incoming w (ws_n w)) (0 + n)"
    by (rule recv_loop_skips) (use assms(3) in simp)
  also have "\<dots> = Some (Inr resp)"
    using assms(4,5) by (simp add: recv_loop_hit)
  finally show ?thesis
    using assms(1,2) by (simp add: cdp_send_run Let_def)
qed

text \<open>
  C2. \<open>cdp_send\<close> correlates responses by identifier. On a connection that is
  accepted and takes the message, it sends exactly one command, whose \<open>id\<close> is 1, and
  returns the first received message whose \<open>id\<close> equals 1: the \<open>n\<close> messages that
  arrive before it (events, or responses with other ids) are skipped. The log shows
  the one connection opened, the one message sent, and the connection closed.
\<close>

theorem cdp_send_correlates_by_id:
  assumes "ws_connect w (ws_n w) u = None" and "ws_send_res w (ws_n w) = None"
    and "\<forall>i<n. \<exists>m. ws_incoming w (ws_n w) i = Recv m \<and> other_message m"
    and "ws_incoming w (ws_n w) n = Recv resp" and "has_id_1 resp"
  shows "cdp_send (JStr u) method params w =
     Some (Inr resp,
           w\<lparr>ws_n := Suc (ws_n w),
             ws_log := ws_log w @ [WsOpen (ws_n w) u, WsSend (ws_n w) (cdp_msg method params),
                                   WsClose (ws_n w)]\<rparr>)
     \<and> py_get (cdp_msg method params) ''id'' JNull = Inr (JInt 1)"
  using cdp_send_answer[OF assms] by (simp add: cdp_msg_def py_get_def)

text \<open>
  C5. Every command goes over a connection of its own. Whenever \<open>cdp_send\<close> returns,
  with a response or with an error from sending or receiving, it has opened one
  connection with a number not used before, sent one message on it and closed it; or
  no connection could be opened, nothing was logged and the call raised.
\<close>

theorem cdp_send_closes:
  assumes "cdp_send url method params w = Some (r, w')"
  shows "(\<exists>u. url = JStr u \<and> ws_connect w (ws_n w) u = None
            \<and> ws_n w' = Suc (ws_n w)
            \<and> ws_log w' = ws_log w @ [WsOpen (ws_n w) u, WsSend (ws_n w) (cdp_msg method params),
                                       WsClose (ws_n w)]
            \<and> (ws_wf w \<longrightarrow> ws_wf w' \<and> ws_n w \<notin> conn_of ` set (ws_log w)))
       \<or> ((\<forall>u. url = JStr u \<longrightarrow> ws_connect w (ws_n w) u \<noteq> None)
            \<and> ws_log w' = ws_log w \<and> (\<exists>e. r = Inl (Raised e)))"
proof (cases "\<exists>u. url = JStr u")
  case False
  with assms show ?thesis by (auto simp add: cdp_send_not_str)
next
  case True
  then obtain u where u: "url = JStr u" by blast
  show ?thesis
  proof (cases "ws_connect w (ws_n w) u")
    case (Some e)
    with assms u show ?thesis by (auto simp add: cdp_send_refused)
  next
    case None
    from assms u None have "ws_n w' = Suc (ws_n w) \<and>
        ws_log w' = ws_log w @ [WsOpen (ws_n w) u, WsSend (ws_n w) (cdp_msg method params),
                                 WsClose (ws_n w)]"
      by (auto simp add: cdp_send_run Let_def split: option.splits sum.splits)
    then show ?thesis
      using u None by (auto simp add: ws_wf_def conn_of_def)
  qed
qed

subsection \<open>Target selection\<close>

lemma cdp_http_run:
  "cdp_http ep w =
     (let w1 = w\<lparr>http_reqs := http_reqs w @ [(DEBUG_PORT w, ep)]\<rparr>
      in case http_resp w (length (http_reqs w)) ep of
           HttpJson j \<Rightarrow> Some (Inr j, w1)
         | HttpUnreachable \<Rightarrow> Some (Inr JNull, w1)
         | HttpRaises e \<Rightarrow> Some (Inl (Raised e), w1))"
  by (simp add: cdp_http_def urlopen_json_def bindM_def returnM_def raiseM_def Let_def
      split: http_result.splits)

lemma first_page_ws_find:
  "\<forall>t\<in>set ts. is_dict t \<Longrightarrow>
     first_page_ws ts =
       (case find is_page ts of None \<Rightarrow> Inr JNull
        | Some t \<Rightarrow> py_get t ''webSocketDebuggerUrl'' JNull)"
  by (induction ts)
     (auto simp add: is_dict_def is_page_def py_get_def py_eq_str_def split: json.splits)

lemma get_page_ws_list:
  assumes "http_resp w (length (http_reqs w)) ''/json'' = HttpJson (JArr ts)"
  shows "get_page_ws w =
     (case first_page_ws ts of
        Inl e \<Rightarrow> Some (Inl (Raised e), w\<lparr>http_reqs := http_reqs w @ [(DEBUG_PORT w, ''/json'')]\<rparr>)
      | Inr v \<Rightarrow> Some (Inr v, w\<lparr>http_reqs := http_reqs w @ [(DEBUG_PORT w, ''/json'')]\<rparr>))"
  using assms
  by (cases ts)
     (simp_all add: get_page_ws_def cdp_http_run bindM_def or_empty_list_def py_iter_def liftE_def
      returnM_def raiseM_def Let_def split: sum.splits)

lemma get_page_ws_unreachable:
  assumes "http_resp w (length (http_reqs w)) ''/json'' = HttpUnreachable"
  shows "get_page_ws w = Some (Inr JNull, w\<lparr>http_reqs := http_reqs w @ [(DEBUG_PORT w, ''/json'')]\<rparr>)"
  using assms
  by (simp add: get_page_ws_def cdp_http_run bindM_def or_empty_list_def py_iter_def liftE_def
      returnM_def Let_def)

lemma require_page_run:
  "get_page_ws w = Some (Inr v, w1) \<Longrightarrow>
     require_page w =
       (if truthy v then Some (Inr v, w1)
        else Some (Inl (SysExit 1), w1\<lparr>stdout := stdout w1 @ [''No active page found.'']\<rparr>))"
  by (simp add: require_page_def bindM_def thenM_def print_out_def sys_exit_def returnM_def)

text \<open>
  C6. \<open>get_page_ws\<close> makes one request to \<open>/json\<close> and scans the list of targets
  once: it returns the \<open>webSocketDebuggerUrl\<close> of the first target whose type is
  \<open>page\<close>, and \<open>None\<close> when there is no such target or the endpoint does not
  answer; \<open>require_page\<close> then prints a message and exits with status 1.
\<close>

theorem get_page_ws_first_page:
  "(http_resp w (length (http_reqs w)) ''/json'' = HttpJson (JArr ts) \<and> (\<forall>t\<in>set ts. is_dict t) \<longrightarrow>
      (\<forall>t v. find is_page ts = Some t \<and> py_get t ''webSocketDebuggerUrl'' JNull = Inr v \<longrightarrow>
         get_page_ws w = Some (Inr v, w\<lparr>http_reqs := http_reqs w @ [(DEBUG_PORT w, ''/json'')]\<rparr>))
      \<and> (find is_page ts = None \<longrightarrow>
         get_page_ws w = Some (Inr JNull, w\<lparr>http_reqs := http_reqs w @ [(DEBUG_PORT w, ''/json'')]\<rparr>)
         \<and> require_page w = Some (Inl (SysExit 1),
             w\<lparr>http_reqs := http_reqs w @ [(DEBUG_PORT w, ''/json'')],
               stdout := stdout w @ [''No active page found.'']\<rparr>)))
   \<and> (http_resp w (length (http_reqs w)) ''/json'' = HttpUnreachable \<longrightarrow>
         get_page_ws w = Some (Inr JNull, w\<lparr>http_reqs := http_reqs w @ [(DEBUG_PORT w, ''/json'')]\<rparr>)
         \<and> require_page w = Some (Inl (SysExit 1),
             w\<lparr>http_reqs := http_reqs w @ [(DEBUG_PORT w, ''/json'')],
               stdout := stdout w @ [''No active page found.'']\<rparr>))"
proof (intro conjI impI allI)
  fix t v
  assume a: "http_resp w (length (http_reqs w)) ''/json'' = HttpJson (JArr ts) \<and> (\<forall>t\<in>set ts. is_dict t)"
    and f: "find is_page ts = Some t \<and> py_get t ''webSocketDebuggerUrl'' JNull = Inr v"
  from a f show "get_page_ws w = Some (Inr v, w\<lparr>http_reqs := http_reqs w @ [(DEBUG_PORT w, ''/json'')]\<rparr>)"
    by (simp add: get_page_ws_list first_page_ws_find)
next
  assume a: "http_resp w (length (http_reqs w)) ''/json'' = HttpJson (JArr ts) \<and> (\<forall>t\<in>set ts. is_dict t)"
    and f: "find is_page ts = None"
  from a f show g: "get_page_ws w = Some (Inr JNull, w\<lparr>http_reqs := http_reqs w @ [(DEBUG_PORT w, ''/json'')]\<rparr>)"
    by (simp add: get_page_ws_list first_page_ws_find)
  show "require_page w = Some (Inl (SysExit 1),
             w\<lparr>http_reqs := http_reqs w @ [(DEBUG_PORT w, ''/json'')],
               stdout := stdout w @ [''No active page found.'']\<rparr>)"
    by (simp add: require_page_run[OF g])
next
  assume a: "http_resp w (length (http_reqs w)) ''/json'' = HttpUnreachable"
  then show g: "get_page_ws w = Some (Inr JNull, w\<lparr>http_reqs := http_reqs w @ [(DEBUG_PORT w, ''/json'')]\<rparr>)"
    by (rule get_page_ws_unreachable)
  show "require_page w = Some (Inl (SysExit 1),
             w\<lparr>http_reqs := http_reqs w @ [(DEBUG_PORT w, ''/json'')],
               stdout := stdout w @ [''No active page found.'']\<rparr>)"
    by (simp add: require_page_run[OF g])
qed

subsection \<open>Runs on the concrete machines\<close>

lemmas world_sel = running_world_def idle_world_def

theorem cdp_send_correlates_by_id_witness:
  "cdp_send (JStr ''ws://localhost:9333/devtools/page/p1'') ''Page.enable'' JNull running_world =
     Some (Inr (JObj [(''id'', JInt 1), (''result'', JObj [])]),
           running_world\<lparr>ws_n := 1,
             ws_log := [WsOpen 0 ''ws://localhost:9333/devtools/page/p1'',
                        WsSend 0 (JObj [(''id'', JInt 1), (''method'', JStr ''Page.enable'')]),
                        WsClose 0]\<rparr>)"
proof -
  have a: "ws_connect running_world (ws_n running_world) ''ws://localhost:9333/devtools/page/p1'' = None"
    and b: "ws_send_res running_world (ws_n running_world) = None"
    and c: "\<forall>i<1. \<exists>m. ws_incoming running_world (ws_n running_world) i = Recv m \<and> other_message m"
    and d: "ws_incoming running_world (ws_n running_world) 1
              = Recv (JObj [(''id'', JInt 1), (''result'', JObj [])])"
    and e: "has_id_1 (JObj [(''id'', JInt 1), (''result'', JObj [])])"
    by (simp_all add: world_sel other_message_def has_id_1_def py_get_def py_eq_int_def)
  show ?thesis
    using cdp_send_correlates_by_id[OF a b c d e, of "''Page.enable''" JNull]
    by (simp add: world_sel cdp_msg_def)
qed

lemma cdp_send_idle:
  "cdp_send (JStr ''ws://localhost:9333/devtools/page/p1'') ''Page.enable'' JNull idle_world =
     Some (Inl (Raised (Exc WebSocketException ''timed out'')),
           idle_world\<lparr>ws_n := 1,
             ws_log := [WsOpen 0 ''ws://localhost:9333/devtools/page/p1'',
                        WsSend 0 (cdp_msg ''Page.enable'' JNull),
                        WsClose 0]\<rparr>)"
  by (simp add: cdp_send_run idle_world_def recv_loop_raises)

theorem cdp_send_closes_witness:
  "cdp_send (JStr ''ws://localhost:9333/devtools/page/p1'') ''Page.enable'' JNull idle_world =
     Some (Inl (Raised (Exc WebSocketException ''timed out'')),
           idle_world\<lparr>ws_n := 1,
             ws_log := [WsOpen 0 ''ws://localhost:9333/devtools/page/p1'',
                        WsSend 0 (cdp_msg ''Page.enable'' JNull),
                        WsClose 0]\<rparr>)
   \<and> ws_wf idle_world
   \<and> ws_wf (idle_world\<lparr>ws_n := 1,
             ws_log := [WsOpen 0 ''ws://localhost:9333/devtools/page/p1'',
                        WsSend 0 (cdp_msg ''Page.enable'' JNull),
                        WsClose 0]\<rparr>)"
proof -
  have wf: "ws_wf idle_world"
    by (simp add: ws_wf_def idle_world_def)
  show ?thesis
    using cdp_send_closes[OF cdp_send_idle] wf cdp_send_idle
    by (simp add: idle_world_def)
qed

theorem get_page_ws_first_page_witness:
  "get_page_ws running_world =
     Some (Inr (JStr ''ws://localhost:9333/devtools/page/p1''),
           running_world\<lparr>http_reqs := [(9333, ''/json'')]\<rparr>)
   \<and> require_page idle_world =
     Some (Inl (SysExit 1),
           idle_world\<lparr>http_reqs := [(9333, ''/json'')], stdout := [''No active page found.'']\<rparr>)"
proof -
  let ?sw = "JObj [(''type'', JStr ''service_worker''),
                   (''url'', JStr ''chrome-extension://ghbmnnjooekpmoecnnnilnnbdlolhkhi/sw.js''),
                   (''webSocketDebuggerUrl'', JStr ''ws://localhost:9333/devtools/page/s1'')]"
  let ?pg = "JObj [(''type'', JStr ''page''),
                   (''title'', JStr ''Example''),
                   (''url'', JStr ''about:blank''),
                   (''webSocketDebuggerUrl'', JStr ''ws://localhost:9333/devtools/page/p1'')]"
  have a: "http_resp running_world (length (http_reqs running_world)) ''/json''
             = HttpJson (JArr [?sw, ?pg])
           \<and> (\<forall>t\<in>set [?sw, ?pg]. is_dict t)"
    by (simp add: world_sel is_dict_def)
  have f: "find is_page [?sw, ?pg] = Some ?pg
           \<and> py_get ?pg ''webSocketDebuggerUrl'' JNull = Inr (JStr ''ws://localhost:9333/devtools/page/p1'')"
    by (simp add: is_page_def py_get_def)
  have u: "http_resp idle_world (length (http_reqs idle_world)) ''/json'' = HttpUnreachable"
    by (simp add: idle_world_def)
  show ?thesis
    using get_page_ws_first_page[of running_world "[?sw, ?pg]"]
      get_page_ws_first_page[of idle_world "[]"] a f u
    by (simp add: world_sel)
qed

subsection \<open>Navigation\<close>

lemma cmd_open_tail:
  "\<exists>r w'. bindM (liftE (py_get resp ''result'' (JObj []))) (\<lambda>res.
            bindM (liftE (py_get res ''errorText'' JNull)) (\<lambda>err.
              if truthy err then print_fmt (\<lambda>L. ''Navigation error: '' @ to_str L err)
              else print_out (''Navigated to '' @ url))) w = Some (r, w')
          \<and> ws_log w' = ws_log w"
  by (auto simp add: bindM_def liftE_def raiseM_def returnM_def print_fmt_def print_out_def
      split: sum.splits)

text \<open>
  C9. \<open>cmd_open\<close> normalises its argument. When Chrome is running, a page target
  with a string URL exists, its connection is accepted and the read loop ends,
  \<open>cmd_open\<close> returns having sent exactly one \<open>Page.navigate\<close> command whose
  \<open>url\<close> parameter is the argument itself if it starts with \<open>http\<close>, \<open>chrome\<close>,
  \<open>about\<close> or \<open>file\<close>, and the argument with \<open>https://\<close> in front otherwise.
\<close>

theorem cmd_open_normalises_url:
  assumes "require_running w = Some (Inr (), w1)"
    and "require_page w1 = Some (Inr (JStr pu), w2)"
    and "ws_connect w2 (ws_n w2) pu = None"
    and "recv_loop (ws_incoming w2 (ws_n w2)) 0 \<noteq> None"
  shows "\<exists>r w'. cmd_open url w = Some (r, w')
     \<and> ws_log w' = ws_log w2 @
         [WsOpen (ws_n w2) pu,
          WsSend (ws_n w2)
            (cdp_msg ''Page.navigate''
               (JObj [(''url'', JStr (if startswith url ''http'' \<or> startswith url ''chrome''
                                         \<or> startswith url ''about'' \<or> startswith url ''file''
                                      then url else ''https://'' @ url))])),
          WsClose (ws_n w2)]"
proof -
  let ?url = "normalise_url url"
  let ?rest = "\<lambda>resp. bindM (liftE (py_get resp ''result'' (JObj []))) (\<lambda>res.
            bindM (liftE (py_get res ''errorText'' JNull)) (\<lambda>err.
              if truthy err then print_fmt (\<lambda>L. ''Navigation error: '' @ to_str L err)
              else print_out (''Navigated to '' @ ?url)))"
  let ?send = "cdp_send (JStr pu) ''Page.navigate'' (JObj [(''url'', JStr ?url)])"
  let ?w3 = "w2\<lparr>ws_n := Suc (ws_n w2),
                 ws_log := ws_log w2 @ [WsOpen (ws_n w2) pu,
                   WsSend (ws_n w2) (cdp_msg ''Page.navigate'' (JObj [(''url'', JStr ?url)])),
                   WsClose (ws_n w2)]\<rparr>"
  have step: "cmd_open url w = bindM ?send ?rest w2"
    using assms(1,2) by (simp add: cmd_open_def thenM_def bindM_def Let_def)
  from assms(4) obtain x where x: "recv_loop (ws_incoming w2 (ws_n w2)) 0 = Some x"
    by blast
  have "\<exists>r w'. bindM ?send ?rest w2 = Some (r, w') \<and> ws_log w' = ws_log ?w3"
  proof (cases "ws_send_res w2 (ws_n w2)")
    case (Some e)
    then have "?send w2 = Some (Inl (Raised e), ?w3)"
      using assms(3) by (simp add: cdp_send_run Let_def)
    then show ?thesis by (simp add: bindM_def)
  next
    case None
    show ?thesis
    proof (cases x)
      case (Inl e)
      then have "?send w2 = Some (Inl (Raised e), ?w3)"
        using assms(3) None x by (simp add: cdp_send_run Let_def)
      then show ?thesis by (simp add: bindM_def)
    next
      case (Inr resp)
      then have "?send w2 = Some (Inr resp, ?w3)"
        using assms(3) None x by (simp add: cdp_send_run Let_def)
      then have "bindM ?send ?rest w2 = ?rest resp ?w3"
        by (simp add: bindM_def)
      then show ?thesis
        using cmd_open_tail[of resp ?url ?w3] by simp
    qed
  qed
  moreover have n: "(if startswith url ''http'' \<or> startswith url ''chrome''
                \<or> startswith url ''about'' \<or> startswith url ''file''
             then url else ''https://'' @ url) = normalise_url url"
    by (simp add: normalise_url_def)
  ultimately show ?thesis
    unfolding n using step by simp
qed

lemma get_browser_ws_run:
  "get_browser_ws w =
     (let w1 = w\<lparr>http_reqs := http_reqs w @ [(DEBUG_PORT w, ''/json/version'')]\<rparr>
      in case http_resp w (length (http_reqs w)) ''/json/version'' of
           HttpJson info \<Rightarrow>
             (if truthy info then
                (case py_getitem info ''webSocketDebuggerUrl'' of
                   Inl e \<Rightarrow> Some (Inl (Raised e), w1)
                 | Inr b \<Rightarrow> Some (Inr b, w1))
              else Some (Inr JNull, w1))
         | HttpUnreachable \<Rightarrow> Some (Inr JNull, w1)
         | HttpRaises e \<Rightarrow> Some (Inl (Raised e), w1))"
  by (simp add: get_browser_ws_def cdp_http_run bindM_def liftE_def returnM_def raiseM_def Let_def
      split: http_result.splits sum.splits)

lemma require_running_run:
  "get_browser_ws w = Some (Inr b, w1) \<Longrightarrow>
     require_running w =
       (if truthy b then Some (Inr (), w1)
        else Some (Inl (SysExit 1),
               w1\<lparr>stdout := stdout w1 @ [''Chrome is not running. Use: python browser.py start'']\<rparr>))"
  by (simp add: require_running_def bindM_def thenM_def print_out_def sys_exit_def returnM_def)

lemma running_world_up:
  "http_reqs w = rs \<Longrightarrow> http_resp w = http_resp running_world \<Longrightarrow>
   DEBUG_PORT w = 9333 \<Longrightarrow>
     require_running w = Some (Inr (), w\<lparr>http_reqs := rs @ [(9333, ''/json/version'')]\<rparr>)"
  by (simp add: require_running_run[where b = "JStr ''ws://localhost:9333/devtools/browser/b1''"]
      get_browser_ws_run world_sel py_getitem_def)

lemma running_world_page:
  "http_reqs w = rs \<Longrightarrow> http_resp w = http_resp running_world \<Longrightarrow>
   DEBUG_PORT w = 9333 \<Longrightarrow>
     require_page w = Some (Inr (JStr ''ws://localhost:9333/devtools/page/p1''),
                            w\<lparr>http_reqs := rs @ [(9333, ''/json'')]\<rparr>)"
  by (simp add: require_page_run[where v = "JStr ''ws://localhost:9333/devtools/page/p1''"]
      get_page_ws_list[where ts = "[JObj [(''type'', JStr ''service_worker''),
                                  (''url'', JStr ''chrome-extension://ghbmnnjooekpmoecnnnilnnbdlolhkhi/sw.js''),
                                  (''webSocketDebuggerUrl'', JStr ''ws://localhost:9333/devtools/page/s1'')],
                            JObj [(''type'', JStr ''page''),
                                  (''title'', JStr ''Example''),
                                  (''url'', JStr ''about:blank''),
                                  (''webSocketDebuggerUrl'', JStr ''ws://localhost:9333/devtools/page/p1'')]]"]
      world_sel py_get_def py_eq_str_def)

lemma running_world_recv:
  "ws_incoming w = ws_incoming running_world \<Longrightarrow>
     recv_loop (ws_incoming w k) 0 = Some (Inr (JObj [(''id'', JInt 1), (''result'', JObj [])]))"
proof -
  assume a: "ws_incoming w = ws_incoming running_world"
  have "recv_loop (ws_incoming w k) 0 = recv_loop (ws_incoming w k) (Suc 0)"
    by (rule recv_loop_skip[where m = "JObj [(''method'', JStr ''Page.frameNavigated'')]"])
       (simp_all add: a world_sel other_message_def py_get_def py_eq_int_def)
  also have "\<dots> = Some (Inr (JObj [(''id'', JInt 1), (''result'', JObj [])]))"
    by (rule recv_loop_hit) (simp_all add: a world_sel has_id_1_def py_get_def py_eq_int_def)
  finally show ?thesis .
qed

theorem cmd_open_normalises_url_witness:
  "(\<exists>r w'. cmd_open ''example.com'' running_world = Some (r, w')
      \<and> ws_log w' =
          [WsOpen 0 ''ws://localhost:9333/devtools/page/p1'',
           WsSend 0 (JObj [(''id'', JInt 1), (''method'', JStr ''Page.navigate''),
                           (''params'', JObj [(''url'', JStr ''https://example.com'')])]),
           WsClose 0])
   \<and> (\<exists>r w'. cmd_open ''about:blank'' running_world = Some (r, w')
      \<and> ws_log w' =
          [WsOpen 0 ''ws://localhost:9333/devtools/page/p1'',
           WsSend 0 (JObj [(''id'', JInt 1), (''method'', JStr ''Page.navigate''),
                           (''params'', JObj [(''url'', JStr ''about:blank'')])]),
           WsClose 0])"
proof -
  let ?w1 = "running_world\<lparr>http_reqs := [] @ [(9333, ''/json/version'')]\<rparr>"
  let ?w2 = "?w1\<lparr>http_reqs := [(9333, ''/json/version'')] @ [(9333, ''/json'')]\<rparr>"
  have a: "require_running running_world = Some (Inr (), ?w1)"
    by (rule running_world_up) (simp_all add: world_sel)
  have b: "require_page ?w1 = Some (Inr (JStr ''ws://localhost:9333/devtools/page/p1''), ?w2)"
    by (rule running_world_page) (simp_all add: world_sel)
  have c: "ws_connect ?w2 (ws_n ?w2) ''ws://localhost:9333/devtools/page/p1'' = None"
    by (simp add: world_sel)
  have d: "recv_loop (ws_incoming ?w2 (ws_n ?w2)) 0 \<noteq> None"
    by (simp add: running_world_recv)
  have n: "ws_n running_world = 0" "ws_log running_world = []"
    by (simp_all add: world_sel)
  show ?thesis
    using cmd_open_normalises_url[OF a b c d, of "''example.com''"]
      cmd_open_normalises_url[OF a b c d, of "''about:blank''"]
    by (simp add: n cdp_msg_def startswith_def)
qed

subsection \<open>Stopping\<close>

lemma load_state_run:
  "load_state w =
     (if STATE_FILE \<in> dom (files w) \<or> STATE_FILE \<in> dirs w then
        (case files w STATE_FILE of
           None \<Rightarrow> Some (Inl (Raised (Exc OSError STATE_FILE)), w)
         | Some txt \<Rightarrow>
             (case json_loads (lib w) txt of
                Inl m \<Rightarrow> Some (Inl (Raised (Exc JSONDecodeError m)), w)
              | Inr st \<Rightarrow> Some (Inr st, w)))
      else Some (Inr JNull, w))"
  by (auto simp add: load_state_def path_exists_def read_text_def bindM_def getsM_def returnM_def
      raiseM_def dom_def split: option.splits sum.splits)

lemma kill_chrome_returns:
  "\<exists>w1. kill_chrome pid w = Some (Inr (), w1)
        \<and> files w1 = files w \<and> locked w1 = locked w \<and> dirs w1 = dirs w"
  by (cases "run_res w (length (ran w))")
     (auto simp add: kill_chrome_def try_except_def bindM_def thenM_def getsM_def
       subprocess_run_def print_out_def Let_def split: exn.splits)

lemma cmd_stop_loaded:
  assumes "files w STATE_FILE = Some txt" and "json_loads (lib w) txt = Inr (JObj kvs)"
    and "kvs \<noteq> []"
  shows "\<exists>w1. files w1 = files w \<and> locked w1 = locked w \<and> dirs w1 = dirs w
              \<and> cmd_stop w = unlink_missing_ok STATE_FILE w1"
proof -
  have l: "load_state w = Some (Inr (JObj kvs), w)"
    using assms(1,2) by (simp add: load_state_run dom_def)
  obtain pid where pid: "py_get (JObj kvs) ''pid'' JNull = Inr pid"
    by (simp add: py_get_def)
  show ?thesis
  proof (cases "truthy pid")
    case True
    obtain w1 where w1: "kill_chrome pid w = Some (Inr (), w1)"
        "files w1 = files w" "locked w1 = locked w" "dirs w1 = dirs w"
      using kill_chrome_returns[of pid w] by blast
    have "cmd_stop w = unlink_missing_ok STATE_FILE w1"
      using l pid True w1(1) assms(3)
      by (simp add: cmd_stop_def bindM_def thenM_def liftE_def returnM_def)
    with w1 show ?thesis by blast
  next
    case False
    have "cmd_stop w = unlink_missing_ok STATE_FILE w"
      using l pid False assms(3)
      by (simp add: cmd_stop_def bindM_def thenM_def liftE_def returnM_def)
    then show ?thesis by blast
  qed
qed

text \<open>
  C10. For every saved state that parses to a non-empty JSON object, as every state
  written by \<open>save_state\<close> does, the state file is gone whenever \<open>cmd_stop\<close> returns
  normally; and it does return normally, whatever \<open>taskkill\<close> does, unless the
  operating system refuses the unlink. When nothing exists at the state file's path,
  \<open>cmd_stop\<close> prints that there is nothing to stop and changes nothing else.
\<close>

theorem cmd_stop_removes_state:
  "(files w STATE_FILE = Some txt \<and> json_loads (lib w) txt = Inr (JObj kvs) \<and> kvs \<noteq> [] \<longrightarrow>
      (\<forall>w'. cmd_stop w = Some (Inr (), w') \<longrightarrow> files w' STATE_FILE = None)
      \<and> (STATE_FILE \<notin> locked w \<and> STATE_FILE \<notin> dirs w \<longrightarrow>
           (\<exists>w'. cmd_stop w = Some (Inr (), w') \<and> files w' STATE_FILE = None)))
   \<and> (files w STATE_FILE = None \<and> STATE_FILE \<notin> dirs w \<longrightarrow>
      cmd_stop w = Some (Inr (), w\<lparr>stdout := stdout w @ [''No saved state. Nothing to stop.'']\<rparr>))"
proof (intro conjI impI)
  assume a: "files w STATE_FILE = Some txt \<and> json_loads (lib w) txt = Inr (JObj kvs) \<and> kvs \<noteq> []"
  then obtain w1 where w1: "files w1 = files w" "locked w1 = locked w" "dirs w1 = dirs w"
      "cmd_stop w = unlink_missing_ok STATE_FILE w1"
    using cmd_stop_loaded[of w "txt" kvs] by blast
  show "\<forall>w'. cmd_stop w = Some (Inr (), w') \<longrightarrow> files w' STATE_FILE = None"
    using w1(4) by (auto simp add: unlink_missing_ok_def split: if_splits)
  assume "STATE_FILE \<notin> locked w \<and> STATE_FILE \<notin> dirs w"
  then show "\<exists>w'. cmd_stop w = Some (Inr (), w') \<and> files w' STATE_FILE = None"
    using w1 by (simp add: unlink_missing_ok_def)
next
  assume "files w STATE_FILE = None \<and> STATE_FILE \<notin> dirs w"
  then show "cmd_stop w = Some (Inr (), w\<lparr>stdout := stdout w @ [''No saved state. Nothing to stop.'']\<rparr>)"
    by (simp add: cmd_stop_def load_state_run bindM_def print_out_def dom_def)
qed

theorem cmd_stop_removes_state_witness:
  "(\<exists>w'. cmd_stop saved_world = Some (Inr (), w') \<and> files w' STATE_FILE = None)
   \<and> cmd_stop idle_world
       = Some (Inr (), idle_world\<lparr>stdout := [''No saved state. Nothing to stop.'']\<rparr>)"
proof -
  have a: "files saved_world STATE_FILE = Some saved_state_text
      \<and> json_loads (lib saved_world) saved_state_text
          = Inr (JObj [(''pid'', JInt 4242), (''port'', JInt 9333)])
      \<and> [(''pid'', JInt 4242), (''port'', JInt 9333)] \<noteq> []"
    by (simp add: saved_world_def idle_world_def example_lib_def)
  have b: "STATE_FILE \<notin> locked saved_world \<and> STATE_FILE \<notin> dirs saved_world"
    by (simp add: saved_world_def idle_world_def)
  have c: "files idle_world STATE_FILE = None \<and> STATE_FILE \<notin> dirs idle_world"
    by (simp add: idle_world_def)
  have d: "stdout idle_world = []"
    by (simp add: idle_world_def)
  show ?thesis
    using cmd_stop_removes_state[of saved_world saved_state_text
            "[(''pid'', JInt 4242), (''port'', JInt 9333)]"]
      cmd_stop_removes_state[of idle_world saved_state_text "[]"] a b c d
    by simp
qed

subsection \<open>The extension ID\<close>

lemma bindM_InrE:
  assumes "bindM m f w = Some (Inr y, w')"
  obtains x w1 where "m w = Some (Inr x, w1)" and "f x w1 = Some (Inr y, w')"
  using assms by (auto simp add: bindM_def split: option.splits sum.splits)

lemma thenM_InrE:
  assumes "thenM m n w = Some (Inr y, w')"
  obtains x w1 where "m w = Some (Inr x, w1)" and "n w1 = Some (Inr y, w')"
  using assms unfolding thenM_def by (rule bindM_InrE)

lemma try_except_InrE:
  assumes "try_except m h w = Some (Inr y, w')"
  obtains "m w = Some (Inr y, w')"
  | e w1 where "m w = Some (Inl (Raised e), w1)" and "h e w1 = Some (Inr y, w')"
  using assms
  by (auto simp add: try_except_def split: option.splits sum.splits abort.splits)

lemma returnM_InrE:
  assumes "returnM x w = Some (Inr y, w')"
  obtains "y = x" and "w' = w"
  using assms by (simp add: returnM_def)

lemma raiseM_not_Inr: "raiseM e w \<noteq> Some (Inr y, w')"
  by (simp add: raiseM_def)

lemma cache_written:
  assumes "thenM (mkdir_p d) (thenM (write_file p s) (returnM (Some s))) w = Some (Inr (Some x), w')"
  shows "x = s \<and> files w' p = Some s"
  using assms
  by (auto simp add: thenM_def bindM_def mkdir_p_def write_file_def returnM_def split: if_splits)

lemma scan_ext_targets_result:
  "scan_ext_targets ts w = Some (Inr (Some ext), w') \<Longrightarrow>
     ext \<notin> BUILTIN_EXT_IDS \<and> files w' EXT_ID_FILE = Some ext"
proof (induction ts arbitrary: w)
  case Nil
  then show ?case by (simp add: returnM_def)
next
  case (Cons t ts)
  from Cons.prems obtain url w1 where
      u: "liftE (py_get t ''url'' (JStr [])) w = Some (Inr url, w1)"
      and r: "(case url of
                 JStr u \<Rightarrow>
                   if startswith u ''chrome-extension://'' then
                     bindM (liftE (list_index (split_on CHR ''/'' u) 2)) (\<lambda>ext_id.
                       if ext_id \<notin> BUILTIN_EXT_IDS then
                         thenM (mkdir_p STATE_DIR)
                           (thenM (write_file EXT_ID_FILE ext_id) (returnM (Some ext_id)))
                       else scan_ext_targets ts)
                   else scan_ext_targets ts
               | _ \<Rightarrow> raiseM (Exc AttributeError ''object has no attribute startswith'')) w1
             = Some (Inr (Some ext), w')"
    by (auto elim: bindM_InrE)
  show ?case
  proof (cases url)
    case (JStr u)
    show ?thesis
    proof (cases "startswith u ''chrome-extension://''")
      case False
      with r JStr have "scan_ext_targets ts w1 = Some (Inr (Some ext), w')" by simp
      then show ?thesis by (rule Cons.IH)
    next
      case True
      with r JStr obtain ext_id w2 where
          e: "(if ext_id \<notin> BUILTIN_EXT_IDS then
                 thenM (mkdir_p STATE_DIR)
                   (thenM (write_file EXT_ID_FILE ext_id) (returnM (Some ext_id)))
               else scan_ext_targets ts) w2 = Some (Inr (Some ext), w')"
        by (auto elim: bindM_InrE)
      show ?thesis
      proof (cases "ext_id \<in> BUILTIN_EXT_IDS")
        case True
        with e have "scan_ext_targets ts w2 = Some (Inr (Some ext), w')" by simp
        then show ?thesis by (rule Cons.IH)
      next
        case False
        with e cache_written[of STATE_DIR EXT_ID_FILE ext_id w2 ext w'] show ?thesis by simp
      qed
    qed
  qed (use r in \<open>simp_all add: raiseM_def\<close>)
qed

lemma discover_from_targets_result:
  assumes "discover_from_targets b w = Some (Inr (Some ext), w')"
  shows "ext \<notin> BUILTIN_EXT_IDS \<and> files w' EXT_ID_FILE = Some ext"
  using assms unfolding discover_from_targets_def
  by (auto elim!: bindM_InrE dest: scan_ext_targets_result)

lemma CWS_EXT_ID_not_builtin: "CWS_EXT_ID \<notin> BUILTIN_EXT_IDS"
  by (simp add: CWS_EXT_ID_def BUILTIN_EXT_IDS_def)

lemma discover_from_cws_result:
  assumes "discover_from_cws w = Some (Inr (Some ext), w')"
  shows "ext \<notin> BUILTIN_EXT_IDS \<and> files w' EXT_ID_FILE = Some ext"
  using assms unfolding discover_from_cws_def
  by (auto elim!: bindM_InrE thenM_InrE returnM_InrE split: if_splits
      simp add: CWS_EXT_ID_not_builtin
      dest!: cache_written)

lemma discover_ext_id_result:
  assumes "discover_ext_id w = Some (Inr (Some ext), w')"
  shows "ext \<notin> BUILTIN_EXT_IDS \<and> files w' EXT_ID_FILE = Some ext"
proof -
  from assms obtain b w1 where
      r: "(if \<not> truthy b then returnM None
           else bindM (try_except (discover_from_targets b) (\<lambda>e. returnM None)) (\<lambda>found.
                  case found of
                    Some ext_id \<Rightarrow> returnM (Some ext_id)
                  | None \<Rightarrow> try_except discover_from_cws (\<lambda>e. returnM None))) w1
          = Some (Inr (Some ext), w')"
    unfolding discover_ext_id_def by (auto elim: bindM_InrE)
  then have t: "truthy b"
    by (auto simp add: returnM_def split: if_splits)
  with r obtain found w2 where
      f: "try_except (discover_from_targets b) (\<lambda>e. returnM None) w1 = Some (Inr found, w2)"
      and g: "(case found of
                 Some ext_id \<Rightarrow> returnM (Some ext_id)
               | None \<Rightarrow> try_except discover_from_cws (\<lambda>e. returnM None)) w2
              = Some (Inr (Some ext), w')"
    by (auto elim: bindM_InrE)
  show ?thesis
  proof (cases found)
    case (Some ext_id)
    with g have eq: "ext_id = ext" "w' = w2"
      by (simp_all add: returnM_def)
    from f Some eq have "discover_from_targets b w1 = Some (Inr (Some ext), w')"
      by (auto elim!: try_except_InrE simp add: returnM_def)
    then show ?thesis by (rule discover_from_targets_result)
  next
    case None
    with g have "discover_from_cws w2 = Some (Inr (Some ext), w')"
      by (auto elim!: try_except_InrE simp add: returnM_def)
    then show ?thesis by (rule discover_from_cws_result)
  qed
qed

lemma get_ext_id_run:
  "get_ext_id w =
     (case files w EXT_ID_FILE of
        None \<Rightarrow>
          (if EXT_ID_FILE \<in> dirs w then Some (Inl (Raised (Exc OSError EXT_ID_FILE)), w)
           else Some (Inr None, w))
      | Some txt \<Rightarrow>
          (if strip txt \<noteq> [] \<and> strip txt \<notin> BUILTIN_EXT_IDS then Some (Inr (Some (strip txt)), w)
           else Some (Inr None, w)))"
  by (simp add: get_ext_id_def path_exists_def read_text_def bindM_def returnM_def Let_def dom_def
      split: option.splits)

text \<open>
  C8. Neither \<open>get_ext_id\<close> nor \<open>discover_ext_id\<close> returns a built-in extension ID:
  a cached ID in \<open>BUILTIN_EXT_IDS\<close> makes \<open>get_ext_id\<close> return \<open>None\<close>, and every ID
  that \<open>discover_ext_id\<close> returns is outside the set and is, in the world it returns
  in, the content of the extension-ID cache file.
\<close>

theorem ext_id_never_builtin:
  "(get_ext_id w = Some (Inr (Some ext), w') \<longrightarrow> ext \<notin> BUILTIN_EXT_IDS)
   \<and> (files w EXT_ID_FILE = Some cached \<and> strip cached \<in> BUILTIN_EXT_IDS \<longrightarrow>
        get_ext_id w = Some (Inr None, w))
   \<and> (discover_ext_id w = Some (Inr (Some ext), w') \<longrightarrow>
        ext \<notin> BUILTIN_EXT_IDS \<and> files w' EXT_ID_FILE = Some ext)"
proof (intro conjI impI)
  assume "get_ext_id w = Some (Inr (Some ext), w')"
  then show "ext \<notin> BUILTIN_EXT_IDS"
    by (auto simp add: get_ext_id_run split: option.splits if_splits)
next
  assume "files w EXT_ID_FILE = Some cached \<and> strip cached \<in> BUILTIN_EXT_IDS"
  then show "get_ext_id w = Some (Inr None, w)"
    by (simp add: get_ext_id_run)
next
  assume d: "discover_ext_id w = Some (Inr (Some ext), w')"
  from discover_ext_id_result[OF d] show "ext \<notin> BUILTIN_EXT_IDS" by simp
  from discover_ext_id_result[OF d] show "files w' EXT_ID_FILE = Some ext" by simp
qed

lemmas ext_sel = extension_world_def running_world_def idle_world_def

lemma extension_world_browser:
  "get_browser_ws extension_world =
     Some (Inr (JStr ''ws://localhost:9333/devtools/browser/b1''),
           extension_world\<lparr>http_reqs := [(9333, ''/json/version'')]\<rparr>)"
  by (simp add: get_browser_ws_run ext_sel py_getitem_def)

lemma extension_world_targets:
  "cdp_send (JStr ''ws://localhost:9333/devtools/browser/b1'') ''Target.getTargets'' JNull
     (extension_world\<lparr>http_reqs := [(9333, ''/json/version'')]\<rparr>) =
   Some (Inr (JObj [(''id'', JInt 1),
                    (''result'', JObj [(''targetInfos'',
                       JArr [JObj [(''type'', JStr ''service_worker''),
                                   (''url'', JStr ''chrome-extension://ecabifbgmdmgdllomnfinbmaellmclnh/worker.js'')]])])]),
         extension_world
           \<lparr>http_reqs := [(9333, ''/json/version'')],
            ws_n := 1,
            ws_log := [WsOpen 0 ''ws://localhost:9333/devtools/browser/b1'',
                       WsSend 0 (JObj [(''id'', JInt 1), (''method'', JStr ''Target.getTargets'')]),
                       WsClose 0]\<rparr>)"
  by (simp add: cdp_send_run Let_def ext_sel cdp_msg_def
      recv_loop_hit[where resp = "JObj [(''id'', JInt 1),
                    (''result'', JObj [(''targetInfos'',
                       JArr [JObj [(''type'', JStr ''service_worker''),
                                   (''url'', JStr ''chrome-extension://ecabifbgmdmgdllomnfinbmaellmclnh/worker.js'')]])])]"]
      has_id_1_def py_get_def py_eq_int_def)

lemma split_ext_url:
  "list_index (split_on CHR ''/'' ''chrome-extension://ecabifbgmdmgdllomnfinbmaellmclnh/worker.js'') 2
     = Inr ''ecabifbgmdmgdllomnfinbmaellmclnh''"
  by (simp add: list_index_def)

lemma paths_distinct:
  "EXT_ID_FILE \<noteq> STATE_DIR" "STATE_FILE \<noteq> STATE_DIR" "STATE_FILE \<noteq> EXT_ID_FILE"
  "CHROME_DATA \<noteq> STATE_FILE" "CHROME_DATA \<noteq> EXT_ID_FILE"
  by (simp_all add: EXT_ID_FILE_def STATE_DIR_def STATE_FILE_def CHROME_DATA_def)

lemma extension_world_fs:
  "files extension_world = Map.empty" "locked extension_world = {}" "dirs extension_world = {}"
  by (simp_all add: ext_sel)

lemma extension_world_discover:
  "discover_ext_id extension_world = Some (Inr (Some ''ecabifbgmdmgdllomnfinbmaellmclnh''), found_world)"
proof -
  have "discover_ext_id extension_world =
      Some (Inr (Some ''ecabifbgmdmgdllomnfinbmaellmclnh''),
        extension_world
           \<lparr>http_reqs := [(9333, ''/json/version'')],
            ws_n := 1,
            ws_log := [WsOpen 0 ''ws://localhost:9333/devtools/browser/b1'',
                       WsSend 0 (JObj [(''id'', JInt 1), (''method'', JStr ''Target.getTargets'')]),
                       WsClose 0],
            dirs := {STATE_DIR},
            files := [EXT_ID_FILE \<mapsto> ''ecabifbgmdmgdllomnfinbmaellmclnh'']\<rparr>)"
    by (simp add: discover_ext_id_def discover_from_targets_def bindM_def thenM_def try_except_def
        extension_world_browser extension_world_targets py_get_def py_iter_def
        liftE_def returnM_def raiseM_def startswith_def list_index_def BUILTIN_EXT_IDS_def
        mkdir_p_def write_file_def extension_world_fs paths_distinct)
  then show ?thesis by (simp add: found_world_def)
qed

theorem ext_id_never_builtin_witness:
  "discover_ext_id extension_world = Some (Inr (Some ''ecabifbgmdmgdllomnfinbmaellmclnh''), found_world)
   \<and> ''ecabifbgmdmgdllomnfinbmaellmclnh'' \<notin> BUILTIN_EXT_IDS
   \<and> files found_world EXT_ID_FILE = Some ''ecabifbgmdmgdllomnfinbmaellmclnh''
   \<and> get_ext_id found_world = Some (Inr (Some ''ecabifbgmdmgdllomnfinbmaellmclnh''), found_world)
   \<and> get_ext_id (idle_world\<lparr>files := [EXT_ID_FILE \<mapsto> ''mhjfbmdgcfjbbpaeojofohoefgiehjai '']\<rparr>)
       = Some (Inr None, idle_world\<lparr>files := [EXT_ID_FILE \<mapsto> ''mhjfbmdgcfjbbpaeojofohoefgiehjai '']\<rparr>)"
proof -
  have g: "get_ext_id found_world = Some (Inr (Some ''ecabifbgmdmgdllomnfinbmaellmclnh''), found_world)"
    by (simp add: get_ext_id_run found_world_def strip_def is_space_def BUILTIN_EXT_IDS_def)
  have c: "files (idle_world\<lparr>files := [EXT_ID_FILE \<mapsto> ''mhjfbmdgcfjbbpaeojofohoefgiehjai '']\<rparr>) EXT_ID_FILE
             = Some ''mhjfbmdgcfjbbpaeojofohoefgiehjai ''
           \<and> strip ''mhjfbmdgcfjbbpaeojofohoefgiehjai '' \<in> BUILTIN_EXT_IDS"
    by (simp add: strip_def is_space_def BUILTIN_EXT_IDS_def)
  show ?thesis
    using ext_id_never_builtin[of extension_world "''ecabifbgmdmgdllomnfinbmaellmclnh''" found_world
            "''x''"]
      ext_id_never_builtin[of found_world "''ecabifbgmdmgdllomnfinbmaellmclnh''" found_world "''x''"]
      ext_id_never_builtin[of "idle_world\<lparr>files := [EXT_ID_FILE \<mapsto> ''mhjfbmdgcfjbbpaeojofohoefgiehjai '']\<rparr>"
            "''x''" idle_world "''mhjfbmdgcfjbbpaeojofohoefgiehjai ''"]
      extension_world_discover g c
    by simp
qed

subsection \<open>Starting\<close>

lemma get_browser_ws_down:
  assumes "endpoint_down (http_resp w (length (http_reqs w)) ''/json/version'')"
  shows "\<exists>b. \<not> truthy b \<and>
     get_browser_ws w
       = Some (Inr b, w\<lparr>http_reqs := http_reqs w @ [(DEBUG_PORT w, ''/json/version'')]\<rparr>)"
  using assms
  by (auto simp add: get_browser_ws_run endpoint_down_def Let_def
      split: http_result.splits sum.splits)

lemma get_browser_ws_up:
  assumes "endpoint_up (http_resp w (length (http_reqs w)) ''/json/version'')"
  shows "\<exists>b. truthy b \<and>
     get_browser_ws w
       = Some (Inr b, w\<lparr>http_reqs := http_reqs w @ [(DEBUG_PORT w, ''/json/version'')]\<rparr>)"
  using assms
  by (auto simp add: get_browser_ws_run endpoint_up_def Let_def
      split: http_result.splits sum.splits)

lemma polled_Suc_0:
  "polled (Suc 0) w = w\<lparr>http_reqs := http_reqs w @ [(DEBUG_PORT w, ''/json/version'')],
                          sleeps := sleeps w @ [1 / 2]\<rparr>"
  by (simp add: polled_def)

lemma start_poll_step_down:
  assumes "endpoint_down (http_resp w (length (http_reqs w)) ''/json/version'')"
  shows "start_poll (Suc n) pid w = start_poll n pid (polled (Suc 0) w)"
proof -
  from get_browser_ws_down[OF assms] obtain b where b: "\<not> truthy b"
      "get_browser_ws w
       = Some (Inr b, w\<lparr>http_reqs := http_reqs w @ [(DEBUG_PORT w, ''/json/version'')]\<rparr>)"
    by blast
  have "start_poll (Suc n) pid w =
      start_poll n pid (w\<lparr>http_reqs := http_reqs w @ [(DEBUG_PORT w, ''/json/version'')],
                          sleeps := sleeps w @ [1 / 2]\<rparr>)"
    using b by (simp add: bindM_def thenM_def sleep_def)
  then show ?thesis
    by (simp only: polled_Suc_0)
qed

lemma polled_polled: "polled n (polled (Suc 0) w) = polled (Suc n) w"
  by (simp add: polled_def)

lemma polled_sel:
  "http_resp (polled n w) = http_resp w"
  "length (http_reqs (polled n w)) = length (http_reqs w) + n"
  "stdout (polled n w) = stdout w" "killed (polled n w) = killed w"
  "DEBUG_PORT (polled n w) = DEBUG_PORT w"
  "http_reqs (polled n w) = http_reqs w @ replicate n (DEBUG_PORT w, ''/json/version'')"
  by (simp_all add: polled_def)

lemma polled_0: "polled 0 w = w"
  by (simp add: polled_def)

lemma start_poll_skip_down:
  assumes "\<forall>j<k. endpoint_down (http_resp w (length (http_reqs w) + j) ''/json/version'')"
  shows "start_poll (k + n) pid w = start_poll n pid (polled k w)"
  using assms
proof (induction k arbitrary: w)
  case 0
  show ?case by (simp only: polled_0 add_0)
next
  case (Suc k)
  from Suc.prems have d0: "endpoint_down (http_resp w (length (http_reqs w)) ''/json/version'')"
    by force
  have "\<forall>j<k. endpoint_down (http_resp (polled (Suc 0) w)
                  (length (http_reqs (polled (Suc 0) w)) + j) ''/json/version'')"
  proof (intro allI impI)
    fix j assume "j < k"
    then have "Suc j < Suc k" by simp
    with Suc.prems have "endpoint_down (http_resp w (length (http_reqs w) + Suc j) ''/json/version'')"
      by blast
    then show "endpoint_down (http_resp (polled (Suc 0) w)
                  (length (http_reqs (polled (Suc 0) w)) + j) ''/json/version'')"
      by (simp add: polled_sel)
  qed
  then have ih: "start_poll (k + n) pid (polled (Suc 0) w)
                   = start_poll n pid (polled k (polled (Suc 0) w))"
    by (rule Suc.IH)
  have "start_poll (Suc k + n) pid w = start_poll (k + n) pid (polled (Suc 0) w)"
    using start_poll_step_down[OF d0, of "k + n" pid] by (simp only: add_Suc)
  also note ih
  also have "start_poll n pid (polled k (polled (Suc 0) w)) = start_poll n pid (polled (Suc k) w)"
    by (simp only: polled_polled)
  finally show ?case .
qed

lemma start_poll_0:
  "start_poll 0 pid w =
     Some (Inl (SysExit 1),
           w\<lparr>stdout := stdout w @ [''ERROR: Chrome did not start in time.''],
             killed := killed w @ [pid]\<rparr>)"
  by (simp add: thenM_def bindM_def print_out_def proc_kill_def sys_exit_def)

lemma start_poll_all_down:
  assumes "\<forall>k<n. endpoint_down (http_resp w (length (http_reqs w) + k) ''/json/version'')"
  shows "start_poll n pid w =
     Some (Inl (SysExit 1),
           (polled n w)\<lparr>stdout := stdout w @ [''ERROR: Chrome did not start in time.''],
                         killed := killed w @ [pid]\<rparr>)"
proof -
  have "start_poll (n + 0) pid w = start_poll 0 pid (polled n w)"
    using assms by (rule start_poll_skip_down)
  then have "start_poll n pid w = start_poll 0 pid (polled n w)"
    by (simp only: add_0_right)
  then show ?thesis
    by (simp only: start_poll_0 polled_sel)
qed

lemma start_poll_up:
  assumes "endpoint_up (http_resp w (length (http_reqs w)) ''/json/version'')"
  shows "start_poll (Suc m) pid w =
     chrome_started pid (w\<lparr>http_reqs := http_reqs w @ [(DEBUG_PORT w, ''/json/version'')]\<rparr>)"
proof -
  from get_browser_ws_up[OF assms] obtain b where b: "truthy b"
      "get_browser_ws w
         = Some (Inr b, w\<lparr>http_reqs := http_reqs w @ [(DEBUG_PORT w, ''/json/version'')]\<rparr>)"
    by blast
  then show ?thesis by (simp add: bindM_def)
qed

lemma start_poll_first_up:
  assumes "k < n"
    and "\<forall>j<k. endpoint_down (http_resp w (length (http_reqs w) + j) ''/json/version'')"
    and "endpoint_up (http_resp w (length (http_reqs w) + k) ''/json/version'')"
  shows "start_poll n pid w =
     chrome_started pid
       ((polled k w)\<lparr>http_reqs := http_reqs w @ replicate (Suc k) (DEBUG_PORT w, ''/json/version'')\<rparr>)"
proof -
  from assms(1) obtain m where "n = Suc (k + m)"
    by (auto dest: less_imp_Suc_add)
  then have n: "n = k + Suc m"
    by simp
  have s: "start_poll (k + Suc m) pid w = start_poll (Suc m) pid (polled k w)"
    using assms(2) by (rule start_poll_skip_down)
  have "endpoint_up (http_resp (polled k w) (length (http_reqs (polled k w))) ''/json/version'')"
    using assms(3) by (simp add: polled_sel)
  then have u: "start_poll (Suc m) pid (polled k w) =
     chrome_started pid ((polled k w)\<lparr>http_reqs := http_reqs (polled k w)
                                     @ [(DEBUG_PORT (polled k w), ''/json/version'')]\<rparr>)"
    by (rule start_poll_up)
  have r: "http_reqs (polled k w) @ [(DEBUG_PORT (polled k w), ''/json/version'')]
          = http_reqs w @ replicate (Suc k) (DEBUG_PORT w, ''/json/version'')"
    by (simp add: polled_sel replicate_append_same)
  show ?thesis
    unfolding n s u r ..
qed

lemma find_chrome_in_find:
  "find_chrome_in cs w =
     (case find (\<lambda>p. p \<noteq> [] \<and> p \<in> dom (files w)) cs of
        None \<Rightarrow> Some (Inl (Raised (Exc FileNotFoundError
                   ''Chrome not found. Set CHROME_BIN environment variable.'')), w)
      | Some p \<Rightarrow> Some (Inr p, w))"
  by (induction cs) (simp_all add: raiseM_def bindM_def isfile_def returnM_def)

lemma cmd_start_launch:
  assumes "endpoint_down (http_resp w (length (http_reqs w)) ''/json/version'')"
    and "find (\<lambda>p. p \<noteq> [] \<and> p \<in> dom (files w)) (CHROME_CANDIDATES w) = Some chrome"
    and "CHROME_DATA \<notin> dom (files w)" and "CHROME_DATA \<notin> locked w"
    and "popen_res w (length (spawned w)) = Inr pid"
  shows "cmd_start w =
     start_poll 30 pid
       (w\<lparr>http_reqs := http_reqs w @ [(DEBUG_PORT w, ''/json/version'')],
          dirs := insert CHROME_DATA (dirs w),
          spawned := spawned w @ [popen_args chrome w],
          stdout := stdout w @ [''Starting Chrome...'']\<rparr>)"
proof -
  from get_browser_ws_down[OF assms(1)] obtain b where b: "\<not> truthy b"
      "get_browser_ws w
       = Some (Inr b, w\<lparr>http_reqs := http_reqs w @ [(DEBUG_PORT w, ''/json/version'')]\<rparr>)"
    by blast
  have c: "CHROME_CANDIDATES (w\<lparr>http_reqs := http_reqs w @ [(DEBUG_PORT w, ''/json/version'')]\<rparr>)
             = CHROME_CANDIDATES w"
    by (simp add: CHROME_CANDIDATES_def)
  have p: "popen_args chrome (w\<lparr>http_reqs := http_reqs w @ [(DEBUG_PORT w, ''/json/version'')],
              dirs := insert CHROME_DATA (dirs w)\<rparr>) = popen_args chrome w"
    by (simp add: popen_args_def)
  show ?thesis
    using b assms(2-5)
    by (simp add: cmd_start_def bindM_def find_chrome_def getsM_def find_chrome_in_find c p
        thenM_def mkdir_p_def popen_def print_out_def)
qed

lemma cdp_send_one_attempt:
  assumes "cdp_send url method params w = Some (r, w')"
  shows "ws_n w' \<le> Suc (ws_n w)"
proof (cases "\<exists>u. url = JStr u")
  case False
  with assms show ?thesis by (auto simp add: cdp_send_not_str)
next
  case True
  then obtain u where u: "url = JStr u" by blast
  show ?thesis
  proof (cases "ws_connect w (ws_n w) u")
    case (Some e)
    with assms u show ?thesis by (auto simp add: cdp_send_refused)
  next
    case None
    with assms u show ?thesis
      by (auto simp add: cdp_send_run Let_def split: option.splits sum.splits)
  qed
qed

lemma launch_world_sel:
  "http_reqs launch_world = []" "DEBUG_PORT launch_world = 9333"
  "http_resp launch_world = (\<lambda>k ep. HttpUnreachable)"
  "files launch_world = [''chrome.exe'' \<mapsto> []]" "locked launch_world = {}"
  "dirs launch_world = {}" "spawned launch_world = []" "popen_res launch_world = (\<lambda>k. Inr 4242)"
  "stdout launch_world = []" "killed launch_world = []" "sleeps launch_world = []"
  "chrome_bin launch_world = ''chrome.exe''"
  by (simp_all add: launch_world_def idle_world_def)

subsection \<open>Command lines and a run of start\<close>

lemma main_cmd0:
  assumes "2 \<le> length argv"
  shows "argv ! 1 = ''start'' \<Longrightarrow> main argv = cmd_start"
    and "argv ! 1 = ''setup'' \<Longrightarrow> main argv = cmd_setup"
    and "argv ! 1 = ''stop'' \<Longrightarrow> main argv = cmd_stop"
    and "argv ! 1 = ''status'' \<Longrightarrow> main argv = cmd_status"
    and "argv ! 1 = ''push'' \<Longrightarrow> main argv = cmd_push"
    and "argv ! 1 = ''import'' \<Longrightarrow> main argv = cmd_import"
  using assms by (simp_all add: main_def COMMANDS_def call0_def)

lemma main_cmd1:
  assumes "2 \<le> length argv"
  shows "argv ! 1 = ''open'' \<Longrightarrow> main argv =
           (if length argv < 3 then
              thenM (print_out (''Usage: python browser.py open <url>'')) (sys_exit 1)
            else cmd_open (join_sp (drop 2 argv)))"
    and "argv ! 1 = ''js'' \<Longrightarrow> main argv =
           (if length argv < 3 then
              thenM (print_out (''Usage: python browser.py js <expression>'')) (sys_exit 1)
            else cmd_js (join_sp (drop 2 argv)))"
    and "argv ! 1 = ''click'' \<Longrightarrow> main argv =
           (if length argv < 3 then
              thenM (print_out (''Usage: python browser.py click <selector>'')) (sys_exit 1)
            else cmd_click (join_sp (drop 2 argv)))"
  using assms by (simp_all add: main_def COMMANDS_def call1_def)

lemma main_cmd_opt:
  assumes "2 \<le> length argv"
  shows "argv ! 1 = ''screenshot'' \<Longrightarrow> main argv =
           cmd_screenshot (if length argv > 2 then argv ! 2 else ''screenshot.png'')"
    and "argv ! 1 = ''wait'' \<Longrightarrow> main argv =
           cmd_wait (if length argv > 2 then Some (argv ! 2) else None)"
  using assms by (simp_all add: main_def COMMANDS_def)

lemma main_other:
  assumes "2 \<le> length argv" and "argv ! 1 \<notin> fst ` set COMMANDS"
  shows "main argv =
     (if argv ! 1 \<in> {''-h'', ''--help'', ''help''} then print_out module_doc
      else thenM (print_out (''Unknown command: '' @ argv ! 1))
             (thenM (print_out module_doc) (sys_exit 1)))"
proof -
  from assms(2) have "map_of COMMANDS (argv ! 1) = None"
    by (simp add: map_of_eq_None_iff)
  with assms(1) show ?thesis by (simp add: main_def)
qed

lemma COMMANDS_names:
  "fst ` set COMMANDS = {''start'', ''setup'', ''stop'', ''status'', ''open'', ''js'',
     ''screenshot'', ''click'', ''wait'', ''push'', ''import''}"
  by (auto simp add: COMMANDS_def)

lemma save_state_content:
  assumes "save_state pid w = Some (Inr (), w')"
  shows "files w' STATE_FILE
           = Some (json_dumps (lib w) (JObj [(''pid'', JInt pid), (''port'', JInt (DEBUG_PORT w))]))"
  using assms
  by (auto simp add: save_state_def thenM_def bindM_def getsM_def mkdir_p_def write_file_def
      split: if_splits)

lemma extension_world_oracles:
  "http_resp extension_world = http_resp running_world"
  "ws_connect extension_world = (\<lambda>k u. None)"
  "ws_send_res extension_world = (\<lambda>k. None)"
  "DEBUG_PORT extension_world = 9333"
  "lib extension_world = example_lib"
  "http_reqs extension_world = []" "ws_n extension_world = 0" "ws_log extension_world = []"
  "stdout extension_world = []"
  by (simp_all add: ext_sel)

lemma discover_on_extension_world:
  assumes "http_resp w = http_resp extension_world" and "ws_connect w = ws_connect extension_world"
    and "ws_send_res w = ws_send_res extension_world"
    and "ws_incoming w = ws_incoming extension_world"
    and "files w = Map.empty" and "locked w = {}" and "dirs w = {}" and "DEBUG_PORT w = 9333"
  shows "discover_ext_id w =
     Some (Inr (Some ''ecabifbgmdmgdllomnfinbmaellmclnh''),
           w\<lparr>http_reqs := http_reqs w @ [(9333, ''/json/version'')],
             ws_n := Suc (ws_n w),
             ws_log := ws_log w @
               [WsOpen (ws_n w) ''ws://localhost:9333/devtools/browser/b1'',
                WsSend (ws_n w) (JObj [(''id'', JInt 1), (''method'', JStr ''Target.getTargets'')]),
                WsClose (ws_n w)],
             dirs := {STATE_DIR},
             files := [EXT_ID_FILE \<mapsto> ''ecabifbgmdmgdllomnfinbmaellmclnh'']\<rparr>)"
proof -
  let ?w1 = "w\<lparr>http_reqs := http_reqs w @ [(9333, ''/json/version'')]\<rparr>"
  let ?resp = "JObj [(''id'', JInt 1),
                    (''result'', JObj [(''targetInfos'',
                       JArr [JObj [(''type'', JStr ''service_worker''),
                                   (''url'', JStr ''chrome-extension://ecabifbgmdmgdllomnfinbmaellmclnh/worker.js'')]])])]"
  have b: "get_browser_ws w = Some (Inr (JStr ''ws://localhost:9333/devtools/browser/b1''), ?w1)"
    by (simp add: get_browser_ws_run assms(1,8) ext_sel py_getitem_def)
  have r: "recv_loop (ws_incoming ?w1 (ws_n ?w1)) 0 = Some (Inr ?resp)"
    by (rule recv_loop_hit)
       (simp_all add: assms(4) ext_sel has_id_1_def py_get_def py_eq_int_def)
  have s: "cdp_send (JStr ''ws://localhost:9333/devtools/browser/b1'') ''Target.getTargets'' JNull ?w1 =
      Some (Inr ?resp,
            ?w1\<lparr>ws_n := Suc (ws_n w),
                 ws_log := ws_log w @
                   [WsOpen (ws_n w) ''ws://localhost:9333/devtools/browser/b1'',
                    WsSend (ws_n w) (JObj [(''id'', JInt 1), (''method'', JStr ''Target.getTargets'')]),
                    WsClose (ws_n w)]\<rparr>)"
    using r by (simp add: cdp_send_run Let_def assms(2,3) extension_world_oracles cdp_msg_def)
  show ?thesis
    by (simp add: discover_ext_id_def discover_from_targets_def bindM_def thenM_def try_except_def
        b s py_get_def py_iter_def liftE_def returnM_def raiseM_def startswith_def list_index_def
        BUILTIN_EXT_IDS_def mkdir_p_def write_file_def assms(5,6,7) paths_distinct)
qed

lemma start_on_extension_world:
  "main [''browser.py'', ''start''] extension_world = Some (Inr (), started_world)"
proof -
  have m: "main [''browser.py'', ''start''] = cmd_start"
    by (simp add: main_cmd0)
  have "cmd_start extension_world = Some (Inr (), started_world)"
    by (simp add: cmd_start_def get_or_discover_ext_id_def bindM_def thenM_def getsM_def
        print_fmt_def print_out_def to_str_def extension_world_browser get_ext_id_run
        extension_world_fs discover_on_extension_world extension_world_oracles example_lib_def
        ext_truthy_def ext_str_def returnM_def started_world_def)
  with m show ?thesis by simp
qed

lemma save_state_idle:
  "save_state 4242 idle_world =
     Some (Inr (), idle_world\<lparr>dirs := {STATE_DIR}, files := [STATE_FILE \<mapsto> ''{}'']\<rparr>)"
  by (simp add: save_state_def thenM_def bindM_def getsM_def mkdir_p_def write_file_def
      idle_world_def example_lib_def paths_distinct)

subsection \<open>Failure paths\<close>

lemma thenM_Inl: "m w = Some (Inl a, w') \<Longrightarrow> thenM m n w = Some (Inl a, w')"
  by (simp add: thenM_def bindM_def)

lemma thenM_Inr: "m w = Some (Inr x, w') \<Longrightarrow> thenM m n w = n w'"
  by (simp add: thenM_def bindM_def)

lemma after_require_running:
  "require_running w = Some (Inr (), w1) \<Longrightarrow> thenM require_running n w = n w1"
  by (rule thenM_Inr)

lemma after_require_page:
  "require_page w = Some (Inr p, w1) \<Longrightarrow> bindM require_page f w = f p w1"
  by (rule bindM_Inr)

lemma after_cdp_send:
  "cdp_send u m p w = Some (Inr r, w1) \<Longrightarrow> bindM (cdp_send u m p) f w = f r w1"
  by (rule bindM_Inr)

lemma after_get_or_discover_ext_id:
  "get_or_discover_ext_id w = Some (Inr x, w1) \<Longrightarrow> bindM get_or_discover_ext_id f w = f x w1"
  by (rule bindM_Inr)

lemma after_require_files:
  "require_files fs w = Some (Inr (), w1) \<Longrightarrow> thenM (require_files fs) n w = n w1"
  by (rule thenM_Inr)

lemma require_files_exit:
  "require_files fs w = Some (Inl a, w1) \<Longrightarrow> thenM (require_files fs) n w = Some (Inl a, w1)"
  by (rule thenM_Inl)

lemma require_page_exit:
  "require_page w = Some (Inl a, w1) \<Longrightarrow> bindM require_page f w = Some (Inl a, w1)"
  by (rule bindM_Inl)

lemma not_running_exits:
  assumes "get_browser_ws w = Some (Inr b, w1)" and "\<not> truthy b"
  defines "out \<equiv> Some (Inl (SysExit 1),
      w1\<lparr>stdout := stdout w1 @ [''Chrome is not running. Use: python browser.py start'']\<rparr>)"
  shows "cmd_setup w = out" "cmd_open url w = out" "cmd_js expression w = out"
    "cmd_screenshot filename w = out" "cmd_click selector w = out" "cmd_wait seconds w = out"
    "cmd_push w = out" "cmd_import w = out"
proof -
  have r: "require_running w = out"
    using assms(1,2) by (simp add: require_running_run out_def)
  show "cmd_setup w = out" "cmd_open url w = out" "cmd_js expression w = out"
    "cmd_screenshot filename w = out" "cmd_click selector w = out" "cmd_wait seconds w = out"
    "cmd_push w = out" "cmd_import w = out"
    unfolding cmd_setup_def cmd_open_def cmd_js_def cmd_screenshot_def cmd_click_def cmd_wait_def
      cmd_push_def cmd_import_def
    using r unfolding out_def by (rule thenM_Inl)+
qed

lemma no_page_exits:
  assumes "require_running w = Some (Inr (), w1)" and "get_page_ws w1 = Some (Inr p, w2)"
    and "\<not> truthy p"
  defines "out \<equiv> Some (Inl (SysExit 1), w2\<lparr>stdout := stdout w2 @ [''No active page found.'']\<rparr>)"
  shows "cmd_setup w = out" "cmd_open url w = out" "cmd_js expression w = out"
    "cmd_screenshot filename w = out" "cmd_click selector w = out"
proof -
  have r: "require_page w1
             = Some (Inl (SysExit 1), w2\<lparr>stdout := stdout w2 @ [''No active page found.'']\<rparr>)"
    using assms(2,3) by (simp add: require_page_run)
  show "cmd_setup w = out" "cmd_open url w = out" "cmd_js expression w = out"
    "cmd_screenshot filename w = out" "cmd_click selector w = out"
    unfolding cmd_setup_def cmd_open_def cmd_js_def cmd_screenshot_def cmd_click_def
    unfolding out_def
    by (simp_all add: after_require_running[OF assms(1)] require_page_exit[OF r] Let_def)
qed

lemma require_files_missing:
  assumes "\<exists>f\<in>set fs. f \<notin> dom (files w) \<and> f \<notin> dirs w"
  shows "\<exists>f\<in>set fs. require_files fs w
           = Some (Inl (SysExit 1), w\<lparr>stdout := stdout w @ [''Missing: '' @ f]\<rparr>)"
  using assms
proof (induction fs)
  case Nil
  then show ?case by simp
next
  case (Cons f fs)
  show ?case
  proof (cases "f \<in> dom (files w) \<or> f \<in> dirs w")
    case False
    then have "require_files (f # fs) w
           = Some (Inl (SysExit 1), w\<lparr>stdout := stdout w @ [''Missing: '' @ f]\<rparr>)"
      by (simp add: bindM_def path_exists_def thenM_def print_out_def sys_exit_def)
    then show ?thesis by simp
  next
    case True
    then have e: "require_files (f # fs) w = require_files fs w"
      by (auto simp add: bindM_def path_exists_def)
    from True Cons.prems have "\<exists>f\<in>set fs. f \<notin> dom (files w) \<and> f \<notin> dirs w"
      by auto
    from Cons.IH[OF this] e show ?thesis by auto
  qed
qed

lemma require_files_present:
  assumes "\<forall>f\<in>set fs. f \<in> dom (files w)"
  shows "require_files fs w = Some (Inr (), w)"
  using assms by (induction fs) (auto simp add: returnM_def bindM_def path_exists_def)

lemma push_missing_exits:
  assumes "require_running w = Some (Inr (), w1)"
    and "get_or_discover_ext_id w1 = Some (Inr ext, w2)" and "ext_truthy ext"
    and "\<exists>f\<in>set [SETTINGS_DIR @ ''/reader-view.css'', SETTINGS_DIR @ ''/frame-sidebar.css'',
                   SETTINGS_DIR @ ''/user-action.json'']. f \<notin> dom (files w2) \<and> f \<notin> dirs w2"
  shows "\<exists>f\<in>set [SETTINGS_DIR @ ''/reader-view.css'', SETTINGS_DIR @ ''/frame-sidebar.css'',
                   SETTINGS_DIR @ ''/user-action.json''].
           cmd_push w = Some (Inl (SysExit 1), w2\<lparr>stdout := stdout w2 @ [''Missing: '' @ f]\<rparr>)"
proof -
  from require_files_missing[OF assms(4)] obtain f where
      f: "f \<in> set [SETTINGS_DIR @ ''/reader-view.css'', SETTINGS_DIR @ ''/frame-sidebar.css'',
                   SETTINGS_DIR @ ''/user-action.json'']"
      and r: "require_files [SETTINGS_DIR @ ''/reader-view.css'', SETTINGS_DIR @ ''/frame-sidebar.css'',
                   SETTINGS_DIR @ ''/user-action.json''] w2
              = Some (Inl (SysExit 1), w2\<lparr>stdout := stdout w2 @ [''Missing: '' @ f]\<rparr>)"
    by blast
  have "cmd_push w = Some (Inl (SysExit 1), w2\<lparr>stdout := stdout w2 @ [''Missing: '' @ f]\<rparr>)"
    unfolding cmd_push_def
    using assms(3)
    by (simp add: after_require_running[OF assms(1)] after_get_or_discover_ext_id[OF assms(2)] Let_def require_files_exit[OF r]
        del: require_files.simps)
  with f show ?thesis by blast
qed

lemma import_missing_exits:
  assumes "require_running w = Some (Inr (), w1)"
    and "get_or_discover_ext_id w1 = Some (Inr ext, w2)" and "ext_truthy ext"
    and "SETTINGS_DIR @ ''/reader-view-preferences.json'' \<notin> dom (files w2)"
    and "SETTINGS_DIR @ ''/reader-view-preferences.json'' \<notin> dirs w2"
  shows "cmd_import w = Some (Inl (SysExit 1),
           w2\<lparr>stdout := stdout w2 @ [''Missing: '' @ SETTINGS_DIR @ ''/reader-view-preferences.json'']\<rparr>)"
  unfolding cmd_import_def
  using assms
  by (simp add: Let_def bindM_def path_exists_def thenM_def print_out_def sys_exit_def)

lemma push_invalid_json_exits:
  assumes "require_running w = Some (Inr (), w1)"
    and "get_or_discover_ext_id w1 = Some (Inr ext, w2)" and "ext_truthy ext"
    and "files w2 (SETTINGS_DIR @ ''/reader-view.css'') = Some css"
    and "files w2 (SETTINGS_DIR @ ''/frame-sidebar.css'') = Some sidebar"
    and "files w2 (SETTINGS_DIR @ ''/user-action.json'') = Some actions"
    and "json_loads (lib w2) actions = Inl msg"
  shows "cmd_push w = Some (Inl (SysExit 1),
           w2\<lparr>stdout := stdout w2 @ [''Invalid JSON in user-action.json: '' @ msg]\<rparr>)"
proof -
  have r: "require_files [SETTINGS_DIR @ ''/reader-view.css'', SETTINGS_DIR @ ''/frame-sidebar.css'',
                   SETTINGS_DIR @ ''/user-action.json''] w2 = Some (Inr (), w2)"
    by (rule require_files_present) (use assms(4,5,6) in auto)
  show ?thesis
    unfolding cmd_push_def
    using assms r
    by (simp add: Let_def bindM_def read_text_def getsM_def thenM_def print_out_def sys_exit_def
        del: require_files.simps)
qed

lemma py_get_JObj:
  "py_get (JObj kvs) k d = Inr (case map_of kvs k of None \<Rightarrow> d | Some v \<Rightarrow> v)"
  by (simp add: py_get_def)

lemma js_exception_exits:
  assumes "require_running w = Some (Inr (), w1)" and "require_page w1 = Some (Inr page_ws, w2)"
    and "cdp_send page_ws ''Runtime.evaluate''
           (JObj [(''expression'', JStr expression), (''returnByValue'', JBool True),
                  (''awaitPromise'', JBool True)]) w2 = Some (Inr resp, w3)"
    and "py_get resp ''result'' (JObj []) = Inr (JObj rkvs)"
    and "map_of rkvs ''exceptionDetails'' = Some exc" and "truthy exc"
    and "py_get exc ''exception'' (JObj []) = Inr ex"
    and "py_get ex ''description'' (JStr ''Unknown error'') = Inr desc"
  shows "cmd_js expression w = Some (Inl (SysExit 1),
           w3\<lparr>stderr := stderr w3 @ [''JS Error: '' @ to_str (lib w3) desc]\<rparr>)"
  unfolding cmd_js_def
  using assms
  by (simp add: Let_def bindM_def thenM_def liftE_def returnM_def py_get_JObj sys_exit_def
      print_err_fmt_def print_err_def)

lemma screenshot_failed_exits:
  assumes "require_running w = Some (Inr (), w1)" and "require_page w1 = Some (Inr page_ws, w2)"
    and "cdp_send page_ws ''Page.captureScreenshot'' (JObj [(''format'', JStr ''png'')]) w2
           = Some (Inr resp, w3)"
    and "py_get resp ''result'' (JObj []) = Inr res"
    and "py_get res ''data'' (JStr []) = Inr data" and "\<not> truthy data"
  shows "cmd_screenshot filename w = Some (Inl (SysExit 1),
           w3\<lparr>stdout := stdout w3 @ [''Failed to capture screenshot.'']\<rparr>)"
  unfolding cmd_screenshot_def
  using assms
  by (simp add: Let_def bindM_def thenM_def liftE_def returnM_def py_get_JObj sys_exit_def
      print_out_def)

lemma click_not_found_exits:
  assumes "require_running w = Some (Inr (), w1)" and "require_page w1 = Some (Inr page_ws, w2)"
    and "cdp_send page_ws ''Runtime.evaluate''
           (JObj [(''expression'', JStr (click_js (escape_quotes selector))),
                  (''returnByValue'', JBool True)]) w2 = Some (Inr resp, w3)"
    and "py_get resp ''result'' (JObj []) = Inr r1"
    and "py_get r1 ''result'' (JObj []) = Inr r2"
    and "py_get r2 ''value'' (JStr []) = Inr val" and "val \<noteq> JStr ''clicked''"
  shows "cmd_click selector w = Some (Inl (SysExit 1),
           w3\<lparr>stdout := stdout w3 @ [to_str (lib w3) val]\<rparr>)"
  unfolding cmd_click_def
  using assms
  by (simp add: Let_def bindM_def thenM_def liftE_def returnM_def py_get_JObj sys_exit_def
      print_fmt_def print_out_def py_eq_str_def)

lemma open_navigation_error_returns:
  assumes "require_running w = Some (Inr (), w1)" and "require_page w1 = Some (Inr page_ws, w2)"
    and "cdp_send page_ws ''Page.navigate'' (JObj [(''url'', JStr (normalise_url url))]) w2
           = Some (Inr resp, w3)"
    and "py_get resp ''result'' (JObj []) = Inr res"
    and "py_get res ''errorText'' JNull = Inr err" and "truthy err"
  shows "cmd_open url w = Some (Inr (),
           w3\<lparr>stdout := stdout w3 @ [''Navigation error: '' @ to_str (lib w3) err]\<rparr>)"
  unfolding cmd_open_def
  using assms
  by (simp add: Let_def bindM_def thenM_def liftE_def returnM_def py_get_JObj sys_exit_def
      print_fmt_def print_out_def)

text \<open>
  C4, as amended. Each listed failure path prints a message and ends the process with
  \<open>sys.exit(1)\<close>: Chrome not running (every command that requires it), no active page,
  a missing settings file (\<open>push\<close>, \<open>import\<close>), invalid JSON in \<open>user-action.json\<close>
  (\<open>push\<close>), a JavaScript exception (\<open>js\<close>), a screenshot without data, and a click
  whose script does not answer \<open>clicked\<close>. Not every failure is handled so: a
  navigation error reported to \<open>cmd_open\<close> is printed and the command returns normally.
\<close>

theorem listed_failures_exit_1:
  "(get_browser_ws w = Some (Inr b, w1) \<and> \<not> truthy b \<longrightarrow>
      (\<forall>c \<in> {cmd_setup, cmd_open url, cmd_js expression, cmd_screenshot filename,
               cmd_click selector, cmd_wait seconds, cmd_push, cmd_import}.
         c w = Some (Inl (SysExit 1),
                 w1\<lparr>stdout := stdout w1 @ [''Chrome is not running. Use: python browser.py start'']\<rparr>)))
   \<and> (require_running w = Some (Inr (), w1) \<and> get_page_ws w1 = Some (Inr pg, w2) \<and> \<not> truthy pg \<longrightarrow>
      (\<forall>c \<in> {cmd_setup, cmd_open url, cmd_js expression, cmd_screenshot filename,
               cmd_click selector}.
         c w = Some (Inl (SysExit 1), w2\<lparr>stdout := stdout w2 @ [''No active page found.'']\<rparr>)))
   \<and> (require_running w = Some (Inr (), w1) \<and> get_or_discover_ext_id w1 = Some (Inr ext, w2)
        \<and> ext_truthy ext
        \<and> (\<exists>f\<in>set [SETTINGS_DIR @ ''/reader-view.css'', SETTINGS_DIR @ ''/frame-sidebar.css'',
                      SETTINGS_DIR @ ''/user-action.json'']. f \<notin> dom (files w2) \<and> f \<notin> dirs w2) \<longrightarrow>
      (\<exists>f\<in>set [SETTINGS_DIR @ ''/reader-view.css'', SETTINGS_DIR @ ''/frame-sidebar.css'',
                  SETTINGS_DIR @ ''/user-action.json''].
         cmd_push w = Some (Inl (SysExit 1), w2\<lparr>stdout := stdout w2 @ [''Missing: '' @ f]\<rparr>)))
   \<and> (require_running w = Some (Inr (), w1) \<and> get_or_discover_ext_id w1 = Some (Inr ext, w2)
        \<and> ext_truthy ext
        \<and> SETTINGS_DIR @ ''/reader-view-preferences.json'' \<notin> dom (files w2)
        \<and> SETTINGS_DIR @ ''/reader-view-preferences.json'' \<notin> dirs w2 \<longrightarrow>
      cmd_import w = Some (Inl (SysExit 1),
        w2\<lparr>stdout := stdout w2 @ [''Missing: '' @ SETTINGS_DIR @ ''/reader-view-preferences.json'']\<rparr>))
   \<and> (require_running w = Some (Inr (), w1) \<and> get_or_discover_ext_id w1 = Some (Inr ext, w2)
        \<and> ext_truthy ext
        \<and> files w2 (SETTINGS_DIR @ ''/reader-view.css'') = Some css
        \<and> files w2 (SETTINGS_DIR @ ''/frame-sidebar.css'') = Some sidebar
        \<and> files w2 (SETTINGS_DIR @ ''/user-action.json'') = Some actions
        \<and> json_loads (lib w2) actions = Inl msg \<longrightarrow>
      cmd_push w = Some (Inl (SysExit 1),
        w2\<lparr>stdout := stdout w2 @ [''Invalid JSON in user-action.json: '' @ msg]\<rparr>))
   \<and> (require_running w = Some (Inr (), w1) \<and> require_page w1 = Some (Inr page_ws, w2)
        \<and> cdp_send page_ws ''Runtime.evaluate''
             (JObj [(''expression'', JStr expression), (''returnByValue'', JBool True),
                    (''awaitPromise'', JBool True)]) w2 = Some (Inr resp, w3)
        \<and> py_get resp ''result'' (JObj []) = Inr (JObj rkvs)
        \<and> map_of rkvs ''exceptionDetails'' = Some exc \<and> truthy exc
        \<and> py_get exc ''exception'' (JObj []) = Inr ex
        \<and> py_get ex ''description'' (JStr ''Unknown error'') = Inr desc \<longrightarrow>
      cmd_js expression w = Some (Inl (SysExit 1),
        w3\<lparr>stderr := stderr w3 @ [''JS Error: '' @ to_str (lib w3) desc]\<rparr>))
   \<and> (require_running w = Some (Inr (), w1) \<and> require_page w1 = Some (Inr page_ws, w2)
        \<and> cdp_send page_ws ''Page.captureScreenshot'' (JObj [(''format'', JStr ''png'')]) w2
             = Some (Inr resp, w3)
        \<and> py_get resp ''result'' (JObj []) = Inr res
        \<and> py_get res ''data'' (JStr []) = Inr data \<and> \<not> truthy data \<longrightarrow>
      cmd_screenshot filename w = Some (Inl (SysExit 1),
        w3\<lparr>stdout := stdout w3 @ [''Failed to capture screenshot.'']\<rparr>))
   \<and> (require_running w = Some (Inr (), w1) \<and> require_page w1 = Some (Inr page_ws, w2)
        \<and> cdp_send page_ws ''Runtime.evaluate''
             (JObj [(''expression'', JStr (click_js (escape_quotes selector))),
                    (''returnByValue'', JBool True)]) w2 = Some (Inr resp, w3)
        \<and> py_get resp ''result'' (JObj []) = Inr r1
        \<and> py_get r1 ''result'' (JObj []) = Inr r2
        \<and> py_get r2 ''value'' (JStr []) = Inr val \<and> val \<noteq> JStr ''clicked'' \<longrightarrow>
      cmd_click selector w = Some (Inl (SysExit 1),
        w3\<lparr>stdout := stdout w3 @ [to_str (lib w3) val]\<rparr>))
   \<and> (require_running w = Some (Inr (), w1) \<and> require_page w1 = Some (Inr page_ws, w2)
        \<and> cdp_send page_ws ''Page.navigate'' (JObj [(''url'', JStr (normalise_url url))]) w2
             = Some (Inr resp, w3)
        \<and> py_get resp ''result'' (JObj []) = Inr res
        \<and> py_get res ''errorText'' JNull = Inr err \<and> truthy err \<longrightarrow>
      cmd_open url w = Some (Inr (),
        w3\<lparr>stdout := stdout w3 @ [''Navigation error: '' @ to_str (lib w3) err]\<rparr>))"
proof (intro conjI impI)
  assume "get_browser_ws w = Some (Inr b, w1) \<and> \<not> truthy b"
  then show "\<forall>c \<in> {cmd_setup, cmd_open url, cmd_js expression, cmd_screenshot filename,
               cmd_click selector, cmd_wait seconds, cmd_push, cmd_import}.
         c w = Some (Inl (SysExit 1),
                 w1\<lparr>stdout := stdout w1 @ [''Chrome is not running. Use: python browser.py start'']\<rparr>)"
    using not_running_exits[of w b w1] by simp
next
  assume "require_running w = Some (Inr (), w1) \<and> get_page_ws w1 = Some (Inr pg, w2) \<and> \<not> truthy pg"
  then show "\<forall>c \<in> {cmd_setup, cmd_open url, cmd_js expression, cmd_screenshot filename,
               cmd_click selector}.
         c w = Some (Inl (SysExit 1), w2\<lparr>stdout := stdout w2 @ [''No active page found.'']\<rparr>)"
    using no_page_exits[of w w1 pg w2] by simp
next
  assume "require_running w = Some (Inr (), w1) \<and> get_or_discover_ext_id w1 = Some (Inr ext, w2)
        \<and> ext_truthy ext
        \<and> (\<exists>f\<in>set [SETTINGS_DIR @ ''/reader-view.css'', SETTINGS_DIR @ ''/frame-sidebar.css'',
                      SETTINGS_DIR @ ''/user-action.json'']. f \<notin> dom (files w2) \<and> f \<notin> dirs w2)"
  then show "\<exists>f\<in>set [SETTINGS_DIR @ ''/reader-view.css'', SETTINGS_DIR @ ''/frame-sidebar.css'',
                  SETTINGS_DIR @ ''/user-action.json''].
         cmd_push w = Some (Inl (SysExit 1), w2\<lparr>stdout := stdout w2 @ [''Missing: '' @ f]\<rparr>)"
    using push_missing_exits[of w w1 ext w2] by blast
next
  assume "require_running w = Some (Inr (), w1) \<and> get_or_discover_ext_id w1 = Some (Inr ext, w2)
        \<and> ext_truthy ext
        \<and> SETTINGS_DIR @ ''/reader-view-preferences.json'' \<notin> dom (files w2)
        \<and> SETTINGS_DIR @ ''/reader-view-preferences.json'' \<notin> dirs w2"
  then show "cmd_import w = Some (Inl (SysExit 1),
        w2\<lparr>stdout := stdout w2 @ [''Missing: '' @ SETTINGS_DIR @ ''/reader-view-preferences.json'']\<rparr>)"
    using import_missing_exits[of w w1 ext w2] by blast
next
  assume "require_running w = Some (Inr (), w1) \<and> get_or_discover_ext_id w1 = Some (Inr ext, w2)
        \<and> ext_truthy ext
        \<and> files w2 (SETTINGS_DIR @ ''/reader-view.css'') = Some css
        \<and> files w2 (SETTINGS_DIR @ ''/frame-sidebar.css'') = Some sidebar
        \<and> files w2 (SETTINGS_DIR @ ''/user-action.json'') = Some actions
        \<and> json_loads (lib w2) actions = Inl msg"
  then show "cmd_push w = Some (Inl (SysExit 1),
        w2\<lparr>stdout := stdout w2 @ [''Invalid JSON in user-action.json: '' @ msg]\<rparr>)"
    using push_invalid_json_exits[of w w1 ext w2 css sidebar actions msg] by blast
next
  assume "require_running w = Some (Inr (), w1) \<and> require_page w1 = Some (Inr page_ws, w2)
        \<and> cdp_send page_ws ''Runtime.evaluate''
             (JObj [(''expression'', JStr expression), (''returnByValue'', JBool True),
                    (''awaitPromise'', JBool True)]) w2 = Some (Inr resp, w3)
        \<and> py_get resp ''result'' (JObj []) = Inr (JObj rkvs)
        \<and> map_of rkvs ''exceptionDetails'' = Some exc \<and> truthy exc
        \<and> py_get exc ''exception'' (JObj []) = Inr ex
        \<and> py_get ex ''description'' (JStr ''Unknown error'') = Inr desc"
  then show "cmd_js expression w = Some (Inl (SysExit 1),
        w3\<lparr>stderr := stderr w3 @ [''JS Error: '' @ to_str (lib w3) desc]\<rparr>)"
    using js_exception_exits[of w w1 page_ws w2 expression resp w3 rkvs exc ex desc] by blast
next
  assume "require_running w = Some (Inr (), w1) \<and> require_page w1 = Some (Inr page_ws, w2)
        \<and> cdp_send page_ws ''Page.captureScreenshot'' (JObj [(''format'', JStr ''png'')]) w2
             = Some (Inr resp, w3)
        \<and> py_get resp ''result'' (JObj []) = Inr res
        \<and> py_get res ''data'' (JStr []) = Inr data \<and> \<not> truthy data"
  then show "cmd_screenshot filename w = Some (Inl (SysExit 1),
        w3\<lparr>stdout := stdout w3 @ [''Failed to capture screenshot.'']\<rparr>)"
    using screenshot_failed_exits[of w w1 page_ws w2 resp w3 res data filename] by blast
next
  assume "require_running w = Some (Inr (), w1) \<and> require_page w1 = Some (Inr page_ws, w2)
        \<and> cdp_send page_ws ''Runtime.evaluate''
             (JObj [(''expression'', JStr (click_js (escape_quotes selector))),
                    (''returnByValue'', JBool True)]) w2 = Some (Inr resp, w3)
        \<and> py_get resp ''result'' (JObj []) = Inr r1
        \<and> py_get r1 ''result'' (JObj []) = Inr r2
        \<and> py_get r2 ''value'' (JStr []) = Inr val \<and> val \<noteq> JStr ''clicked''"
  then show "cmd_click selector w = Some (Inl (SysExit 1),
        w3\<lparr>stdout := stdout w3 @ [to_str (lib w3) val]\<rparr>)"
    using click_not_found_exits[of w w1 page_ws w2 selector resp w3 r1 r2 val] by blast
next
  assume "require_running w = Some (Inr (), w1) \<and> require_page w1 = Some (Inr page_ws, w2)
        \<and> cdp_send page_ws ''Page.navigate'' (JObj [(''url'', JStr (normalise_url url))]) w2
             = Some (Inr resp, w3)
        \<and> py_get resp ''result'' (JObj []) = Inr res
        \<and> py_get res ''errorText'' JNull = Inr err \<and> truthy err"
  then show "cmd_open url w = Some (Inr (),
        w3\<lparr>stdout := stdout w3 @ [''Navigation error: '' @ to_str (lib w3) err]\<rparr>)"
    using open_navigation_error_returns[of w w1 page_ws w2 url resp w3 res err] by blast
qed

lemma running_world_sel:
  "http_reqs running_world = []" "DEBUG_PORT running_world = 9333"
  "ws_connect running_world = (\<lambda>k u. None)" "ws_send_res running_world = (\<lambda>k. None)"
  "ws_n running_world = 0" "ws_log running_world = []" "stdout running_world = []"
  "stderr running_world = []" "lib running_world = example_lib" "files running_world = Map.empty"
  "dirs running_world = {}" "locked running_world = {}"
  by (simp_all add: world_sel)

lemma reply_world_up:
  "require_running (reply_world r)
     = Some (Inr (), (reply_world r)\<lparr>http_reqs := [(9333, ''/json/version'')]\<rparr>)"
  using running_world_up[of "reply_world r" "[]"]
  by (simp add: reply_world_def running_world_sel)

lemma reply_world_page:
  "require_page ((reply_world r)\<lparr>http_reqs := [(9333, ''/json/version'')]\<rparr>)
     = Some (Inr (JStr ''ws://localhost:9333/devtools/page/p1''),
             (reply_world r)\<lparr>http_reqs := [(9333, ''/json/version''), (9333, ''/json'')]\<rparr>)"
  using running_world_page[of "(reply_world r)\<lparr>http_reqs := [(9333, ''/json/version'')]\<rparr>"
          "[(9333, ''/json/version'')]"]
  by (simp add: reply_world_def running_world_sel)

lemma reply_world_send:
  assumes "has_id_1 r"
  shows "cdp_send (JStr ''ws://localhost:9333/devtools/page/p1'') m p
           ((reply_world r)\<lparr>http_reqs := [(9333, ''/json/version''), (9333, ''/json'')]\<rparr>)
         = Some (Inr r, reply_world_sent r m p)"
  using cdp_send_answer[of "(reply_world r)\<lparr>http_reqs := [(9333, ''/json/version''), (9333, ''/json'')]\<rparr>"
          "''ws://localhost:9333/devtools/page/p1''" 0 r m p] assms
  by (simp add: reply_world_def reply_world_sent_def running_world_sel)

lemma replies_have_id_1:
  "has_id_1 js_exception_reply" "has_id_1 no_data_reply" "has_id_1 not_found_reply"
  "has_id_1 navigation_error_reply"
  by (simp_all add: has_id_1_def py_get_def py_eq_int_def js_exception_reply_def no_data_reply_def
      not_found_reply_def navigation_error_reply_def)

lemma reply_world_sent_sel:
  "lib (reply_world_sent r m p) = example_lib"
  "stdout (reply_world_sent r m p) = []" "stderr (reply_world_sent r m p) = []"
  by (simp_all add: reply_world_sent_def reply_world_def running_world_sel)

lemma open_on_navigation_error:
  "cmd_open ''nosuch.invalid'' (reply_world navigation_error_reply) =
     Some (Inr (),
       (reply_world_sent navigation_error_reply ''Page.navigate''
          (JObj [(''url'', JStr ''https://nosuch.invalid'')]))
         \<lparr>stdout := [''Navigation error: net::ERR_NAME_NOT_RESOLVED'']\<rparr>)"
proof -
  have n: "normalise_url ''nosuch.invalid'' = ''https://nosuch.invalid''"
    by (simp add: normalise_url_def startswith_def)
  have "cmd_open ''nosuch.invalid'' (reply_world navigation_error_reply) =
     Some (Inr (),
       (reply_world_sent navigation_error_reply ''Page.navigate''
          (JObj [(''url'', JStr (normalise_url ''nosuch.invalid''))]))
         \<lparr>stdout := stdout (reply_world_sent navigation_error_reply ''Page.navigate''
                       (JObj [(''url'', JStr (normalise_url ''nosuch.invalid''))]))
                     @ [''Navigation error: '' @ to_str (lib (reply_world_sent navigation_error_reply
                          ''Page.navigate'' (JObj [(''url'', JStr (normalise_url ''nosuch.invalid''))])))
                          (JStr ''net::ERR_NAME_NOT_RESOLVED'')]\<rparr>)"
    by (rule open_navigation_error_returns[OF reply_world_up reply_world_page
          reply_world_send[OF replies_have_id_1(4)],
          where res = "JObj [(''errorText'', JStr ''net::ERR_NAME_NOT_RESOLVED'')]"
            and err = "JStr ''net::ERR_NAME_NOT_RESOLVED''"])
       (simp_all add: navigation_error_reply_def py_get_def)
  then show ?thesis
    by (simp add: n reply_world_sent_sel to_str_def)
qed

theorem every_failure_exits_counterexample:
  "main [''browser.py'', ''open'', ''nosuch.invalid''] (reply_world navigation_error_reply) =
     Some (Inr (),
       (reply_world_sent navigation_error_reply ''Page.navigate''
          (JObj [(''url'', JStr ''https://nosuch.invalid'')]))
         \<lparr>stdout := [''Navigation error: net::ERR_NAME_NOT_RESOLVED'']\<rparr>)"
proof -
  have "main [''browser.py'', ''open'', ''nosuch.invalid''] = cmd_open ''nosuch.invalid''"
    by (simp add: main_cmd1)
  then show ?thesis by (simp add: open_on_navigation_error)
qed

lemma idle_world_down:
  "get_browser_ws idle_world
     = Some (Inr JNull, idle_world\<lparr>http_reqs := [(9333, ''/json/version'')]\<rparr>)"
  by (simp add: get_browser_ws_run idle_world_def)

lemma no_page_world_up:
  "require_running no_page_world
     = Some (Inr (), no_page_world\<lparr>http_reqs := [(9333, ''/json/version'')]\<rparr>)"
  by (simp add: require_running_run[where b = "JStr ''ws://localhost:9333/devtools/browser/b1''"]
      get_browser_ws_run no_page_world_def idle_world_def py_getitem_def)

lemma no_page_world_page:
  "get_page_ws (no_page_world\<lparr>http_reqs := [(9333, ''/json/version'')]\<rparr>)
     = Some (Inr JNull,
             no_page_world\<lparr>http_reqs := [(9333, ''/json/version''), (9333, ''/json'')]\<rparr>)"
  using get_page_ws_unreachable[of "no_page_world\<lparr>http_reqs := [(9333, ''/json/version'')]\<rparr>"]
  by (simp add: no_page_world_def idle_world_def)

lemma cached_world_up:
  "require_running cached_world
     = Some (Inr (), cached_world\<lparr>http_reqs := [(9333, ''/json/version'')]\<rparr>)"
  using running_world_up[of cached_world "[]"]
  by (simp add: cached_world_def running_world_sel)

lemma cached_world_ext:
  "get_or_discover_ext_id (cached_world\<lparr>http_reqs := [(9333, ''/json/version'')]\<rparr>)
     = Some (Inr (Some ''ecabifbgmdmgdllomnfinbmaellmclnh''),
             cached_world\<lparr>http_reqs := [(9333, ''/json/version'')]\<rparr>)"
  by (simp add: get_or_discover_ext_id_def bindM_def get_ext_id_run cached_world_def strip_def
      is_space_def BUILTIN_EXT_IDS_def ext_truthy_def returnM_def)

lemma bad_json_world_up:
  "require_running bad_json_world
     = Some (Inr (), bad_json_world\<lparr>http_reqs := [(9333, ''/json/version'')]\<rparr>)"
  using running_world_up[of bad_json_world "[]"]
  by (simp add: bad_json_world_def running_world_sel)

lemma settings_paths_distinct:
  "SETTINGS_DIR @ ''/reader-view.css'' \<noteq> EXT_ID_FILE"
  "SETTINGS_DIR @ ''/frame-sidebar.css'' \<noteq> EXT_ID_FILE"
  "SETTINGS_DIR @ ''/user-action.json'' \<noteq> EXT_ID_FILE"
  "SETTINGS_DIR @ ''/reader-view-preferences.json'' \<noteq> EXT_ID_FILE"
  "SETTINGS_DIR @ ''/reader-view.css'' \<noteq> SETTINGS_DIR @ ''/frame-sidebar.css''"
  "SETTINGS_DIR @ ''/reader-view.css'' \<noteq> SETTINGS_DIR @ ''/user-action.json''"
  "SETTINGS_DIR @ ''/frame-sidebar.css'' \<noteq> SETTINGS_DIR @ ''/user-action.json''"
  by (simp_all add: SETTINGS_DIR_def EXT_ID_FILE_def)

lemma bad_json_world_files:
  "files bad_json_world EXT_ID_FILE = Some ''ecabifbgmdmgdllomnfinbmaellmclnh''"
  "files bad_json_world (SETTINGS_DIR @ ''/reader-view.css'') = Some ''body { margin: 0 }''"
  "files bad_json_world (SETTINGS_DIR @ ''/frame-sidebar.css'') = Some []"
  "files bad_json_world (SETTINGS_DIR @ ''/user-action.json'') = Some ''[{''"
  "lib bad_json_world = example_lib"
  using settings_paths_distinct
  by (simp_all add: bad_json_world_def running_world_sel)

lemma bad_json_world_ext:
  "get_or_discover_ext_id (bad_json_world\<lparr>http_reqs := [(9333, ''/json/version'')]\<rparr>)
     = Some (Inr (Some ''ecabifbgmdmgdllomnfinbmaellmclnh''),
             bad_json_world\<lparr>http_reqs := [(9333, ''/json/version'')]\<rparr>)"
  by (simp add: get_or_discover_ext_id_def bindM_def get_ext_id_run bad_json_world_files strip_def
      is_space_def BUILTIN_EXT_IDS_def ext_truthy_def returnM_def)

theorem listed_failures_exit_1_witness:
  "cmd_js ''1 + 1'' idle_world =
     Some (Inl (SysExit 1),
       idle_world\<lparr>http_reqs := [(9333, ''/json/version'')],
                   stdout := [''Chrome is not running. Use: python browser.py start'']\<rparr>)
   \<and> cmd_open ''example.com'' no_page_world =
     Some (Inl (SysExit 1),
       no_page_world\<lparr>http_reqs := [(9333, ''/json/version''), (9333, ''/json'')],
                      stdout := [''No active page found.'']\<rparr>)
   \<and> (\<exists>f\<in>set [SETTINGS_DIR @ ''/reader-view.css'', SETTINGS_DIR @ ''/frame-sidebar.css'',
                 SETTINGS_DIR @ ''/user-action.json''].
        cmd_push cached_world =
          Some (Inl (SysExit 1),
            cached_world\<lparr>http_reqs := [(9333, ''/json/version'')],
                          stdout := [''Missing: '' @ f]\<rparr>))
   \<and> cmd_import cached_world =
     Some (Inl (SysExit 1),
       cached_world\<lparr>http_reqs := [(9333, ''/json/version'')],
                     stdout := [''Missing: '' @ SETTINGS_DIR @ ''/reader-view-preferences.json'']\<rparr>)
   \<and> cmd_push bad_json_world =
     Some (Inl (SysExit 1),
       bad_json_world\<lparr>http_reqs := [(9333, ''/json/version'')],
                       stdout := [''Invalid JSON in user-action.json: Expecting value'']\<rparr>)
   \<and> cmd_js ''x'' (reply_world js_exception_reply) =
     Some (Inl (SysExit 1),
       (reply_world_sent js_exception_reply ''Runtime.evaluate''
          (JObj [(''expression'', JStr ''x''), (''returnByValue'', JBool True),
                 (''awaitPromise'', JBool True)]))
         \<lparr>stderr := [''JS Error: ReferenceError: x is not defined'']\<rparr>)
   \<and> cmd_screenshot ''shot.png'' (reply_world no_data_reply) =
     Some (Inl (SysExit 1),
       (reply_world_sent no_data_reply ''Page.captureScreenshot'' (JObj [(''format'', JStr ''png'')]))
         \<lparr>stdout := [''Failed to capture screenshot.'']\<rparr>)
   \<and> cmd_click ''#go'' (reply_world not_found_reply) =
     Some (Inl (SysExit 1),
       (reply_world_sent not_found_reply ''Runtime.evaluate''
          (JObj [(''expression'', JStr (click_js (escape_quotes ''#go''))),
                 (''returnByValue'', JBool True)]))
         \<lparr>stdout := [''Element not found: #go'']\<rparr>)
   \<and> cmd_open ''nosuch.invalid'' (reply_world navigation_error_reply) =
     Some (Inr (),
       (reply_world_sent navigation_error_reply ''Page.navigate''
          (JObj [(''url'', JStr (normalise_url ''nosuch.invalid''))]))
         \<lparr>stdout := [''Navigation error: net::ERR_NAME_NOT_RESOLVED'']\<rparr>)"
proof -
  let ?v = "(9333::int, ''/json/version'')"
  let ?p1 = "JStr ''ws://localhost:9333/devtools/page/p1''"
  have c1: "cmd_js ''1 + 1'' idle_world =
     Some (Inl (SysExit 1),
       idle_world\<lparr>http_reqs := [?v],
                   stdout := [''Chrome is not running. Use: python browser.py start'']\<rparr>)"
    using listed_failures_exit_1[where w = idle_world and b = JNull
            and ?w1.0 = "idle_world\<lparr>http_reqs := [?v]\<rparr>" and expression = "''1 + 1''"
            and url = "[]" and filename = "[]" and selector = "[]" and seconds = None,
            THEN conjunct1] idle_world_down
    by (simp add: idle_world_def)
  have c2: "cmd_open ''example.com'' no_page_world =
     Some (Inl (SysExit 1),
       no_page_world\<lparr>http_reqs := [?v, (9333, ''/json'')],
                      stdout := [''No active page found.'']\<rparr>)"
    using listed_failures_exit_1[where w = no_page_world
            and ?w1.0 = "no_page_world\<lparr>http_reqs := [?v]\<rparr>" and pg = JNull
            and ?w2.0 = "no_page_world\<lparr>http_reqs := [?v, (9333, ''/json'')]\<rparr>"
            and url = "''example.com''" and expression = "[]" and filename = "[]"
            and selector = "[]",
            THEN conjunct2, THEN conjunct1] no_page_world_up no_page_world_page
    by (simp add: no_page_world_def idle_world_def)
  have m: "SETTINGS_DIR @ ''/reader-view.css''
             \<notin> dom (files (cached_world\<lparr>http_reqs := [?v]\<rparr>))
           \<and> SETTINGS_DIR @ ''/reader-view.css'' \<notin> dirs (cached_world\<lparr>http_reqs := [?v]\<rparr>)"
    using settings_paths_distinct by (simp add: cached_world_def running_world_sel)
  have c3: "\<exists>f\<in>set [SETTINGS_DIR @ ''/reader-view.css'', SETTINGS_DIR @ ''/frame-sidebar.css'',
                 SETTINGS_DIR @ ''/user-action.json''].
        cmd_push cached_world =
          Some (Inl (SysExit 1),
            cached_world\<lparr>http_reqs := [?v], stdout := [''Missing: '' @ f]\<rparr>)"
    using listed_failures_exit_1[where w = cached_world
            and ?w1.0 = "cached_world\<lparr>http_reqs := [?v]\<rparr>"
            and ext = "Some ''ecabifbgmdmgdllomnfinbmaellmclnh''"
            and ?w2.0 = "cached_world\<lparr>http_reqs := [?v]\<rparr>",
            THEN conjunct2, THEN conjunct2, THEN conjunct1]
      cached_world_up cached_world_ext m
    by (simp add: ext_truthy_def cached_world_def running_world_sel)
  have m': "SETTINGS_DIR @ ''/reader-view-preferences.json''
             \<notin> dom (files (cached_world\<lparr>http_reqs := [?v]\<rparr>))
           \<and> SETTINGS_DIR @ ''/reader-view-preferences.json''
             \<notin> dirs (cached_world\<lparr>http_reqs := [?v]\<rparr>)"
    using settings_paths_distinct by (simp add: cached_world_def running_world_sel)
  have c4: "cmd_import cached_world =
     Some (Inl (SysExit 1),
       cached_world\<lparr>http_reqs := [?v],
                     stdout := [''Missing: '' @ SETTINGS_DIR @ ''/reader-view-preferences.json'']\<rparr>)"
    using listed_failures_exit_1[where w = cached_world
            and ?w1.0 = "cached_world\<lparr>http_reqs := [?v]\<rparr>"
            and ext = "Some ''ecabifbgmdmgdllomnfinbmaellmclnh''"
            and ?w2.0 = "cached_world\<lparr>http_reqs := [?v]\<rparr>",
            THEN conjunct2, THEN conjunct2, THEN conjunct2, THEN conjunct1]
      cached_world_up cached_world_ext m'
    by (simp add: ext_truthy_def cached_world_def running_world_sel)
  have c5: "cmd_push bad_json_world =
     Some (Inl (SysExit 1),
       bad_json_world\<lparr>http_reqs := [?v],
                       stdout := [''Invalid JSON in user-action.json: Expecting value'']\<rparr>)"
    using listed_failures_exit_1[where w = bad_json_world
            and ?w1.0 = "bad_json_world\<lparr>http_reqs := [?v]\<rparr>"
            and ext = "Some ''ecabifbgmdmgdllomnfinbmaellmclnh''"
            and ?w2.0 = "bad_json_world\<lparr>http_reqs := [?v]\<rparr>"
            and css = "''body { margin: 0 }''" and sidebar = "[]" and actions = "''[{''"
            and msg = "''Expecting value''",
            THEN conjunct2, THEN conjunct2, THEN conjunct2, THEN conjunct2, THEN conjunct1]
      bad_json_world_up bad_json_world_ext bad_json_world_files
    by (simp add: ext_truthy_def example_lib_def bad_json_world_def running_world_sel)
  have c6: "cmd_js ''x'' (reply_world js_exception_reply) =
     Some (Inl (SysExit 1),
       (reply_world_sent js_exception_reply ''Runtime.evaluate''
          (JObj [(''expression'', JStr ''x''), (''returnByValue'', JBool True),
                 (''awaitPromise'', JBool True)]))
         \<lparr>stderr := [''JS Error: ReferenceError: x is not defined'']\<rparr>)"
    using listed_failures_exit_1[where w = "reply_world js_exception_reply"
            and ?w1.0 = "(reply_world js_exception_reply)\<lparr>http_reqs := [?v]\<rparr>"
            and ?w2.0 = "(reply_world js_exception_reply)\<lparr>http_reqs := [?v, (9333, ''/json'')]\<rparr>"
            and page_ws = ?p1 and expression = "''x''" and resp = js_exception_reply
            and ?w3.0 = "reply_world_sent js_exception_reply ''Runtime.evaluate''
                    (JObj [(''expression'', JStr ''x''), (''returnByValue'', JBool True),
                           (''awaitPromise'', JBool True)])"
            and rkvs = "[(''exceptionDetails'',
                   JObj [(''exception'', JObj [(''description'', JStr ''ReferenceError: x is not defined'')])])]"
            and exc = "JObj [(''exception'', JObj [(''description'', JStr ''ReferenceError: x is not defined'')])]"
            and ex = "JObj [(''description'', JStr ''ReferenceError: x is not defined'')]"
            and desc = "JStr ''ReferenceError: x is not defined''",
            THEN conjunct2, THEN conjunct2, THEN conjunct2, THEN conjunct2, THEN conjunct2,
            THEN conjunct1]
      reply_world_up reply_world_page reply_world_send[OF replies_have_id_1(1)]
    by (simp add: js_exception_reply_def py_get_def reply_world_sent_sel to_str_def)
  have c7: "cmd_screenshot ''shot.png'' (reply_world no_data_reply) =
     Some (Inl (SysExit 1),
       (reply_world_sent no_data_reply ''Page.captureScreenshot'' (JObj [(''format'', JStr ''png'')]))
         \<lparr>stdout := [''Failed to capture screenshot.'']\<rparr>)"
    using listed_failures_exit_1[where w = "reply_world no_data_reply"
            and ?w1.0 = "(reply_world no_data_reply)\<lparr>http_reqs := [?v]\<rparr>"
            and ?w2.0 = "(reply_world no_data_reply)\<lparr>http_reqs := [?v, (9333, ''/json'')]\<rparr>"
            and page_ws = ?p1 and filename = "''shot.png''" and resp = no_data_reply
            and ?w3.0 = "reply_world_sent no_data_reply ''Page.captureScreenshot''
                    (JObj [(''format'', JStr ''png'')])"
            and res = "JObj []" and data = "JStr []",
            THEN conjunct2, THEN conjunct2, THEN conjunct2, THEN conjunct2, THEN conjunct2,
            THEN conjunct2, THEN conjunct1]
      reply_world_up reply_world_page reply_world_send[OF replies_have_id_1(2)]
    by (simp add: no_data_reply_def py_get_def reply_world_sent_sel)
  have c8: "cmd_click ''#go'' (reply_world not_found_reply) =
     Some (Inl (SysExit 1),
       (reply_world_sent not_found_reply ''Runtime.evaluate''
          (JObj [(''expression'', JStr (click_js (escape_quotes ''#go''))),
                 (''returnByValue'', JBool True)]))
         \<lparr>stdout := [''Element not found: #go'']\<rparr>)"
    using listed_failures_exit_1[where w = "reply_world not_found_reply"
            and ?w1.0 = "(reply_world not_found_reply)\<lparr>http_reqs := [?v]\<rparr>"
            and ?w2.0 = "(reply_world not_found_reply)\<lparr>http_reqs := [?v, (9333, ''/json'')]\<rparr>"
            and page_ws = ?p1 and selector = "''#go''" and resp = not_found_reply
            and ?w3.0 = "reply_world_sent not_found_reply ''Runtime.evaluate''
                    (JObj [(''expression'', JStr (click_js (escape_quotes ''#go''))),
                           (''returnByValue'', JBool True)])"
            and ?r1.0 = "JObj [(''result'',
                    JObj [(''type'', JStr ''string''), (''value'', JStr ''Element not found: #go'')])]"
            and ?r2.0 = "JObj [(''type'', JStr ''string''), (''value'', JStr ''Element not found: #go'')]"
            and val = "JStr ''Element not found: #go''",
            THEN conjunct2, THEN conjunct2, THEN conjunct2, THEN conjunct2, THEN conjunct2,
            THEN conjunct2, THEN conjunct2, THEN conjunct1]
      reply_world_up reply_world_page reply_world_send[OF replies_have_id_1(3)]
    by (simp add: not_found_reply_def py_get_def reply_world_sent_sel to_str_def)
  have c9: "cmd_open ''nosuch.invalid'' (reply_world navigation_error_reply) =
     Some (Inr (),
       (reply_world_sent navigation_error_reply ''Page.navigate''
          (JObj [(''url'', JStr (normalise_url ''nosuch.invalid''))]))
         \<lparr>stdout := [''Navigation error: net::ERR_NAME_NOT_RESOLVED'']\<rparr>)"
    using listed_failures_exit_1[where w = "reply_world navigation_error_reply"
            and ?w1.0 = "(reply_world navigation_error_reply)\<lparr>http_reqs := [?v]\<rparr>"
            and ?w2.0 = "(reply_world navigation_error_reply)\<lparr>http_reqs := [?v, (9333, ''/json'')]\<rparr>"
            and page_ws = ?p1 and url = "''nosuch.invalid''" and resp = navigation_error_reply
            and ?w3.0 = "reply_world_sent navigation_error_reply ''Page.navigate''
                    (JObj [(''url'', JStr (normalise_url ''nosuch.invalid''))])"
            and res = "JObj [(''errorText'', JStr ''net::ERR_NAME_NOT_RESOLVED'')]"
            and err = "JStr ''net::ERR_NAME_NOT_RESOLVED''",
            THEN conjunct2, THEN conjunct2, THEN conjunct2, THEN conjunct2, THEN conjunct2,
            THEN conjunct2, THEN conjunct2, THEN conjunct2]
      reply_world_up reply_world_page reply_world_send[OF replies_have_id_1(4)]
    by (simp add: navigation_error_reply_def py_get_def reply_world_sent_sel to_str_def)
  from c1 c2 c3 c4 c5 c6 c7 c8 c9 show ?thesis
    by (intro conjI)
qed

subsection \<open>Requests and connection attempts\<close>

named_theorems costs_rules
named_theorems spends_rules
named_theorems free_rules

lemma costs_leaf:
  "spends h0 c0 m \<Longrightarrow> h0 \<le> h \<Longrightarrow> c0 \<le> c \<Longrightarrow> costs h c m"
  unfolding spends_def costs_def by fastforce

lemma costs_bindM [costs_rules]:
  assumes "spends h1 c1 m" and "\<And>x. costs (h - h1) (c - c1) (f x)" and "h1 \<le> h" and "c1 \<le> c"
  shows "costs h c (bindM m f)"
  unfolding costs_def
proof (intro allI impI)
  fix w r w'
  assume b: "bindM m f w = Some (r, w')"
  show "length (http_reqs w') \<le> length (http_reqs w) + h \<and> ws_n w' \<le> ws_n w + c"
  proof (cases "m w")
    case None
    with b show ?thesis by (simp add: bindM_def)
  next
    case (Some a)
    obtain r1 w1 where a: "a = (r1, w1)" by (cases a)
    from assms(1) Some a have k1: "length (http_reqs w1) \<le> length (http_reqs w) + h1"
        "ws_n w1 \<le> ws_n w + c1"
      unfolding spends_def costs_def by blast+
    show ?thesis
    proof (cases r1)
      case (Inl e)
      with b Some a have "w' = w1" by (simp add: bindM_def)
      with k1 assms(3,4) show ?thesis by simp
    next
      case (Inr x)
      with b Some a have "f x w1 = Some (r, w')" by (simp add: bindM_def)
      with assms(2)[of x] have "length (http_reqs w') \<le> length (http_reqs w1) + (h - h1)"
          "ws_n w' \<le> ws_n w1 + (c - c1)"
        unfolding costs_def by blast+
      with k1 assms(3,4) show ?thesis by linarith
    qed
  qed
qed

lemma costs_thenM [costs_rules]:
  "spends h1 c1 m \<Longrightarrow> costs (h - h1) (c - c1) n \<Longrightarrow> h1 \<le> h \<Longrightarrow> c1 \<le> c \<Longrightarrow>
     costs h c (thenM m n)"
  unfolding thenM_def by (rule costs_bindM)

lemma costs_if [costs_rules]:
  "(b \<Longrightarrow> costs h c m) \<Longrightarrow> (\<not> b \<Longrightarrow> costs h c n) \<Longrightarrow> costs h c (if b then m else n)"
  by simp

lemma costs_try_except [costs_rules]:
  assumes "spends h1 c1 m" and "\<And>e. costs (h - h1) (c - c1) (k e)" and "h1 \<le> h" and "c1 \<le> c"
  shows "costs h c (try_except m k)"
  unfolding costs_def
proof (intro allI impI)
  fix w r w'
  assume b: "try_except m k w = Some (r, w')"
  show "length (http_reqs w') \<le> length (http_reqs w) + h \<and> ws_n w' \<le> ws_n w + c"
  proof (cases "\<exists>e w1. m w = Some (Inl (Raised e), w1)")
    case True
    then obtain e w1 where m: "m w = Some (Inl (Raised e), w1)" by blast
    with assms(1) have k1: "length (http_reqs w1) \<le> length (http_reqs w) + h1"
        "ws_n w1 \<le> ws_n w + c1"
      unfolding spends_def costs_def by blast+
    from b m have "k e w1 = Some (r, w')" by (simp add: try_except_def)
    with assms(2)[of e] have "length (http_reqs w') \<le> length (http_reqs w1) + (h - h1)"
        "ws_n w' \<le> ws_n w1 + (c - c1)"
      unfolding costs_def by blast+
    with k1 assms(3,4) show ?thesis by linarith
  next
    case False
    with b have "m w = Some (r, w')"
      by (auto simp add: try_except_def split: option.splits sum.splits abort.splits)
    with assms(1) have "length (http_reqs w') \<le> length (http_reqs w) + h1"
        "ws_n w' \<le> ws_n w + c1"
      unfolding spends_def costs_def by blast+
    with assms(3,4) show ?thesis by simp
  qed
qed

lemma spends_free: "free m \<Longrightarrow> spends 0 0 m"
  by (simp add: spends_def free_def)

lemma free_same:
  assumes "\<And>w r w'. m w = Some (r, w') \<Longrightarrow> http_reqs w' = http_reqs w \<and> ws_n w' = ws_n w"
  shows "free m"
  unfolding free_def costs_def using assms by fastforce

lemma free_returnM [free_rules]: "free (returnM x)"
  by (rule free_same) (simp add: returnM_def)

lemma free_raiseM [free_rules]: "free (raiseM e)"
  by (rule free_same) (simp add: raiseM_def)

lemma free_sys_exit [free_rules]: "free (sys_exit n)"
  by (rule free_same) (simp add: sys_exit_def)

lemma free_liftE [free_rules]: "free (liftE x)"
  by (rule free_same) (auto simp add: liftE_def returnM_def raiseM_def split: sum.splits)

lemma free_getsM [free_rules]: "free (getsM g)"
  by (rule free_same) (simp add: getsM_def)

lemma free_print_out [free_rules]: "free (print_out s)"
  by (rule free_same) (auto simp add: print_out_def)

lemma free_print_err [free_rules]: "free (print_err s)"
  by (rule free_same) (auto simp add: print_err_def)

lemma free_print_fmt [free_rules]: "free (print_fmt f)"
  by (rule free_same) (auto simp add: print_fmt_def print_out_def)

lemma free_print_err_fmt [free_rules]: "free (print_err_fmt f)"
  by (rule free_same) (auto simp add: print_err_fmt_def print_err_def)

lemma free_sleep [free_rules]: "free (sleep d)"
  by (rule free_same) (auto simp add: sleep_def split: if_splits)

lemma free_path_exists [free_rules]: "free (path_exists p)"
  by (rule free_same) (auto simp add: path_exists_def)

lemma free_isfile [free_rules]: "free (isfile p)"
  by (rule free_same) (auto simp add: isfile_def)

lemma free_read_text [free_rules]: "free (read_text p)"
  by (rule free_same) (auto simp add: read_text_def split: option.splits if_splits)

lemma free_write_file [free_rules]: "free (write_file p s)"
  by (rule free_same) (auto simp add: write_file_def split: if_splits)

lemma free_mkdir_p [free_rules]: "free (mkdir_p p)"
  by (rule free_same) (auto simp add: mkdir_p_def split: if_splits)

lemma free_unlink_missing_ok [free_rules]: "free (unlink_missing_ok p)"
  by (rule free_same) (auto simp add: unlink_missing_ok_def split: if_splits)

lemma free_popen [free_rules]: "free (popen args)"
  by (rule free_same) (auto simp add: popen_def split: sum.splits)

lemma free_proc_kill [free_rules]: "free (proc_kill pid)"
  by (rule free_same) (auto simp add: proc_kill_def)

lemma free_subprocess_run [free_rules]: "free (subprocess_run args)"
  by (rule free_same) (auto simp add: subprocess_run_def Let_def split: option.splits)

lemma free_bindM [free_rules]:
  assumes "free m" and "\<And>x. free (f x)"
  shows "free (bindM m f)"
  unfolding free_def
  by (rule costs_bindM[where ?h1.0 = 0 and ?c1.0 = 0])
     (use assms in \<open>simp_all add: free_def spends_def\<close>)

lemma free_thenM [free_rules]: "free m \<Longrightarrow> free n \<Longrightarrow> free (thenM m n)"
  unfolding thenM_def by (rule free_bindM)

lemma free_if [free_rules]:
  "(b \<Longrightarrow> free m) \<Longrightarrow> (\<not> b \<Longrightarrow> free n) \<Longrightarrow> free (if b then m else n)"
  by simp

lemma free_try_except [free_rules]:
  assumes "free m" and "\<And>e. free (k e)"
  shows "free (try_except m k)"
  unfolding free_def
  by (rule costs_try_except[where ?h1.0 = 0 and ?c1.0 = 0])
     (use assms in \<open>simp_all add: free_def spends_def\<close>)

lemma spends_cdp_http [spends_rules]: "spends 1 0 (cdp_http ep)"
  unfolding spends_def costs_def
  by (auto simp add: cdp_http_run Let_def split: http_result.splits)

lemma spends_cdp_send [spends_rules]: "spends 0 1 (cdp_send url method params)"
  unfolding spends_def costs_def
proof (intro allI impI)
  fix w r w'
  assume a: "cdp_send url method params w = Some (r, w')"
  show "length (http_reqs w') \<le> length (http_reqs w) + 0 \<and> ws_n w' \<le> ws_n w + 1"
  proof (cases "\<exists>u. url = JStr u")
    case False
    with a show ?thesis by (auto simp add: cdp_send_not_str)
  next
    case True
    then obtain u where u: "url = JStr u" by blast
    show ?thesis
    proof (cases "ws_connect w (ws_n w) u")
      case (Some e)
      with a u show ?thesis by (auto simp add: cdp_send_refused)
    next
      case None
      with a u show ?thesis
        by (auto simp add: cdp_send_run Let_def split: option.splits sum.splits)
    qed
  qed
qed

lemma spends_get_browser_ws [spends_rules]: "spends 1 0 get_browser_ws"
  unfolding spends_def get_browser_ws_def
  by (intro costs_rules conjI impI allI | rule costs_leaf | rule spends_rules
      | rule spends_free | intro free_rules | simp)+

lemma spends_get_page_ws [spends_rules]: "spends 1 0 get_page_ws"
  unfolding spends_def get_page_ws_def
  by (intro costs_rules conjI impI allI | rule costs_leaf | rule spends_rules
      | rule spends_free | intro free_rules | simp)+

lemma spends_get_all_targets [spends_rules]: "spends 1 0 get_all_targets"
  unfolding spends_def get_all_targets_def
  by (intro costs_rules conjI impI allI | rule costs_leaf | rule spends_rules
      | rule spends_free | intro free_rules | simp)+

lemma spends_require_running [spends_rules]: "spends 1 0 require_running"
  unfolding spends_def require_running_def
  by (intro costs_rules conjI impI allI | rule costs_leaf | rule spends_rules
      | rule spends_free | intro free_rules | simp)+

lemma spends_require_page [spends_rules]: "spends 1 0 require_page"
  unfolding spends_def require_page_def
  by (intro costs_rules conjI impI allI | rule costs_leaf | rule spends_rules
      | rule spends_free | intro free_rules | simp)+

lemma costs_case_sum [costs_rules]:
  "(\<And>a. costs h c (f a)) \<Longrightarrow> (\<And>b. costs h c (g b)) \<Longrightarrow> costs h c (case_sum f g x)"
  by (cases x) simp_all

lemma costs_case_option [costs_rules]:
  "costs h c a \<Longrightarrow> (\<And>y. costs h c (g y)) \<Longrightarrow> costs h c (case_option a g x)"
  by (cases x) simp_all

lemma free_case_sum [free_rules]:
  "(\<And>a. free (f a)) \<Longrightarrow> (\<And>b. free (g b)) \<Longrightarrow> free (case_sum f g x)"
  by (cases x) simp_all

lemma free_case_option [free_rules]:
  "free a \<Longrightarrow> (\<And>y. free (g y)) \<Longrightarrow> free (case_option a g x)"
  by (cases x) simp_all

lemma free_case_exn [free_rules]: "(\<And>c m. free (f c m)) \<Longrightarrow> free (case_exn f e)"
  by (cases e) simp

lemma free_case_json [free_rules]:
  "free a \<Longrightarrow> (\<And>x. free (b x)) \<Longrightarrow> (\<And>x. free (c x)) \<Longrightarrow> (\<And>x. free (d x)) \<Longrightarrow> free e
     \<Longrightarrow> (\<And>x. free (f x)) \<Longrightarrow> (\<And>x. free (g x)) \<Longrightarrow> (\<And>x. free (h x))
     \<Longrightarrow> free (case_json a b c d e f g h j)"
  by (cases j) simp_all

lemma free_find_chrome_in [free_rules]: "free (find_chrome_in ps)"
  by (induction ps) (simp_all add: free_rules)

lemma free_find_chrome [free_rules]: "free find_chrome"
  unfolding find_chrome_def by (intro free_rules)

lemma free_save_state [free_rules]: "free (save_state pid)"
  unfolding save_state_def by (intro free_rules)

lemma free_load_state [free_rules]: "free load_state"
  unfolding load_state_def by (intro free_rules)

lemma free_get_ext_id [free_rules]: "free get_ext_id"
  unfolding get_ext_id_def Let_def by (intro free_rules)

lemma free_scan_ext_targets [free_rules]: "free (scan_ext_targets ts)"
  by (induction ts) (simp_all add: free_rules)

lemma free_kill_chrome [free_rules]: "free (kill_chrome pid)"
  unfolding kill_chrome_def by (intro free_rules)

lemma free_print_pages [free_rules]: "free (print_pages i ps)"
  by (induction ps arbitrary: i) (simp_all add: free_rules)

lemma free_require_files [free_rules]: "free (require_files fs)"
  by (induction fs) (simp_all add: free_rules)

lemma spends_try_except [spends_rules]:
  assumes "spends h c m" and "\<And>e. free (k e)"
  shows "spends h c (try_except m k)"
  unfolding spends_def
  by (rule costs_try_except[where ?h1.0 = h and ?c1.0 = c])
     (use assms in \<open>simp_all add: free_def\<close>)

lemma spends_discover_from_targets [spends_rules]: "spends 0 1 (discover_from_targets ws)"
  unfolding spends_def discover_from_targets_def
  by (intro costs_rules conjI impI allI | rule costs_leaf | rule spends_rules
      | rule spends_free | intro free_rules | simp)+

lemma spends_discover_from_cws [spends_rules]: "spends 1 3 discover_from_cws"
  unfolding spends_def discover_from_cws_def
  by (intro costs_rules conjI impI allI | rule costs_leaf | rule spends_rules
      | rule spends_free | intro free_rules | simp)+

lemma spends_discover_ext_id [spends_rules]: "spends 2 4 discover_ext_id"
  unfolding spends_def discover_ext_id_def
  by (intro costs_rules conjI impI allI | rule costs_leaf | rule spends_rules
      | rule spends_free | intro free_rules | simp)+

lemma spends_get_or_discover_ext_id [spends_rules]: "spends 2 4 get_or_discover_ext_id"
  unfolding spends_def get_or_discover_ext_id_def
  by (intro costs_rules conjI impI allI | rule costs_leaf | rule spends_rules
      | rule spends_free | intro free_rules | simp)+

lemma spends_chrome_started [spends_rules]: "spends 2 4 (chrome_started pid)"
  unfolding spends_def chrome_started_def
  by (intro costs_rules conjI impI allI | rule costs_leaf | rule spends_rules
      | rule spends_free | intro free_rules | simp)+

lemma costs_start_poll: "costs (n + 2) 4 (start_poll n pid)"
proof (induction n)
  case 0
  have "free (start_poll 0 pid)" by (simp add: free_rules)
  then have "spends 0 0 (start_poll 0 pid)" by (rule spends_free)
  then show ?case by (rule costs_leaf) simp_all
next
  case (Suc n)
  have "costs (Suc n + 2) 4 (bindM get_browser_ws (\<lambda>ws.
          if truthy ws then chrome_started pid else thenM (sleep (1 / 2)) (start_poll n pid)))"
  proof (rule costs_bindM[where ?h1.0 = 1 and ?c1.0 = 0])
    show "spends 1 0 get_browser_ws" by (rule spends_get_browser_ws)
  next
    fix ws
    show "costs (Suc n + 2 - 1) (4 - 0)
            (if truthy ws then chrome_started pid else thenM (sleep (1 / 2)) (start_poll n pid))"
    proof (rule costs_if)
      show "costs (Suc n + 2 - 1) (4 - 0) (chrome_started pid)"
        by (rule costs_leaf[OF spends_chrome_started]) simp_all
    next
      show "costs (Suc n + 2 - 1) (4 - 0) (thenM (sleep (1 / 2)) (start_poll n pid))"
        by (rule costs_thenM[where ?h1.0 = 0 and ?c1.0 = 0])
           (use Suc.IH in \<open>simp_all add: spends_free free_rules\<close>)
    qed
  qed simp_all
  then show ?case by simp
qed

lemma spends_start_poll_30 [spends_rules]: "spends 32 4 (start_poll 30 pid)"
  unfolding spends_def using costs_start_poll[of 30 pid] by simp

lemma costs_cmd_start: "costs 33 4 cmd_start"
  unfolding cmd_start_def
  by (intro costs_rules conjI impI allI | rule costs_leaf | rule spends_rules
      | rule spends_free | intro free_rules | simp)+

lemma costs_cmd_setup: "costs 2 1 cmd_setup"
  unfolding cmd_setup_def
  by (intro costs_rules conjI impI allI | rule costs_leaf | rule spends_rules
      | rule spends_free | intro free_rules | simp)+

lemma costs_cmd_stop: "costs 0 0 cmd_stop"
  unfolding cmd_stop_def
  by (intro costs_rules conjI impI allI | rule costs_leaf | rule spends_rules
      | rule spends_free | intro free_rules | simp)+

lemma costs_cmd_status: "costs 4 4 cmd_status"
  unfolding cmd_status_def
  by (intro costs_rules conjI impI allI | rule costs_leaf | rule spends_rules
      | rule spends_free | intro free_rules | simp)+

lemma costs_cmd_open: "costs 2 1 (cmd_open url)"
  unfolding cmd_open_def Let_def
  by (intro costs_rules conjI impI allI | rule costs_leaf | rule spends_rules
      | rule spends_free | intro free_rules | simp)+

lemma costs_cmd_js: "costs 2 1 (cmd_js expression)"
  unfolding cmd_js_def
  by (intro costs_rules conjI impI allI | rule costs_leaf | rule spends_rules
      | rule spends_free | intro free_rules | simp)+

lemma costs_cmd_screenshot: "costs 2 1 (cmd_screenshot filename)"
  unfolding cmd_screenshot_def
  by (intro costs_rules conjI impI allI | rule costs_leaf | rule spends_rules
      | rule spends_free | intro free_rules | simp)+

lemma costs_cmd_click: "costs 2 1 (cmd_click selector)"
  unfolding cmd_click_def
  by (intro costs_rules conjI impI allI | rule costs_leaf | rule spends_rules
      | rule spends_free | intro free_rules | simp)+

lemma costs_cmd_wait: "costs 1 0 (cmd_wait seconds)"
  unfolding cmd_wait_def
  by (intro costs_rules conjI impI allI | rule costs_leaf | rule spends_rules
      | rule spends_free | intro free_rules | simp)+

lemma costs_cmd_push: "costs 4 6 cmd_push"
  unfolding cmd_push_def Let_def
  by (intro costs_rules conjI impI allI | rule costs_leaf | rule spends_rules
      | rule spends_free | intro free_rules | simp)+

lemma costs_cmd_import: "costs 4 6 cmd_import"
  unfolding cmd_import_def Let_def
  by (intro costs_rules conjI impI allI | rule costs_leaf | rule spends_rules
      | rule spends_free | intro free_rules | simp)+

lemma costs_main: "costs (request_bound argv) (connect_bound argv) (main argv)"
proof (cases "length argv < 2")
  case True
  then have "main argv = print_out module_doc" by (simp add: main_def)
  moreover have "costs 0 0 (print_out module_doc)"
    using free_print_out[of module_doc] by (simp add: free_def)
  ultimately show ?thesis using True by (simp add: request_bound_def connect_bound_def)
next
  case False
  then have l: "2 \<le> length argv" by simp
  have u: "costs 2 1 (thenM (print_out s) (sys_exit 1))" for s
    by (intro costs_rules conjI impI allI | rule costs_leaf | rule spends_rules
        | rule spends_free | intro free_rules | simp)+
  consider "argv ! 1 = ''start''" | "argv ! 1 = ''setup''" | "argv ! 1 = ''stop''"
    | "argv ! 1 = ''status''" | "argv ! 1 = ''push''" | "argv ! 1 = ''import''"
    | "argv ! 1 = ''open''" | "argv ! 1 = ''js''" | "argv ! 1 = ''click''"
    | "argv ! 1 = ''screenshot''" | "argv ! 1 = ''wait''"
    | "argv ! 1 \<notin> fst ` set COMMANDS"
    unfolding COMMANDS_names by blast
  then show ?thesis
  proof cases
    case 1
    with l have m: "main argv = cmd_start"
        and b: "request_bound argv = 33" "connect_bound argv = 4"
      by (simp_all add: main_cmd0 request_bound_def connect_bound_def)
    show ?thesis unfolding m b by (rule costs_cmd_start)
  next
    case 2
    with l have m: "main argv = cmd_setup"
        and b: "request_bound argv = 2" "connect_bound argv = 1"
      by (simp_all add: main_cmd0 request_bound_def connect_bound_def)
    show ?thesis unfolding m b by (rule costs_cmd_setup)
  next
    case 3
    with l have m: "main argv = cmd_stop"
        and b: "request_bound argv = 0" "connect_bound argv = 0"
      by (simp_all add: main_cmd0 request_bound_def connect_bound_def)
    show ?thesis unfolding m b by (rule costs_cmd_stop)
  next
    case 4
    with l have m: "main argv = cmd_status"
        and b: "request_bound argv = 4" "connect_bound argv = 4"
      by (simp_all add: main_cmd0 request_bound_def connect_bound_def)
    show ?thesis unfolding m b by (rule costs_cmd_status)
  next
    case 5
    with l have m: "main argv = cmd_push"
        and b: "request_bound argv = 4" "connect_bound argv = 6"
      by (simp_all add: main_cmd0 request_bound_def connect_bound_def)
    show ?thesis unfolding m b by (rule costs_cmd_push)
  next
    case 6
    with l have m: "main argv = cmd_import"
        and b: "request_bound argv = 4" "connect_bound argv = 6"
      by (simp_all add: main_cmd0 request_bound_def connect_bound_def)
    show ?thesis unfolding m b by (rule costs_cmd_import)
  next
    case 7
    with l have m: "main argv =
           (if length argv < 3 then
              thenM (print_out (''Usage: python browser.py open <url>'')) (sys_exit 1)
            else cmd_open (join_sp (drop 2 argv)))"
        and b: "request_bound argv = 2" "connect_bound argv = 1"
      by (simp_all add: main_cmd1 request_bound_def connect_bound_def)
    show ?thesis unfolding m b by (intro costs_if u costs_cmd_open)
  next
    case 8
    with l have m: "main argv =
           (if length argv < 3 then
              thenM (print_out (''Usage: python browser.py js <expression>'')) (sys_exit 1)
            else cmd_js (join_sp (drop 2 argv)))"
        and b: "request_bound argv = 2" "connect_bound argv = 1"
      by (simp_all add: main_cmd1 request_bound_def connect_bound_def)
    show ?thesis unfolding m b by (intro costs_if u costs_cmd_js)
  next
    case 9
    with l have m: "main argv =
           (if length argv < 3 then
              thenM (print_out (''Usage: python browser.py click <selector>'')) (sys_exit 1)
            else cmd_click (join_sp (drop 2 argv)))"
        and b: "request_bound argv = 2" "connect_bound argv = 1"
      by (simp_all add: main_cmd1 request_bound_def connect_bound_def)
    show ?thesis unfolding m b by (intro costs_if u costs_cmd_click)
  next
    case 10
    with l have m: "main argv =
           cmd_screenshot (if length argv > 2 then argv ! 2 else ''screenshot.png'')"
        and b: "request_bound argv = 2" "connect_bound argv = 1"
      by (simp_all add: main_cmd_opt request_bound_def connect_bound_def)
    show ?thesis unfolding m b by (rule costs_cmd_screenshot)
  next
    case 11
    with l have m: "main argv = cmd_wait (if length argv > 2 then Some (argv ! 2) else None)"
        and b: "request_bound argv = 1" "connect_bound argv = 0"
      by (simp_all add: main_cmd_opt request_bound_def connect_bound_def)
    show ?thesis unfolding m b by (rule costs_cmd_wait)
  next
    case 12
    have f: "costs 0 0 (print_out module_doc)"
      "costs 0 0 (thenM (print_out (''Unknown command: '' @ argv ! 1))
                   (thenM (print_out module_doc) (sys_exit 1)))"
      unfolding free_def[symmetric] by (intro free_rules)+
    from 12 have n: "argv ! 1 \<notin> {''start'', ''setup'', ''stop'', ''status'', ''open'', ''js'',
       ''screenshot'', ''click'', ''wait'', ''push'', ''import''}"
      unfolding COMMANDS_names .
    from l n have b: "request_bound argv = 0" "connect_bound argv = 0"
      by (simp_all add: request_bound_def connect_bound_def)
    show ?thesis unfolding b main_other[OF l 12] by (intro costs_if f)
  qed
qed

lemma main_bounded:
  assumes "main argv w = Some (r, w')"
  shows "length (http_reqs w') \<le> length (http_reqs w) + request_bound argv
         \<and> ws_n w' \<le> ws_n w + connect_bound argv"
  using costs_main[of argv] assms unfolding costs_def by blast

lemma hanging_world_sel:
  "http_reqs hanging_world = []" "DEBUG_PORT hanging_world = 9333"
  "http_resp hanging_world 0 ep = HttpUnreachable"
  "http_resp hanging_world (Suc k) ep
     = HttpRaises (Exc OSError ''Remote end closed connection without response'')"
  "files hanging_world = [''chrome.exe'' \<mapsto> []]" "locked hanging_world = {}"
  "dirs hanging_world = {}" "spawned hanging_world = []"
  "popen_res hanging_world = (\<lambda>k. Inr 4242)"
  "stdout hanging_world = []" "killed hanging_world = []" "sleeps hanging_world = []"
  "chrome_bin hanging_world = ''chrome.exe''"
  by (simp_all add: hanging_world_def launch_world_def idle_world_def)

lemma start_poll_raises:
  assumes "http_resp w (length (http_reqs w)) ''/json/version'' = HttpRaises e"
  shows "start_poll (Suc n) pid w =
     Some (Inl (Raised e), w\<lparr>http_reqs := http_reqs w @ [(DEBUG_PORT w, ''/json/version'')]\<rparr>)"
  using assms by (simp add: get_browser_ws_run bindM_def Let_def)



lemma refusing_world_sel:
  "ws_n refusing_world = 0"
  "ws_connect refusing_world k u = Some (Exc OSError ''Connection refused'')"
  by (simp_all add: refusing_world_def idle_world_def)

lemma main_start: "main [p, ''start''] = cmd_start"
  by (simp add: main_cmd0)


subsection \<open>What the commands leave behind\<close>

named_theorems keeps_intros

lemma confined_refl: "confined A D S w w"
  by (simp add: confined_def)

lemma confined_same:
  "lib w' = lib w \<Longrightarrow> files w' = files w \<Longrightarrow> dirs w' = dirs w \<Longrightarrow> spawned w' = spawned w \<Longrightarrow>
     confined A D S w w'"
  by (simp add: confined_def)

lemma confined_trans:
  assumes "confined A D S w w1" and "confined A D S w1 w2"
  shows "confined A D S w w2"
proof -
  from assms obtain xs ys where
      x: "spawned w1 = spawned w @ xs" "set xs \<subseteq> S"
      and y: "spawned w2 = spawned w1 @ ys" "set ys \<subseteq> S"
    unfolding confined_def by blast
  then have "spawned w2 = spawned w @ (xs @ ys) \<and> set (xs @ ys) \<subseteq> S"
    by simp
  then have s: "\<exists>zs. spawned w2 = spawned w @ zs \<and> set zs \<subseteq> S"
    by blast
  from assms have "lib w2 = lib w" "\<forall>p. p \<notin> A \<longrightarrow> files w2 p = files w p"
      "dirs w \<subseteq> dirs w2" "dirs w2 \<subseteq> dirs w \<union> D"
    unfolding confined_def by auto
  with s show ?thesis
    unfolding confined_def by blast
qed

lemma keeps_same:
  assumes "\<And>w r w'. m w = Some (r, w') \<Longrightarrow>
             lib w' = lib w \<and> files w' = files w \<and> dirs w' = dirs w \<and> spawned w' = spawned w"
  shows "keeps L A D S m"
  unfolding keeps_def using assms by (blast intro: confined_same)

lemma keeps_returnM [keeps_intros]: "keeps L A D S (returnM x)"
  by (rule keeps_same) (simp add: returnM_def)

lemma keeps_raiseM [keeps_intros]: "keeps L A D S (raiseM e)"
  by (rule keeps_same) (simp add: raiseM_def)

lemma keeps_sys_exit [keeps_intros]: "keeps L A D S (sys_exit n)"
  by (rule keeps_same) (simp add: sys_exit_def)

lemma keeps_liftE [keeps_intros]: "keeps L A D S (liftE x)"
  by (rule keeps_same) (auto simp add: liftE_def returnM_def raiseM_def split: sum.splits)

lemma keeps_getsM [keeps_intros]: "keeps L A D S (getsM g)"
  by (rule keeps_same) (simp add: getsM_def)

lemma keeps_print_out [keeps_intros]: "keeps L A D S (print_out s)"
  by (rule keeps_same) (auto simp add: print_out_def)

lemma keeps_print_err [keeps_intros]: "keeps L A D S (print_err s)"
  by (rule keeps_same) (auto simp add: print_err_def)

lemma keeps_print_fmt [keeps_intros]: "keeps L A D S (print_fmt f)"
  by (rule keeps_same) (auto simp add: print_fmt_def print_out_def)

lemma keeps_print_err_fmt [keeps_intros]: "keeps L A D S (print_err_fmt f)"
  by (rule keeps_same) (auto simp add: print_err_fmt_def print_err_def)

lemma keeps_sleep [keeps_intros]: "keeps L A D S (sleep d)"
  by (rule keeps_same) (auto simp add: sleep_def split: if_splits)

lemma keeps_path_exists [keeps_intros]: "keeps L A D S (path_exists p)"
  by (rule keeps_same) (auto simp add: path_exists_def)

lemma keeps_isfile [keeps_intros]: "keeps L A D S (isfile p)"
  by (rule keeps_same) (auto simp add: isfile_def)

lemma keeps_read_text [keeps_intros]: "keeps L A D S (read_text p)"
  by (rule keeps_same) (auto simp add: read_text_def split: option.splits if_splits)

lemma keeps_urlopen_json [keeps_intros]: "keeps L A D S (urlopen_json ep)"
  by (rule keeps_same) (auto simp add: urlopen_json_def)

lemma keeps_create_connection [keeps_intros]: "keeps L A D S (create_connection u)"
  by (rule keeps_same)
     (auto simp add: create_connection_def Let_def split: json.splits option.splits)

lemma keeps_ws_send [keeps_intros]: "keeps L A D S (ws_send k m)"
  by (rule keeps_same) (auto simp add: ws_send_def Let_def split: option.splits)

lemma keeps_ws_close [keeps_intros]: "keeps L A D S (ws_close k)"
  by (rule keeps_same) (auto simp add: ws_close_def)

lemma keeps_ws_recv_response [keeps_intros]: "keeps L A D S (ws_recv_response k)"
  by (rule keeps_same) (auto simp add: ws_recv_response_def split: option.splits sum.splits)

lemma keeps_proc_kill [keeps_intros]: "keeps L A D S (proc_kill pid)"
  by (rule keeps_same) (auto simp add: proc_kill_def)

lemma keeps_subprocess_run [keeps_intros]: "keeps L A D S (subprocess_run args)"
  by (rule keeps_same) (auto simp add: subprocess_run_def Let_def split: option.splits)

lemma keeps_mkdir_p [keeps_intros]: "p \<in> D \<Longrightarrow> keeps L A D S (mkdir_p p)"
  unfolding keeps_def confined_def by (auto simp add: mkdir_p_def split: if_splits)

lemma keeps_popen [keeps_intros]: "args \<in> S \<Longrightarrow> keeps L A D S (popen args)"
  unfolding keeps_def confined_def by (auto simp add: popen_def split: sum.splits)

lemma keeps_write_file [keeps_intros]: "p \<in> A \<Longrightarrow> keeps L A D S (write_file p s)"
  unfolding keeps_def confined_def by (auto simp add: write_file_def split: if_splits)

lemma keeps_unlink_missing_ok [keeps_intros]: "p \<in> A \<Longrightarrow> keeps L A D S (unlink_missing_ok p)"
  unfolding keeps_def confined_def by (auto simp add: unlink_missing_ok_def split: if_splits)

lemma keeps_bindM [keeps_intros]:
  assumes "keeps L A D S m" and "\<And>x. keeps L A D S (f x)"
  shows "keeps L A D S (bindM m f)"
  unfolding keeps_def
proof (intro allI impI)
  fix w r w'
  assume l: "lib w = L" and b: "bindM m f w = Some (r, w')"
  show "confined A D S w w'"
  proof (cases "m w")
    case None
    with b show ?thesis by (simp add: bindM_def)
  next
    case (Some a)
    obtain r1 w1 where a: "a = (r1, w1)" by (cases a)
    from assms(1) l Some a have k1: "confined A D S w w1"
      unfolding keeps_def by blast
    then have l1: "lib w1 = L" using l by (simp add: confined_def)
    show ?thesis
    proof (cases r1)
      case (Inl e)
      with b Some a have "w' = w1" by (simp add: bindM_def)
      with k1 show ?thesis by simp
    next
      case (Inr x)
      with b Some a have "f x w1 = Some (r, w')" by (simp add: bindM_def)
      with assms(2)[of x] l1 have "confined A D S w1 w'"
        unfolding keeps_def by blast
      with k1 show ?thesis by (rule confined_trans)
    qed
  qed
qed

lemma keeps_thenM [keeps_intros]:
  "keeps L A D S m \<Longrightarrow> keeps L A D S n \<Longrightarrow> keeps L A D S (thenM m n)"
  unfolding thenM_def by (rule keeps_bindM)

lemma keeps_try_except [keeps_intros]:
  assumes "keeps L A D S m" and "\<And>e. keeps L A D S (h e)"
  shows "keeps L A D S (try_except m h)"
  unfolding keeps_def
proof (intro allI impI)
  fix w r w'
  assume l: "lib w = L" and b: "try_except m h w = Some (r, w')"
  show "confined A D S w w'"
  proof (cases "\<exists>e w1. m w = Some (Inl (Raised e), w1)")
    case True
    then obtain e w1 where m: "m w = Some (Inl (Raised e), w1)" by blast
    with assms(1) l have k1: "confined A D S w w1"
      unfolding keeps_def by blast
    then have l1: "lib w1 = L" using l by (simp add: confined_def)
    from b m have "h e w1 = Some (r, w')" by (simp add: try_except_def)
    with assms(2)[of e] l1 have "confined A D S w1 w'"
      unfolding keeps_def by blast
    with k1 show ?thesis by (rule confined_trans)
  next
    case False
    with b have "m w = Some (r, w')"
      by (auto simp add: try_except_def split: option.splits sum.splits abort.splits)
    with assms(1) l show ?thesis unfolding keeps_def by blast
  qed
qed

lemma keeps_try_finally [keeps_intros]:
  assumes "keeps L A D S m" and "keeps L A D S fin"
  shows "keeps L A D S (try_finally m fin)"
  unfolding keeps_def
proof (intro allI impI)
  fix w r w'
  assume l: "lib w = L" and b: "try_finally m fin w = Some (r, w')"
  from b obtain r1 w1 r2 where m: "m w = Some (r1, w1)" and f: "fin w1 = Some (r2, w')"
    by (auto simp add: try_finally_def split: option.splits sum.splits)
  from assms(1) l m have k1: "confined A D S w w1"
    unfolding keeps_def by blast
  then have l1: "lib w1 = L" using l by (simp add: confined_def)
  from assms(2) l1 f have "confined A D S w1 w'"
    unfolding keeps_def by blast
  with k1 show "confined A D S w w'" by (rule confined_trans)
qed

lemma keeps_bind_getsM:
  assumes "\<And>w. lib w = L \<Longrightarrow> keeps L A D S (f (g w))"
  shows "keeps L A D S (bindM (getsM g) f)"
  unfolding keeps_def
proof (intro allI impI)
  fix w r w'
  assume l: "lib w = L" and b: "bindM (getsM g) f w = Some (r, w')"
  then have "f (g w) w = Some (r, w')" by (simp add: bindM_getsM)
  with assms[OF l] l show "confined A D S w w'"
    unfolding keeps_def by blast
qed

lemma keeps_cdp_http [keeps_intros]: "keeps L A D S (cdp_http ep)"
  unfolding cdp_http_def by (auto intro!: keeps_intros split: http_result.split)

lemma keeps_cdp_send [keeps_intros]: "keeps L A D S (cdp_send u m p)"
  unfolding cdp_send_def by (intro keeps_intros)

lemma keeps_get_browser_ws [keeps_intros]: "keeps L A D S get_browser_ws"
  unfolding get_browser_ws_def by (auto intro!: keeps_intros)

lemma keeps_get_page_ws [keeps_intros]: "keeps L A D S get_page_ws"
  unfolding get_page_ws_def by (intro keeps_intros)

lemma keeps_get_all_targets [keeps_intros]: "keeps L A D S get_all_targets"
  unfolding get_all_targets_def by (intro keeps_intros)

lemma keeps_find_chrome_in [keeps_intros]: "keeps L A D S (find_chrome_in cs)"
  by (induction cs) (auto intro!: keeps_intros)

lemma keeps_find_chrome [keeps_intros]: "keeps L A D S find_chrome"
  unfolding find_chrome_def by (intro keeps_intros)

lemma keeps_save_state [keeps_intros]:
  "STATE_FILE \<in> A \<Longrightarrow> STATE_DIR \<in> D \<Longrightarrow> keeps L A D S (save_state pid)"
  unfolding save_state_def by (auto intro!: keeps_intros)

lemma keeps_load_state [keeps_intros]: "keeps L A D S load_state"
  unfolding load_state_def by (auto intro!: keeps_intros split: sum.split)

lemma keeps_require_running [keeps_intros]: "keeps L A D S require_running"
  unfolding require_running_def by (auto intro!: keeps_intros)

lemma keeps_require_page [keeps_intros]: "keeps L A D S require_page"
  unfolding require_page_def by (auto intro!: keeps_intros)

lemma keeps_get_ext_id [keeps_intros]: "keeps L A D S get_ext_id"
  unfolding get_ext_id_def by (auto intro!: keeps_intros simp add: Let_def)

lemma keeps_scan_ext_targets [keeps_intros]:
  "EXT_ID_FILE \<in> A \<Longrightarrow> STATE_DIR \<in> D \<Longrightarrow> keeps L A D S (scan_ext_targets ts)"
  by (induction ts) (auto intro!: keeps_intros split: json.split)

lemma keeps_discover_from_targets [keeps_intros]:
  "EXT_ID_FILE \<in> A \<Longrightarrow> STATE_DIR \<in> D \<Longrightarrow> keeps L A D S (discover_from_targets b)"
  unfolding discover_from_targets_def by (intro keeps_intros)

lemma keeps_discover_from_cws [keeps_intros]:
  "EXT_ID_FILE \<in> A \<Longrightarrow> STATE_DIR \<in> D \<Longrightarrow> keeps L A D S discover_from_cws"
  unfolding discover_from_cws_def by (auto intro!: keeps_intros)

lemma keeps_discover_ext_id [keeps_intros]:
  "EXT_ID_FILE \<in> A \<Longrightarrow> STATE_DIR \<in> D \<Longrightarrow> keeps L A D S discover_ext_id"
  unfolding discover_ext_id_def by (auto intro!: keeps_intros split: option.split)

lemma keeps_get_or_discover_ext_id [keeps_intros]:
  "EXT_ID_FILE \<in> A \<Longrightarrow> STATE_DIR \<in> D \<Longrightarrow> keeps L A D S get_or_discover_ext_id"
  unfolding get_or_discover_ext_id_def by (auto intro!: keeps_intros)

lemma keeps_chrome_started [keeps_intros]:
  "STATE_FILE \<in> A \<Longrightarrow> EXT_ID_FILE \<in> A \<Longrightarrow> STATE_DIR \<in> D \<Longrightarrow>
     keeps L A D S (chrome_started pid)"
  unfolding chrome_started_def by (auto intro!: keeps_intros)

lemma keeps_start_poll [keeps_intros]:
  "STATE_FILE \<in> A \<Longrightarrow> EXT_ID_FILE \<in> A \<Longrightarrow> STATE_DIR \<in> D \<Longrightarrow>
     keeps L A D S (start_poll n pid)"
  by (induction n) (auto intro!: keeps_intros)

lemma profile_launch_popen_args: "profile_launch (popen_args chrome w)"
  by (simp add: popen_args_def profile_launch_def)

lemma keeps_cmd_start:
  "STATE_FILE \<in> A \<Longrightarrow> EXT_ID_FILE \<in> A \<Longrightarrow> STATE_DIR \<in> D \<Longrightarrow> CHROME_DATA \<in> D \<Longrightarrow>
     Collect profile_launch \<subseteq> S \<Longrightarrow> keeps L A D S cmd_start"
proof -
  assume a: "STATE_FILE \<in> A" "EXT_ID_FILE \<in> A" "STATE_DIR \<in> D" "CHROME_DATA \<in> D"
    and s: "Collect profile_launch \<subseteq> S"
  have p: "popen_args chrome w \<in> S" for chrome w
    using s profile_launch_popen_args[of chrome w] by blast
  show ?thesis
    unfolding cmd_start_def
    using a p by (auto intro!: keeps_intros keeps_bind_getsM)
qed

lemma keeps_cmd_setup: "keeps L A D S cmd_setup"
  unfolding cmd_setup_def by (intro keeps_intros)

lemma keeps_kill_chrome [keeps_intros]: "keeps L A D S (kill_chrome pid)"
  unfolding kill_chrome_def by (auto intro!: keeps_intros split: exn.split)

lemma keeps_cmd_stop: "STATE_FILE \<in> A \<Longrightarrow> keeps L A D S cmd_stop"
  unfolding cmd_stop_def by (auto intro!: keeps_intros)

lemma keeps_print_pages [keeps_intros]: "keeps L A D S (print_pages i ps)"
  by (induction ps arbitrary: i) (auto intro!: keeps_intros)

lemma keeps_cmd_status: "EXT_ID_FILE \<in> A \<Longrightarrow> STATE_DIR \<in> D \<Longrightarrow> keeps L A D S cmd_status"
  unfolding cmd_status_def by (auto intro!: keeps_intros)

lemma keeps_cmd_open: "keeps L A D S (cmd_open url)"
  unfolding cmd_open_def by (auto intro!: keeps_intros simp add: Let_def)

lemma keeps_cmd_js: "keeps L A D S (cmd_js e)"
  unfolding cmd_js_def by (auto intro!: keeps_intros)

lemma keeps_cmd_click: "keeps L A D S (cmd_click s)"
  unfolding cmd_click_def by (auto intro!: keeps_intros)

lemma keeps_cmd_wait: "keeps L A D S (cmd_wait a)"
  unfolding cmd_wait_def by (auto intro!: keeps_intros split: option.split)

lemma keeps_require_files [keeps_intros]: "keeps L A D S (require_files fs)"
  by (induction fs) (auto intro!: keeps_intros)

lemma keeps_cmd_push: "EXT_ID_FILE \<in> A \<Longrightarrow> STATE_DIR \<in> D \<Longrightarrow> keeps L A D S cmd_push"
  unfolding cmd_push_def by (auto intro!: keeps_intros simp add: Let_def split: sum.split)

lemma keeps_cmd_import: "EXT_ID_FILE \<in> A \<Longrightarrow> STATE_DIR \<in> D \<Longrightarrow> keeps L A D S cmd_import"
  unfolding cmd_import_def by (auto intro!: keeps_intros simp add: Let_def split: sum.split)

lemma keeps_cmd_screenshot:
  "path_resolve L filename \<in> A \<Longrightarrow> path_parent L (path_resolve L filename) \<in> D \<Longrightarrow>
     keeps L A D S (cmd_screenshot filename)"
  unfolding cmd_screenshot_def
  by (auto intro!: keeps_intros keeps_bind_getsM)

lemma keeps_main:
  "keeps L (written_paths argv L) (made_dirs argv L) (launches argv) (main argv)"
proof (cases "length argv < 2")
  case True
  then have "main argv = print_out module_doc" by (simp add: main_def)
  then show ?thesis by (simp add: keeps_intros)
next
  case False
  then have l: "2 \<le> length argv" by simp
  consider "argv ! 1 = ''start''" | "argv ! 1 = ''setup''" | "argv ! 1 = ''stop''"
    | "argv ! 1 = ''status''" | "argv ! 1 = ''push''" | "argv ! 1 = ''import''"
    | "argv ! 1 = ''open''" | "argv ! 1 = ''js''" | "argv ! 1 = ''click''"
    | "argv ! 1 = ''screenshot''" | "argv ! 1 = ''wait''"
    | "argv ! 1 \<notin> fst ` set COMMANDS"
    unfolding COMMANDS_names by blast
  then show ?thesis
  proof cases
    case 1
    with l show ?thesis
      by (simp add: main_cmd0 written_paths_def made_dirs_def launches_def keeps_cmd_start)
  next
    case 2
    with l show ?thesis by (simp add: main_cmd0 keeps_cmd_setup)
  next
    case 3
    with l show ?thesis by (simp add: main_cmd0 written_paths_def keeps_cmd_stop)
  next
    case 4
    with l show ?thesis
      by (simp add: main_cmd0 written_paths_def made_dirs_def keeps_cmd_status)
  next
    case 5
    with l show ?thesis
      by (simp add: main_cmd0 written_paths_def made_dirs_def keeps_cmd_push)
  next
    case 6
    with l show ?thesis
      by (simp add: main_cmd0 written_paths_def made_dirs_def keeps_cmd_import)
  next
    case 7
    with l show ?thesis by (simp add: main_cmd1 keeps_cmd_open keeps_intros)
  next
    case 8
    with l show ?thesis by (simp add: main_cmd1 keeps_cmd_js keeps_intros)
  next
    case 9
    with l show ?thesis by (simp add: main_cmd1 keeps_cmd_click keeps_intros)
  next
    case 10
    with l show ?thesis
      by (simp add: main_cmd_opt written_paths_def made_dirs_def keeps_cmd_screenshot)
  next
    case 11
    with l show ?thesis by (simp add: main_cmd_opt keeps_cmd_wait)
  next
    case 12
    with l show ?thesis by (simp add: main_other keeps_intros)
  qed
qed

lemma main_confined:
  assumes "main argv w = Some (r, w')"
  shows "confined (written_paths argv (lib w)) (made_dirs argv (lib w)) (launches argv) w w'"
  using keeps_main[of "lib w" argv] assms unfolding keeps_def by blast

lemma after_save_state:
  "save_state pid w = Some (Inr (), w1) \<Longrightarrow> thenM (save_state pid) n w = n w1"
  by (simp add: thenM_def bindM_def)

lemma save_state_run:
  assumes "STATE_DIR \<notin> dom (files w)" and "STATE_DIR \<notin> locked w"
    and "STATE_FILE \<notin> locked w" and "STATE_FILE \<notin> dirs w"
  shows "save_state pid w =
     Some (Inr (),
           w\<lparr>dirs := insert STATE_DIR (dirs w),
             files := (files w)(STATE_FILE \<mapsto>
               json_dumps (lib w) (JObj [(''pid'', JInt pid), (''port'', JInt (DEBUG_PORT w))]))\<rparr>)"
  using assms
  by (simp add: save_state_def thenM_def bindM_def getsM_def mkdir_p_def write_file_def
      paths_distinct)

lemma chrome_started_saves:
  assumes "STATE_DIR \<notin> dom (files w)" and "STATE_DIR \<notin> locked w"
    and "STATE_FILE \<notin> locked w" and "STATE_FILE \<notin> dirs w"
    and "chrome_started pid w = Some (r, w')"
  shows "files w' STATE_FILE
           = Some (json_dumps (lib w) (JObj [(''pid'', JInt pid), (''port'', JInt (DEBUG_PORT w))]))
         \<and> spawned w' = spawned w"
proof -
  let ?txt = "json_dumps (lib w) (JObj [(''pid'', JInt pid), (''port'', JInt (DEBUG_PORT w))])"
  let ?w5 = "w\<lparr>dirs := insert STATE_DIR (dirs w), files := (files w)(STATE_FILE \<mapsto> ?txt)\<rparr>"
  let ?rest = "thenM (print_fmt (\<lambda>L. ''Chrome started (PID '' @ to_str L (JInt pid) @ '')''))
          (thenM (sleep (3 / 2))
             (bindM discover_ext_id (\<lambda>ext_id.
                if ext_truthy ext_id then print_out (''Extension ID: '' @ ext_str ext_id)
                else print_out ''Reader View not installed. Run: python browser.py setup'')))"
  have s: "save_state pid w = Some (Inr (), ?w5)"
    using assms(1-4) by (rule save_state_run)
  have "chrome_started pid w = ?rest ?w5"
    unfolding chrome_started_def by (rule after_save_state[OF s])
  with assms(5) have e: "?rest ?w5 = Some (r, w')" by simp
  have "keeps (lib w) {EXT_ID_FILE} {STATE_DIR} {} ?rest"
    by (auto intro!: keeps_intros)
  moreover have "lib ?w5 = lib w" by simp
  ultimately have "confined {EXT_ID_FILE} {STATE_DIR} {} ?w5 w'"
    using e unfolding keeps_def by blast
  then have "files w' STATE_FILE = files ?w5 STATE_FILE" "spawned w' = spawned ?w5"
    unfolding confined_def using paths_distinct(3) by auto
  then show ?thesis by simp
qed

lemma cmd_start_saves:
  assumes "endpoint_down (http_resp w (length (http_reqs w)) ''/json/version'')"
    and "find (\<lambda>p. p \<noteq> [] \<and> p \<in> dom (files w)) (CHROME_CANDIDATES w) = Some chrome"
    and "CHROME_DATA \<notin> dom (files w)" and "CHROME_DATA \<notin> locked w"
    and "popen_res w (length (spawned w)) = Inr pid"
    and "k < 30"
    and "\<forall>j<k. endpoint_down (http_resp w (Suc (length (http_reqs w)) + j) ''/json/version'')"
    and "endpoint_up (http_resp w (Suc (length (http_reqs w)) + k) ''/json/version'')"
    and "STATE_DIR \<notin> dom (files w)" and "STATE_DIR \<notin> locked w"
    and "STATE_FILE \<notin> locked w" and "STATE_FILE \<notin> dirs w"
    and "cmd_start w = Some (r, w')"
  shows "files w' STATE_FILE
           = Some (json_dumps (lib w) (JObj [(''pid'', JInt pid), (''port'', JInt (DEBUG_PORT w))]))
         \<and> spawned w' = spawned w @ [popen_args chrome w]"
proof -
  let ?w3 = "w\<lparr>http_reqs := http_reqs w @ [(DEBUG_PORT w, ''/json/version'')],
          dirs := insert CHROME_DATA (dirs w),
          spawned := spawned w @ [popen_args chrome w],
          stdout := stdout w @ [''Starting Chrome...'']\<rparr>"
  let ?w4 = "(polled k ?w3)\<lparr>http_reqs := http_reqs ?w3
                           @ replicate (Suc k) (DEBUG_PORT ?w3, ''/json/version'')\<rparr>"
  have 1: "cmd_start w = start_poll 30 pid ?w3"
    using assms(1-5) by (rule cmd_start_launch)
  have 2: "start_poll 30 pid ?w3 = chrome_started pid ?w4"
    by (rule start_poll_first_up) (use assms(6-8) in simp_all)
  from assms(13) have e: "chrome_started pid ?w4 = Some (r, w')"
    unfolding 1 2 .
  have "files w' STATE_FILE
           = Some (json_dumps (lib ?w4) (JObj [(''pid'', JInt pid), (''port'', JInt (DEBUG_PORT ?w4))]))
         \<and> spawned w' = spawned ?w4"
    by (rule chrome_started_saves[OF _ _ _ _ e])
       (use assms(9-12) paths_distinct in \<open>simp_all add: polled_def\<close>)
  then show ?thesis by (simp add: polled_def)
qed

lemma screenshot_saved:
  assumes "require_running w = Some (Inr (), w1)" and "require_page w1 = Some (Inr page_ws, w2)"
    and "cdp_send page_ws ''Page.captureScreenshot'' (JObj [(''format'', JStr ''png'')]) w2
           = Some (Inr resp, w3)"
    and "py_get resp ''result'' (JObj []) = Inr res"
    and "py_get res ''data'' (JStr []) = Inr data" and "truthy data"
    and "b64decode (lib w3) data = Inr bytes"
    and "path = path_resolve (lib w3) filename" and "parent = path_parent (lib w3) path"
    and "parent \<notin> dom (files w3)" and "parent \<notin> locked w3"
    and "path \<notin> locked w3" and "path \<notin> dirs w3" and "path \<noteq> parent"
  shows "cmd_screenshot filename w =
     Some (Inr (),
           w3\<lparr>dirs := insert parent (dirs w3),
              files := (files w3)(path \<mapsto> bytes),
              stdout := stdout w3 @ [''Screenshot saved: '' @ path]\<rparr>)"
  unfolding cmd_screenshot_def
  using assms
  by (simp add: Let_def bindM_def thenM_def liftE_def returnM_def getsM_def mkdir_p_def
      write_file_def print_out_def)

lemma discover_finds_nothing:
  assumes "http_resp w (length (http_reqs w)) ''/json/version''
             = HttpJson (JObj [(''webSocketDebuggerUrl'', JStr u)])" and "u \<noteq> []"
    and "ws_connect w (ws_n w) u = None" and "ws_send_res w (ws_n w) = None"
    and "ws_incoming w (ws_n w) 0 = RecvRaises e"
    and "http_resp w (Suc (length (http_reqs w))) ''/json'' = HttpUnreachable"
  shows "discover_ext_id w =
     Some (Inr None,
           w\<lparr>http_reqs := http_reqs w @ [(DEBUG_PORT w, ''/json/version''), (DEBUG_PORT w, ''/json'')],
             ws_n := Suc (ws_n w),
             ws_log := ws_log w @ [WsOpen (ws_n w) u,
                                   WsSend (ws_n w) (cdp_msg ''Target.getTargets'' JNull),
                                   WsClose (ws_n w)]\<rparr>)"
proof -
  let ?w1 = "w\<lparr>http_reqs := http_reqs w @ [(DEBUG_PORT w, ''/json/version'')]\<rparr>"
  let ?w2 = "?w1\<lparr>ws_n := Suc (ws_n w),
                 ws_log := ws_log w @ [WsOpen (ws_n w) u,
                                       WsSend (ws_n w) (cdp_msg ''Target.getTargets'' JNull),
                                       WsClose (ws_n w)]\<rparr>"
  have b: "get_browser_ws w = Some (Inr (JStr u), ?w1)"
    using assms(1,2) by (simp add: get_browser_ws_run py_getitem_def)
  have r: "recv_loop (ws_incoming ?w1 (ws_n ?w1)) 0 = Some (Inl e)"
    by (rule recv_loop_raises) (simp add: assms(5))
  have s: "cdp_send (JStr u) ''Target.getTargets'' JNull ?w1 = Some (Inl (Raised e), ?w2)"
    using assms(3,4) r by (simp add: cdp_send_run Let_def)
  have t: "try_except (discover_from_targets (JStr u)) (\<lambda>e. returnM None) ?w1 = Some (Inr None, ?w2)"
    using s by (simp add: discover_from_targets_def try_except_def bindM_def returnM_def)
  have p: "get_page_ws ?w2
             = Some (Inr JNull, ?w2\<lparr>http_reqs := http_reqs ?w2 @ [(DEBUG_PORT ?w2, ''/json'')]\<rparr>)"
    by (rule get_page_ws_unreachable) (simp add: assms(6))
  have c: "try_except discover_from_cws (\<lambda>e. returnM None) ?w2
             = Some (Inr None, ?w2\<lparr>http_reqs := http_reqs ?w2 @ [(DEBUG_PORT ?w2, ''/json'')]\<rparr>)"
    using p by (simp add: discover_from_cws_def try_except_def bindM_def returnM_def)
  have "discover_ext_id w
          = Some (Inr None, ?w2\<lparr>http_reqs := http_reqs ?w2 @ [(DEBUG_PORT ?w2, ''/json'')]\<rparr>)"
    using assms(2) b t c by (simp add: discover_ext_id_def bindM_def)
  then show ?thesis by simp
qed

lemma slow_start_world_sel:
  "http_reqs slow_start_world = []" "DEBUG_PORT slow_start_world = 9333"
  "files slow_start_world = [''chrome.exe'' \<mapsto> []]" "locked slow_start_world = {}"
  "dirs slow_start_world = {}" "spawned slow_start_world = []"
  "popen_res slow_start_world = (\<lambda>k. Inr 4242)"
  "stdout slow_start_world = []" "sleeps slow_start_world = []"
  "chrome_bin slow_start_world = ''chrome.exe''" "lib slow_start_world = example_lib"
  "ws_n slow_start_world = 0" "ws_log slow_start_world = []"
  "ws_connect slow_start_world = (\<lambda>k u. None)" "ws_send_res slow_start_world = (\<lambda>k. None)"
  "ws_incoming slow_start_world = (\<lambda>k i. RecvRaises (Exc WebSocketException ''timed out''))"
  by (simp_all add: slow_start_world_def launch_world_def idle_world_def)

lemma slow_start_world_resp:
  "k < 3 \<Longrightarrow> http_resp slow_start_world k ep = HttpUnreachable"
  "ep \<noteq> ''/json/version'' \<Longrightarrow> http_resp slow_start_world k ep = HttpUnreachable"
  "3 \<le> k \<Longrightarrow> http_resp slow_start_world k ''/json/version''
      = HttpJson (JObj [(''webSocketDebuggerUrl'', JStr ''ws://localhost:9333/devtools/browser/b1'')])"
  by (simp_all add: slow_start_world_def launch_world_def idle_world_def)

lemma start_on_slow_start_world:
  "cmd_start slow_start_world = Some (Inr (), slow_started_world)"
proof -
  let ?w3 = "slow_start_world
       \<lparr>http_reqs := http_reqs slow_start_world @ [(DEBUG_PORT slow_start_world, ''/json/version'')],
        dirs := insert CHROME_DATA (dirs slow_start_world),
        spawned := spawned slow_start_world @ [popen_args ''chrome.exe'' slow_start_world],
        stdout := stdout slow_start_world @ [''Starting Chrome...'']\<rparr>"
  let ?w4 = "(polled 2 ?w3)\<lparr>http_reqs := http_reqs ?w3
                           @ replicate (Suc 2) (DEBUG_PORT ?w3, ''/json/version'')\<rparr>"
  let ?w5 = "?w4\<lparr>dirs := insert STATE_DIR (dirs ?w4),
                 files := (files ?w4)(STATE_FILE \<mapsto>
                   json_dumps (lib ?w4) (JObj [(''pid'', JInt 4242), (''port'', JInt (DEBUG_PORT ?w4))])),
                 stdout := stdout ?w4 @ [''Chrome started (PID ?)''],
                 sleeps := sleeps ?w4 @ [3 / 2]\<rparr>"
  let ?u = "''ws://localhost:9333/devtools/browser/b1''"
  have 1: "cmd_start slow_start_world = start_poll 30 4242 ?w3"
    by (rule cmd_start_launch)
       (simp_all add: slow_start_world_sel slow_start_world_resp endpoint_down_def
          CHROME_CANDIDATES_def CHROME_DATA_def)
  have 2: "start_poll 30 4242 ?w3 = chrome_started 4242 ?w4"
    by (rule start_poll_first_up)
       (simp_all add: slow_start_world_sel slow_start_world_resp endpoint_down_def endpoint_up_def
          py_getitem_def)
  have s: "save_state 4242 ?w4 =
     Some (Inr (),
           ?w4\<lparr>dirs := insert STATE_DIR (dirs ?w4),
               files := (files ?w4)(STATE_FILE \<mapsto>
                 json_dumps (lib ?w4) (JObj [(''pid'', JInt 4242), (''port'', JInt (DEBUG_PORT ?w4))]))\<rparr>)"
    by (rule save_state_run)
       (simp_all add: polled_def slow_start_world_sel STATE_DIR_def STATE_FILE_def CHROME_DATA_def)
  have d: "discover_ext_id ?w5 =
     Some (Inr None,
           ?w5\<lparr>http_reqs := http_reqs ?w5 @ [(DEBUG_PORT ?w5, ''/json/version''), (DEBUG_PORT ?w5, ''/json'')],
               ws_n := Suc (ws_n ?w5),
               ws_log := ws_log ?w5 @ [WsOpen (ws_n ?w5) ?u,
                                       WsSend (ws_n ?w5) (cdp_msg ''Target.getTargets'' JNull),
                                       WsClose (ws_n ?w5)]\<rparr>)"
    by (rule discover_finds_nothing[where e = "Exc WebSocketException ''timed out''"])
       (simp_all add: polled_def slow_start_world_sel slow_start_world_resp)
  have 3: "chrome_started 4242 ?w4 =
     Some (Inr (),
           ?w5\<lparr>http_reqs := http_reqs ?w5 @ [(DEBUG_PORT ?w5, ''/json/version''), (DEBUG_PORT ?w5, ''/json'')],
               ws_n := Suc (ws_n ?w5),
               ws_log := ws_log ?w5 @ [WsOpen (ws_n ?w5) ?u,
                                       WsSend (ws_n ?w5) (cdp_msg ''Target.getTargets'' JNull),
                                       WsClose (ws_n ?w5)],
               stdout := stdout ?w5 @ [''Reader View not installed. Run: python browser.py setup'']\<rparr>)"
  proof -
    have "chrome_started 4242 ?w4 =
        (thenM (print_fmt (\<lambda>L. ''Chrome started (PID '' @ to_str L (JInt 4242) @ '')''))
          (thenM (sleep (3 / 2))
             (bindM discover_ext_id (\<lambda>ext_id.
                if ext_truthy ext_id then print_out (''Extension ID: '' @ ext_str ext_id)
                else print_out ''Reader View not installed. Run: python browser.py setup''))))
          (?w4\<lparr>dirs := insert STATE_DIR (dirs ?w4),
               files := (files ?w4)(STATE_FILE \<mapsto>
                 json_dumps (lib ?w4) (JObj [(''pid'', JInt 4242), (''port'', JInt (DEBUG_PORT ?w4))]))\<rparr>)"
      unfolding chrome_started_def by (rule after_save_state[OF s])
    also have "\<dots> = bindM discover_ext_id (\<lambda>ext_id.
                if ext_truthy ext_id then print_out (''Extension ID: '' @ ext_str ext_id)
                else print_out ''Reader View not installed. Run: python browser.py setup'') ?w5"
      by (simp add: thenM_def bindM_def print_fmt_def print_out_def sleep_def to_str_def
          polled_def slow_start_world_sel example_lib_def)
    also have "\<dots> = Some (Inr (),
           ?w5\<lparr>http_reqs := http_reqs ?w5 @ [(DEBUG_PORT ?w5, ''/json/version''), (DEBUG_PORT ?w5, ''/json'')],
               ws_n := Suc (ws_n ?w5),
               ws_log := ws_log ?w5 @ [WsOpen (ws_n ?w5) ?u,
                                       WsSend (ws_n ?w5) (cdp_msg ''Target.getTargets'' JNull),
                                       WsClose (ws_n ?w5)],
               stdout := stdout ?w5 @ [''Reader View not installed. Run: python browser.py setup'']\<rparr>)"
      unfolding bindM_Inr[of discover_ext_id ?w5, OF d]
      by (simp add: ext_truthy_def print_out_def)
    finally show ?thesis .
  qed
  have e: "replicate 5 (9333 :: int, ''/json/version'')
            = [(9333, ''/json/version''), (9333, ''/json/version''), (9333, ''/json/version''),
               (9333, ''/json/version''), (9333, ''/json/version'')]"
    by (simp add: numeral_eq_Suc)
  show ?thesis
    unfolding 1 2 3 slow_started_world_def e
    by (simp add: polled_def slow_start_world_sel example_lib_def cdp_msg_def numeral_eq_Suc)
qed

lemma camera_world_sel:
  "http_reqs camera_world = []" "DEBUG_PORT camera_world = 9333"
  "http_resp camera_world = http_resp running_world"
  "ws_connect camera_world = (\<lambda>k u. None)" "ws_send_res camera_world = (\<lambda>k. None)"
  "ws_incoming camera_world = (\<lambda>k i. Recv data_reply)"
  "ws_n camera_world = 0" "ws_log camera_world = []" "stdout camera_world = []"
  "files camera_world = Map.empty" "dirs camera_world = {}" "locked camera_world = {}"
  "b64decode (lib camera_world) = (\<lambda>j. Inr ''PNG'')"
  "path_resolve (lib camera_world) = (\<lambda>p. p)" "path_parent (lib camera_world) = (\<lambda>p. ''.'')"
  by (simp_all add: camera_world_def reply_world_def running_world_def idle_world_def
      example_lib_def)

lemma camera_world_steps:
  "require_running camera_world
     = Some (Inr (), camera_world\<lparr>http_reqs := [(9333, ''/json/version'')]\<rparr>)"
  "require_page (camera_world\<lparr>http_reqs := [(9333, ''/json/version'')]\<rparr>)
     = Some (Inr (JStr ''ws://localhost:9333/devtools/page/p1''),
             camera_world\<lparr>http_reqs := [(9333, ''/json/version''), (9333, ''/json'')]\<rparr>)"
  "cdp_send (JStr ''ws://localhost:9333/devtools/page/p1'') ''Page.captureScreenshot''
       (JObj [(''format'', JStr ''png'')])
       (camera_world\<lparr>http_reqs := [(9333, ''/json/version''), (9333, ''/json'')]\<rparr>)
     = Some (Inr data_reply,
             camera_world
               \<lparr>http_reqs := [(9333, ''/json/version''), (9333, ''/json'')],
                ws_n := 1,
                ws_log := [WsOpen 0 ''ws://localhost:9333/devtools/page/p1'',
                           WsSend 0 (JObj [(''id'', JInt 1), (''method'', JStr ''Page.captureScreenshot''),
                                           (''params'', JObj [(''format'', JStr ''png'')])]),
                           WsClose 0]\<rparr>)"
proof -
  let ?w1 = "camera_world\<lparr>http_reqs := [(9333, ''/json/version'')]\<rparr>"
  let ?w2 = "camera_world\<lparr>http_reqs := [(9333, ''/json/version''), (9333, ''/json'')]\<rparr>"
  let ?u = "''ws://localhost:9333/devtools/page/p1''"
  show "require_running camera_world = Some (Inr (), ?w1)"
    using running_world_up[of camera_world "[]"] by (simp add: camera_world_sel)
  show "require_page ?w1 = Some (Inr (JStr ?u), ?w2)"
    using running_world_page[of ?w1 "[(9333, ''/json/version'')]"] by (simp add: camera_world_sel)
  have h: "has_id_1 data_reply"
    by (simp add: has_id_1_def py_get_def py_eq_int_def data_reply_def)
  show "cdp_send (JStr ?u) ''Page.captureScreenshot'' (JObj [(''format'', JStr ''png'')]) ?w2
     = Some (Inr data_reply,
             camera_world
               \<lparr>http_reqs := [(9333, ''/json/version''), (9333, ''/json'')],
                ws_n := 1,
                ws_log := [WsOpen 0 ''ws://localhost:9333/devtools/page/p1'',
                           WsSend 0 (JObj [(''id'', JInt 1), (''method'', JStr ''Page.captureScreenshot''),
                                           (''params'', JObj [(''format'', JStr ''png'')])]),
                           WsClose 0]\<rparr>)"
    using cdp_send_answer[of ?w2 ?u 0 data_reply "''Page.captureScreenshot''"
            "JObj [(''format'', JStr ''png'')]"] h
    by (simp add: camera_world_sel cdp_msg_def)
qed



lemma found_world_cache:
  "files found_world EXT_ID_FILE = Some ''ecabifbgmdmgdllomnfinbmaellmclnh''"
  "strip ''ecabifbgmdmgdllomnfinbmaellmclnh'' = ''ecabifbgmdmgdllomnfinbmaellmclnh''"
  "''ecabifbgmdmgdllomnfinbmaellmclnh'' \<notin> BUILTIN_EXT_IDS"
  by (simp_all add: found_world_def strip_def is_space_def BUILTIN_EXT_IDS_def)


end
